theory Spec2Isabelle
  imports Complex_Main
begin

section \<open>Conventions\<close>

text \<open>
  The engine is TypeScript; every quantity is a JavaScript number. The model of the engine
  uses exact real arithmetic for them (no rounding, no NaN, no infinities). Where a
  property depends on rounding (the zero-interest round trip of the simulator, and the
  equality of two totals that add the same balances in different orders), the simulator
  and the totals are given a second time with the rounding of every operation written out,
  and IEEE 754 double rounding is defined in the section on double arithmetic; with no
  rounding the second versions are the first ones. An optional field (\<open>x?: number\<close>) is
  an \<open>option\<close>; the truthiness test \<open>x && ...\<close> on such a field is "present and not
  zero"; \<open>x ?? y\<close> is "x when present, otherwise y".
\<close>

section \<open>Data model\<close>

text \<open>The fields of \<open>models.ts\<close> that the engine reads. \<open>createdAt\<close> of a stock holding
  is kept as the number \<open>new Date(st.createdAt).getTime()\<close> (milliseconds), the only way the
  engine uses it.\<close>

datatype DebtType = credit_card | student_loan | auto_loan | personal_loan | mortgage | medical | other

record RealEstateHolding =
  estimatedValue :: real
  mortgageBalance :: real
  monthlyMortgagePayment :: "real option"

record StockHolding =
  shares :: real
  costBasisPerShare :: real
  currentPrice :: "real option"
  createdAt :: real

record CryptoHolding =
  quantity :: real
  costBasisPerUnit :: real
  currentPrice :: "real option"

record RetirementAccount =
  balance :: real
  contributions :: "real option"

record DebtLiability =
  name :: string
  debtType :: DebtType
  currentBalance :: real
  interestRate :: real
  minimumPayment :: real
  monthlyPayment :: "real option"

text \<open>Texts are template literals. A text is the list of its pieces: literal text,
  \<open>formatUsd(x)\<close>, \<open>x.toFixed(n)\<close>, a number or a string spliced in with \<open>${...}\<close>. The
  em dash of the source's literals is written \<open>--\<close>.\<close>

datatype Frag = Lit string | Usd real | Fixed nat real | Num real | Str string

type_synonym Text = "Frag list"

text \<open>\<open>category\<close> and \<open>severity\<close> are strings at run time; the interface \<open>Insight\<close>
  declares the values they may take. \<open>insight_id\<close> is the number \<open>n\<close> of the id
  \<open>insight-n\<close>.\<close>

record Insight =
  insight_id :: nat
  category :: string
  severity :: string
  title :: Text
  description :: Text
  impact :: "Text option"

definition declaredCategories :: "string set" where
  "declaredCategories = {''debt_payoff'', ''leverage'', ''portfolio_health'', ''cash_flow'', ''opportunity''}"

definition declaredSeverities :: "string set" where
  "declaredSeverities = {''info'', ''warning'', ''critical'', ''positive''}"

record Metrics =
  totalAssets :: real
  totalDebts :: real
  netWorth :: real
  debtToAssetRatio :: real
  weightedAvgDebtRate :: real
  monthlyDebtPayments :: real
  highInterestDebtTotal :: real
  goodDebtTotal :: real
  badDebtTotal :: real
  goodDebtMonthly :: real
  badDebtMonthly :: real

text \<open>The element type of the simulator's \<open>debts\<close> argument, as built by the report
  assembler (\<open>debtItems\<close>).\<close>

record PayoffItem =
  name :: string
  balance :: real
  rate :: real
  minimumPayment :: real

text \<open>The field \<open>method\<close> of a plan is \<open>payoffMethod\<close> here.\<close>

record DebtPayoffPlan =
  payoffMethod :: string
  order :: "PayoffItem list"
  totalMonthlyMinimum :: real
  monthsToPayoff :: nat

record DebtPayoff =
  avalanche :: DebtPayoffPlan
  snowball :: DebtPayoffPlan

record InsightsReport =
  generatedAt :: real
  insights :: "Insight list"
  debtPayoff :: "DebtPayoff option"
  metrics :: Metrics

section \<open>Payoff simulator (\<open>estimatePayoffMonths\<close>)\<close>

text \<open>\<open>balances.reduce((s, b) => s + Math.max(b, 0), 0)\<close>\<close>

definition totalRemaining :: "real list \<Rightarrow> real" where
  "totalRemaining balances = foldl (\<lambda>s b. s + max b 0) 0 balances"

text \<open>Body of the interest loop at index \<open>i\<close>:
  \<open>if (balances[i] > 0) balances[i] += balances[i] * rates[i]\<close>.\<close>

definition accrueBody :: "real list \<Rightarrow> nat \<Rightarrow> real list \<Rightarrow> real list" where
  "accrueBody rates i balances =
     (if balances ! i > 0
      then balances[i := balances ! i + balances ! i * rates ! i]
      else balances)"

text \<open>\<open>for (let i = 0; i < balances.length; i++) ...\<close>: the body at the indices
  \<open>0, 1, ..., length - 1\<close> in this order (the length never changes).\<close>

definition accrueInterest :: "real list \<Rightarrow> real list \<Rightarrow> real list" where
  "accrueInterest rates balances = fold (accrueBody rates) [0..<length balances] balances"

text \<open>Body of the minimum-payment loop at index \<open>i\<close>, on the pair of the balances and
  the month's remaining budget.\<close>

definition payMinBody :: "real list \<Rightarrow> nat \<Rightarrow> real list \<times> real \<Rightarrow> real list \<times> real" where
  "payMinBody mins i s =
     (case s of (balances, budget) \<Rightarrow>
        if balances ! i \<le> 0 then (balances, budget)
        else let minPay = min (mins ! i) (min (balances ! i) budget)
             in (balances[i := balances ! i - minPay], budget - minPay))"

text \<open>The minimum-payment loop stopped after its first \<open>n\<close> iterations; the whole loop
  is \<open>payMinimums\<close>.\<close>

definition payMinimumsUpTo :: "nat \<Rightarrow> real list \<Rightarrow> real list \<times> real \<Rightarrow> real list \<times> real" where
  "payMinimumsUpTo n mins s = fold (payMinBody mins) [0..<n] s"

definition payMinimums :: "real list \<Rightarrow> real list \<times> real \<Rightarrow> real list \<times> real" where
  "payMinimums mins s = payMinimumsUpTo (length (fst s)) mins s"

text \<open>The extra-payment loop: skips paid debts, pays the first unpaid one and breaks.\<close>

function payExtraFrom :: "nat \<Rightarrow> real list \<times> real \<Rightarrow> real list \<times> real" where
  "payExtraFrom i (balances, budget) =
     (if i < length balances then
        (if balances ! i \<le> 0 then payExtraFrom (i + 1) (balances, budget)
         else let extra = min (balances ! i) budget
              in (balances[i := balances ! i - extra], budget - extra))
      else (balances, budget))"
  by pat_completeness auto
termination
  by (relation "measure (\<lambda>(i, s). length (fst s) - i)") auto

definition payExtra :: "real list \<times> real \<Rightarrow> real list \<times> real" where
  "payExtra s = (if snd s > 0 then payExtraFrom 0 s else s)"

text \<open>One pass of the \<open>while\<close> body after \<open>months++\<close>: interest, then the budget is
  reset to \<open>totalMonthlyPayment\<close>, minimums, extra. What is left of the budget is dropped.\<close>

definition simulateMonth :: "real list \<Rightarrow> real list \<Rightarrow> real \<Rightarrow> real list \<Rightarrow> real list" where
  "simulateMonth rates mins totalMonthlyPayment balances =
     fst (payExtra (payMinimums mins (accrueInterest rates balances, totalMonthlyPayment)))"

definition MAX_MONTHS :: nat where
  "MAX_MONTHS = 600"

text \<open>The \<open>while (months < MAX_MONTHS)\<close> loop, with its \<open>break\<close> at
  \<open>totalRemaining <= 0.01\<close>.\<close>

function payoffLoop :: "real list \<Rightarrow> real list \<Rightarrow> real \<Rightarrow> nat \<Rightarrow> real list \<Rightarrow> nat" where
  "payoffLoop rates mins totalMonthlyPayment months balances =
     (if months < MAX_MONTHS then
        (if totalRemaining balances \<le> 1 / 100 then months
         else payoffLoop rates mins totalMonthlyPayment (months + 1)
                (simulateMonth rates mins totalMonthlyPayment balances))
      else months)"
  by pat_completeness auto
termination
  by (relation "measure (\<lambda>(rates, mins, t, months, balances). MAX_MONTHS - months)") auto

definition estimatePayoffMonths :: "PayoffItem list \<Rightarrow> real \<Rightarrow> nat" where
  "estimatePayoffMonths debts totalMonthlyPayment =
     (if length debts = 0 \<or> totalMonthlyPayment \<le> 0 then 0
      else payoffLoop (map (\<lambda>d. rate d / 100 / 12) debts) (map minimumPayment debts)
             totalMonthlyPayment 0 (map balance debts))"


section \<open>Insights engine\<close>

subsection \<open>JavaScript idioms\<close>

text \<open>\<open>x ?? y\<close>\<close>

definition nullish :: "'a option \<Rightarrow> 'a \<Rightarrow> 'a" where
  "nullish x y = (case x of Some v \<Rightarrow> v | None \<Rightarrow> y)"

text \<open>An optional number used as a condition: absent and \<open>0\<close> are falsy.\<close>

definition truthy :: "real option \<Rightarrow> bool" where
  "truthy x = (case x of Some v \<Rightarrow> v \<noteq> 0 | None \<Rightarrow> False)"

text \<open>\<open>texts.join(sep)\<close>\<close>

fun join :: "Text \<Rightarrow> Text list \<Rightarrow> Text" where
  "join sep [] = []"
| "join sep [t] = t"
| "join sep (t # ts) = t @ sep @ join sep ts"

text \<open>\<open>insights.push({ id: nextId(), ... })\<close>. The counter is reset on entry and every
  push takes the next id, so the id pushed is one more than the number of insights so far.\<close>

definition push :: "Insight list \<Rightarrow> string \<Rightarrow> string \<Rightarrow> Text \<Rightarrow> Text \<Rightarrow> Text option \<Rightarrow> Insight list" where
  "push ins c s t d i =
     ins @ [\<lparr>insight_id = length ins + 1, category = c, severity = s, title = t,
             description = d, impact = i\<rparr>]"

text \<open>\<open>Math.pow\<close> on a non-negative base. (For a negative base and a fractional exponent
  JavaScript yields NaN, which has no counterpart here; no theorem below evaluates it there.)\<close>

definition Math_pow :: "real \<Rightarrow> real \<Rightarrow> real" where
  "Math_pow x y = x powr y"

subsection \<open>Totals\<close>

definition isGoodDebt :: "DebtType \<Rightarrow> real \<Rightarrow> bool" where
  "isGoodDebt ty ir =
     (if ty = mortgage then True
      else if ty = student_loan \<and> ir \<le> 7 then True
      else False)"

definition totalRealEstateEquity :: "RealEstateHolding list \<Rightarrow> real" where
  "totalRealEstateEquity realEstate =
     foldl (\<lambda>s p. s + (estimatedValue p - mortgageBalance p)) 0 realEstate"

definition totalStocks :: "StockHolding list \<Rightarrow> real" where
  "totalStocks stocks =
     foldl (\<lambda>s st. s + shares st * nullish (StockHolding.currentPrice st) (costBasisPerShare st)) 0 stocks"

definition totalCrypto :: "CryptoHolding list \<Rightarrow> real" where
  "totalCrypto crypto =
     foldl (\<lambda>s c. s + quantity c * nullish (CryptoHolding.currentPrice c) (costBasisPerUnit c)) 0 crypto"

definition totalRetirement :: "RetirementAccount list \<Rightarrow> real" where
  "totalRetirement retirement = foldl (\<lambda>s r. s + RetirementAccount.balance r) 0 retirement"

definition totalAssets ::
  "RealEstateHolding list \<Rightarrow> StockHolding list \<Rightarrow> CryptoHolding list \<Rightarrow> RetirementAccount list \<Rightarrow> real" where
  "totalAssets realEstate stocks crypto retirement =
     totalRealEstateEquity realEstate + totalStocks stocks + totalCrypto crypto
       + totalRetirement retirement"

definition totalMortgageBalances :: "RealEstateHolding list \<Rightarrow> real" where
  "totalMortgageBalances realEstate = foldl (\<lambda>s p. s + mortgageBalance p) 0 realEstate"

definition monthlyMortgagePayments :: "RealEstateHolding list \<Rightarrow> real" where
  "monthlyMortgagePayments realEstate =
     foldl (\<lambda>s p. s + nullish (monthlyMortgagePayment p) 0) 0 realEstate"

definition totalDebtsOnly :: "DebtLiability list \<Rightarrow> real" where
  "totalDebtsOnly debts = foldl (\<lambda>s d. s + currentBalance d) 0 debts"

definition totalDebts :: "DebtLiability list \<Rightarrow> real" where
  "totalDebts debts = totalDebtsOnly debts"

definition totalAllObligations :: "RealEstateHolding list \<Rightarrow> DebtLiability list \<Rightarrow> real" where
  "totalAllObligations realEstate debts = totalDebtsOnly debts + totalMortgageBalances realEstate"

definition netWorth ::
  "RealEstateHolding list \<Rightarrow> StockHolding list \<Rightarrow> CryptoHolding list \<Rightarrow> RetirementAccount list
     \<Rightarrow> DebtLiability list \<Rightarrow> real" where
  "netWorth realEstate stocks crypto retirement debts =
     totalAssets realEstate stocks crypto retirement - totalDebts debts"

definition badDebts :: "DebtLiability list \<Rightarrow> DebtLiability list" where
  "badDebts debts = filter (\<lambda>d. \<not> isGoodDebt (debtType d) (interestRate d)) debts"

definition goodDebtsFromTable :: "DebtLiability list \<Rightarrow> DebtLiability list" where
  "goodDebtsFromTable debts = filter (\<lambda>d. isGoodDebt (debtType d) (interestRate d)) debts"

text \<open>\<open>d.monthlyPayment ?? d.minimumPayment\<close>\<close>

definition payment :: "DebtLiability \<Rightarrow> real" where
  "payment d = nullish (monthlyPayment d) (DebtLiability.minimumPayment d)"

definition badDebtTotal :: "DebtLiability list \<Rightarrow> real" where
  "badDebtTotal debts = foldl (\<lambda>s d. s + currentBalance d) 0 (badDebts debts)"

definition goodDebtTotal :: "RealEstateHolding list \<Rightarrow> DebtLiability list \<Rightarrow> real" where
  "goodDebtTotal realEstate debts =
     foldl (\<lambda>s d. s + currentBalance d) 0 (goodDebtsFromTable debts)
       + totalMortgageBalances realEstate"

definition badDebtMonthly :: "DebtLiability list \<Rightarrow> real" where
  "badDebtMonthly debts = foldl (\<lambda>s d. s + payment d) 0 (badDebts debts)"

definition goodDebtMonthly :: "RealEstateHolding list \<Rightarrow> DebtLiability list \<Rightarrow> real" where
  "goodDebtMonthly realEstate debts =
     foldl (\<lambda>s d. s + payment d) 0 (goodDebtsFromTable debts) + monthlyMortgagePayments realEstate"

definition totalAllDebtBalance :: "RealEstateHolding list \<Rightarrow> DebtLiability list \<Rightarrow> real" where
  "totalAllDebtBalance realEstate debts = totalDebtsOnly debts + totalMortgageBalances realEstate"

definition debtWeightedSum :: "DebtLiability list \<Rightarrow> real" where
  "debtWeightedSum debts = foldl (\<lambda>s d. s + interestRate d * currentBalance d) 0 debts"

definition mortgageWeightedSum :: "RealEstateHolding list \<Rightarrow> real" where
  "mortgageWeightedSum realEstate = totalMortgageBalances realEstate * 6"

definition weightedAvgDebtRate :: "RealEstateHolding list \<Rightarrow> DebtLiability list \<Rightarrow> real" where
  "weightedAvgDebtRate realEstate debts =
     (if totalAllDebtBalance realEstate debts > 0
      then (debtWeightedSum debts + mortgageWeightedSum realEstate) / totalAllDebtBalance realEstate debts
      else 0)"

definition monthlyDebtPayments :: "RealEstateHolding list \<Rightarrow> DebtLiability list \<Rightarrow> real" where
  "monthlyDebtPayments realEstate debts =
     foldl (\<lambda>s d. s + payment d) 0 debts + monthlyMortgagePayments realEstate"

definition highInterestDebts :: "DebtLiability list \<Rightarrow> DebtLiability list" where
  "highInterestDebts debts = filter (\<lambda>d. interestRate d \<ge> 10) debts"

definition highInterestDebtTotal :: "DebtLiability list \<Rightarrow> real" where
  "highInterestDebtTotal debts = foldl (\<lambda>s d. s + currentBalance d) 0 (highInterestDebts debts)"

definition debtToAssetRatio ::
  "RealEstateHolding list \<Rightarrow> StockHolding list \<Rightarrow> CryptoHolding list \<Rightarrow> RetirementAccount list
     \<Rightarrow> DebtLiability list \<Rightarrow> real" where
  "debtToAssetRatio realEstate stocks crypto retirement debts =
     (if totalAssets realEstate stocks crypto retirement > 0
      then totalAllObligations realEstate debts / totalAssets realEstate stocks crypto retirement
      else 0)"

subsection \<open>Leverage analysis\<close>

definition stockGains :: "StockHolding list \<Rightarrow> real" where
  "stockGains stocks =
     foldl (\<lambda>s st. let current = nullish (StockHolding.currentPrice st) (costBasisPerShare st)
                    in s + (current - costBasisPerShare st) * shares st) 0 stocks"

definition stockCostBasis :: "StockHolding list \<Rightarrow> real" where
  "stockCostBasis stocks = foldl (\<lambda>s st. s + shares st * costBasisPerShare st) 0 stocks"

text \<open>\<open>now\<close> is the value of \<open>Date.now()\<close>, in milliseconds.\<close>

definition oldestStockDate :: "StockHolding list \<Rightarrow> real \<Rightarrow> real" where
  "oldestStockDate stocks now =
     foldl (\<lambda>oldest st. let d = createdAt st in if d < oldest then d else oldest) now stocks"

definition holdingYears :: "StockHolding list \<Rightarrow> real \<Rightarrow> real" where
  "holdingYears stocks now =
     max ((now - oldestStockDate stocks now) / (365.25 * 24 * 60 * 60 * 1000)) 1"

definition annualizedReturnPct :: "StockHolding list \<Rightarrow> real \<Rightarrow> real" where
  "annualizedReturnPct stocks now =
     (if stockCostBasis stocks > 0
      then (Math_pow (1 + stockGains stocks / stockCostBasis stocks) (1 / holdingYears stocks now) - 1) * 100
      else 0)"

subsection \<open>Rules\<close>

text \<open>Each block of the engine that may push an insight is a function from the insights
  pushed so far to the insights after it, named after the block's comment.\<close>

definition goodVsBadDebtOverview ::
  "RealEstateHolding list \<Rightarrow> DebtLiability list \<Rightarrow> Insight list \<Rightarrow> Insight list" where
  "goodVsBadDebtOverview realEstate debts ins =
     (if totalAllObligations realEstate debts > 0 then
        (if badDebtTotal debts > 0 \<and> goodDebtTotal realEstate debts > 0 then
           push ins ''debt_payoff''
             (if badDebtTotal debts > goodDebtTotal realEstate debts then ''warning'' else ''info'')
             [Usd (badDebtTotal debts), Lit '' bad debt vs '', Usd (goodDebtTotal realEstate debts),
              Lit '' good debt'']
             [Lit ''Bad debt (credit cards, personal loans, high-rate): '', Usd (badDebtTotal debts),
              Lit '' costing '', Usd (badDebtMonthly debts),
              Lit ''/mo. Good debt (mortgages, low-rate student loans): '',
              Usd (goodDebtTotal realEstate debts), Lit '' costing '',
              Usd (goodDebtMonthly realEstate debts),
              Lit ''/mo. Focus on eliminating bad debt first -- good debt builds equity or is tax-advantaged.'']
             None
         else if badDebtTotal debts > 0 then
           push ins ''debt_payoff'' ''warning''
             [Lit ''All '', Usd (badDebtTotal debts), Lit '' of your debt is high-cost'']
             [Lit ''You have '', Usd (badDebtTotal debts), Lit '' in bad debt costing '',
              Usd (badDebtMonthly debts),
              Lit ''/mo. Prioritize paying this off aggressively before investing.'']
             None
         else if goodDebtTotal realEstate debts > 0 \<and> badDebtTotal debts = 0 then
           push ins ''debt_payoff'' ''positive''
             [Lit ''Only good debt -- no high-cost liabilities'']
             [Lit ''Your '', Usd (goodDebtTotal realEstate debts),
              Lit '' in debt is all low-rate mortgages/student loans ('',
              Usd (goodDebtMonthly realEstate debts),
              Lit ''/mo). This debt builds equity or is tax-advantaged. No need to aggressively pay it off -- investing likely earns more.'']
             None
         else ins)
      else ins)"

text \<open>\<open>`${d.name} (${d.interestRate}%)`\<close>\<close>

definition nameAndRate :: "DebtLiability \<Rightarrow> Text" where
  "nameAndRate d = [Str (DebtLiability.name d), Lit '' ('', Num (interestRate d), Lit ''%)'']"

definition highInterestDebtWarning ::
  "RealEstateHolding list \<Rightarrow> StockHolding list \<Rightarrow> CryptoHolding list \<Rightarrow> RetirementAccount list
     \<Rightarrow> DebtLiability list \<Rightarrow> Insight list \<Rightarrow> Insight list" where
  "highInterestDebtWarning realEstate stocks crypto retirement debts ins =
     (if highInterestDebtTotal debts > 0 then
        (let highRateDebts = join [Lit '', ''] (map nameAndRate (highInterestDebts debts))
         in push ins ''debt_payoff''
              (if highInterestDebtTotal debts > totalAssets realEstate stocks crypto retirement * 0.1
               then ''critical'' else ''warning'')
              [Lit ''High-interest debt detected'']
              ([Lit ''You have '', Usd (highInterestDebtTotal debts),
                Lit '' in high-interest debt (10%+): ''] @ highRateDebts @
               [Lit ''. These debts cost you ~'',
                Usd (highInterestDebtTotal debts * weightedAvgDebtRate realEstate debts / 100 / 12),
                Lit ''/month in interest alone.''])
              (Some [Lit ''Paying these off first (avalanche method) saves the most money over time.'']))
      else ins)"

text \<open>\<open>d => d.monthlyPayment && d.monthlyPayment <= d.minimumPayment * 1.05\<close>\<close>

definition minOnlyDebts :: "DebtLiability list \<Rightarrow> DebtLiability list" where
  "minOnlyDebts debts =
     filter (\<lambda>d. truthy (monthlyPayment d)
                 \<and> the (monthlyPayment d) \<le> DebtLiability.minimumPayment d * 1.05) debts"

text \<open>The description of the minimum-payment warning for the debts \<open>ds\<close> it lists:
  \<open>`${ds.map(d => d.name).join(', ')} -- paying only ...`\<close>.\<close>

definition minimumPaymentDescription :: "DebtLiability list \<Rightarrow> Text" where
  "minimumPaymentDescription ds =
     join [Lit '', ''] (map (\<lambda>d. [Str (DebtLiability.name d)]) ds) @
     [Lit '' -- paying only the minimum extends repayment time significantly and maximizes interest paid.'']"

definition minimumPaymentWarning :: "DebtLiability list \<Rightarrow> Insight list \<Rightarrow> Insight list" where
  "minimumPaymentWarning debts ins =
     (if length (minOnlyDebts debts) > 0 then
        push ins ''cash_flow'' ''warning''
          [Lit ''Paying only minimums on some debts'']
          (minimumPaymentDescription (minOnlyDebts debts))
          (Some [Lit ''Even $50-100 extra/month on the highest-rate debt can save hundreds in interest.''])
      else ins)"

definition annualInterest :: "DebtLiability list \<Rightarrow> real" where
  "annualInterest debts = foldl (\<lambda>s d. s + currentBalance d * interestRate d / 100) 0 debts"

definition annualInterestCost :: "DebtLiability list \<Rightarrow> Insight list \<Rightarrow> Insight list" where
  "annualInterestCost debts ins =
     (if annualInterest debts > 0 then
        push ins ''debt_payoff''
          (if annualInterest debts > 2000 then ''warning'' else ''info'')
          [Lit ''Paying ~'', Usd (annualInterest debts), Lit ''/year in interest'']
          [Lit ''Your debts cost approximately '', Usd (annualInterest debts), Lit '' per year ('',
           Usd (annualInterest debts / 12),
           Lit ''/month) in interest charges. Eliminating high-rate debts first reduces this fastest.'']
          None
      else ins)"

text \<open>The block \<open>if (debts.length > 0) { ... }\<close> under "Debt Payoff Insights".\<close>

definition debtPayoffInsights ::
  "RealEstateHolding list \<Rightarrow> StockHolding list \<Rightarrow> CryptoHolding list \<Rightarrow> RetirementAccount list
     \<Rightarrow> DebtLiability list \<Rightarrow> Insight list \<Rightarrow> Insight list" where
  "debtPayoffInsights realEstate stocks crypto retirement debts ins =
     (if length debts > 0 then
        annualInterestCost debts
          (minimumPaymentWarning debts
            (highInterestDebtWarning realEstate stocks crypto retirement debts ins))
      else ins)"

definition highRateDebtsAboveReturn :: "StockHolding list \<Rightarrow> real \<Rightarrow> DebtLiability list \<Rightarrow> DebtLiability list" where
  "highRateDebtsAboveReturn stocks now debts =
     filter (\<lambda>d. interestRate d > annualizedReturnPct stocks now) debts"

text \<open>The description of the leverage warning for the annualized return \<open>ret\<close> and the
  debts \<open>ds\<close> it lists.\<close>

definition leverageDescription :: "real \<Rightarrow> DebtLiability list \<Rightarrow> Text" where
  "leverageDescription ret ds =
     [Lit ''Your annualized portfolio return is ~'', Fixed 1 ret, Lit ''%, but ''] @
     join [Lit '', ''] (map nameAndRate ds) @
     [Lit '' charge more than that. Paying off these debts gives a guaranteed \"return\" equal to their interest rate.'']"

text \<open>The text \<open>highRateDebtsAboveReturn[0].interestRate\<close> is only built when the list is
  not empty.\<close>

definition leverageInsight ::
  "StockHolding list \<Rightarrow> real \<Rightarrow> DebtLiability list \<Rightarrow> Insight list \<Rightarrow> Insight list" where
  "leverageInsight stocks now debts ins =
     (if length debts > 0 \<and> annualizedReturnPct stocks now > 0 then
        (case highRateDebtsAboveReturn stocks now debts of
           [] \<Rightarrow> ins
         | first # _ \<Rightarrow>
             push ins ''leverage'' ''warning''
               [Lit ''Debt interest exceeds investment returns'']
               (leverageDescription (annualizedReturnPct stocks now)
                  (highRateDebtsAboveReturn stocks now debts))
               (Some [Lit ''Every dollar put toward a '', Num (interestRate first),
                      Lit ''% debt is like earning '', Num (interestRate first), Lit ''% risk-free.'']))
      else ins)"

definition creditCards :: "DebtLiability list \<Rightarrow> DebtLiability list" where
  "creditCards debts = filter (\<lambda>d. debtType d = credit_card \<and> currentBalance d > 0) debts"

definition creditCardVsInvesting ::
  "StockHolding list \<Rightarrow> CryptoHolding list \<Rightarrow> DebtLiability list \<Rightarrow> Insight list \<Rightarrow> Insight list" where
  "creditCardVsInvesting stocks crypto debts ins =
     (if length (creditCards debts) > 0 \<and> (totalStocks stocks > 0 \<or> totalCrypto crypto > 0) then
        (let ccTotal = foldl (\<lambda>s d. s + currentBalance d) 0 (creditCards debts);
             avgCCRate = foldl (\<lambda>s d. s + interestRate d * currentBalance d) 0 (creditCards debts) / ccTotal
         in push ins ''leverage'' ''critical''
              [Lit ''Credit card debt while investing'']
              [Lit ''You have '', Usd ccTotal, Lit '' in credit card debt at ~'', Fixed 1 avgCCRate,
               Lit ''% APR while holding investments. No investment reliably beats '', Fixed 0 avgCCRate,
               Lit ''% guaranteed returns from paying off credit cards.'']
              (Some [Lit ''Consider pausing new investments until credit card debt is eliminated.'']))
      else ins)"

definition debtToAssetRatioInsight ::
  "RealEstateHolding list \<Rightarrow> StockHolding list \<Rightarrow> CryptoHolding list \<Rightarrow> RetirementAccount list
     \<Rightarrow> DebtLiability list \<Rightarrow> Insight list \<Rightarrow> Insight list" where
  "debtToAssetRatioInsight realEstate stocks crypto retirement debts ins =
     (let ratio = debtToAssetRatio realEstate stocks crypto retirement debts in
      if ratio > 0 then
        (let desc = [Lit ''Your debt-to-asset ratio is '', Fixed 1 (ratio * 100), Lit ''%. ''];
             sd = (if ratio < 0.2 then
                     (''positive'', desc @ [Lit ''This is excellent -- you have strong equity relative to debt. Even aggressive investors typically aim for under 30-40%, so you have plenty of room to leverage if desired.''])
                   else if ratio < 0.4 then
                     (''info'', desc @ [Lit ''For an aggressive investor, this is a comfortable range (under 40%). You're using leverage without overextending. Focus on keeping bad debt near zero and only carrying debt that builds wealth (mortgages, low-rate loans invested at higher returns).''])
                   else if ratio < 0.6 then
                     (''warning'', desc @ [Lit ''This is getting elevated. Aggressive investors can tolerate up to 40-50% if it's mostly good debt (mortgages, low-rate leverage), but above that you're exposed to market downturns wiping out equity. Reduce bad debt before taking on more.''])
                   else
                     (''critical'', desc @ [Lit ''This is high even for aggressive investors. Above 60%, a market correction could put you underwater. Prioritize paying down high-interest debt immediately -- no investment reliably outearns 15%+ credit card rates.'']))
         in push ins ''portfolio_health'' (fst sd)
              [Lit ''Debt-to-asset ratio: '', Fixed 1 (ratio * 100), Lit ''%'']
              (snd sd) None)
      else ins)"

definition totalInvestable :: "StockHolding list \<Rightarrow> CryptoHolding list \<Rightarrow> RetirementAccount list \<Rightarrow> real" where
  "totalInvestable stocks crypto retirement =
     totalStocks stocks + totalCrypto crypto + totalRetirement retirement"

definition cryptoPct :: "StockHolding list \<Rightarrow> CryptoHolding list \<Rightarrow> RetirementAccount list \<Rightarrow> real" where
  "cryptoPct stocks crypto retirement =
     (if totalInvestable stocks crypto retirement > 0
      then totalCrypto crypto / totalInvestable stocks crypto retirement * 100 else 0)"

definition stocksPct :: "StockHolding list \<Rightarrow> CryptoHolding list \<Rightarrow> RetirementAccount list \<Rightarrow> real" where
  "stocksPct stocks crypto retirement =
     (if totalInvestable stocks crypto retirement > 0
      then totalStocks stocks / totalInvestable stocks crypto retirement * 100 else 0)"

definition diversificationCheck ::
  "StockHolding list \<Rightarrow> CryptoHolding list \<Rightarrow> RetirementAccount list \<Rightarrow> Insight list \<Rightarrow> Insight list" where
  "diversificationCheck stocks crypto retirement ins =
     (if totalInvestable stocks crypto retirement > 0 then
        (let ins1 =
               (if cryptoPct stocks crypto retirement > 30 then
                  push ins ''portfolio_health'' ''warning''
                    [Lit ''Crypto is '', Fixed 0 (cryptoPct stocks crypto retirement),
                     Lit ''% of investable assets'']
                    [Lit ''Having '', Fixed 0 (cryptoPct stocks crypto retirement),
                     Lit ''% in crypto is high-risk concentration. Consider rebalancing -- most advisors suggest keeping volatile assets under 10-20% of your portfolio.'']
                    None
                else ins)
         in if stocksPct stocks crypto retirement > 80 then
              push ins1 ''portfolio_health'' ''info''
                [Lit ''Stocks are '', Fixed 0 (stocksPct stocks crypto retirement),
                 Lit ''% of investable assets'']
                [Lit ''Heavy stock concentration. Consider diversifying across asset classes (bonds, real estate, international) to reduce volatility.'']
                None
            else ins1)
      else ins)"

definition emergencyFundCheck ::
  "RealEstateHolding list \<Rightarrow> StockHolding list \<Rightarrow> CryptoHolding list \<Rightarrow> DebtLiability list
     \<Rightarrow> Insight list \<Rightarrow> Insight list" where
  "emergencyFundCheck realEstate stocks crypto debts ins =
     (if monthlyDebtPayments realEstate debts > 0 \<and> length debts > 0 then
        (let monthlyExpenseEstimate = monthlyDebtPayments realEstate debts * 2;
             liquidAssets = totalStocks stocks + totalCrypto crypto;
             monthsCovered = liquidAssets / monthlyExpenseEstimate
         in if monthsCovered < 3 then
              push ins ''cash_flow'' ''warning''
                [Lit ''Limited emergency buffer'']
                [Lit ''Your liquid assets (~'', Usd liquidAssets, Lit '') cover roughly '',
                 Fixed 1 monthsCovered,
                 Lit '' months of estimated expenses. Aim for 3-6 months of expenses in an accessible account before aggressive investing.'']
                None
            else ins)
      else ins)"

text \<open>The three age blocks of \<open>generateInsights\<close>. \<open>age\<close> is
  \<open>ageSetting ? parseInt(ageSetting) : null\<close>: \<open>None\<close> when the setting is absent (or does
  not parse); \<open>age && ...\<close> also fails for the age \<open>0\<close>.\<close>

definition retirementHorizon ::
  "RetirementAccount list \<Rightarrow> int option \<Rightarrow> Insight list \<Rightarrow> Insight list" where
  "retirementHorizon retirement age ins =
     (case age of
        None \<Rightarrow> ins
      | Some a \<Rightarrow>
          if a \<noteq> 0 \<and> totalRetirement retirement > 0 then
            (let yearsToRetirement = max (65 - a) 0 in
             if yearsToRetirement > 0 then
               push ins ''portfolio_health'' ''info''
                 [Lit ''~'', Num (real_of_int yearsToRetirement), Lit '' years to traditional retirement'']
                 [Lit ''At age '', Num (real_of_int a), Lit '', you have roughly '',
                  Num (real_of_int yearsToRetirement),
                  Lit '' years until age 65. Your retirement accounts hold '',
                  Usd (totalRetirement retirement), Lit ''. Time is '',
                  Lit (if yearsToRetirement > 20
                       then ''strongly on your side -- compound growth will do heavy lifting''
                       else if yearsToRetirement > 10
                       then ''still working for you, but maximizing contributions now is important''
                       else ''limited -- consider catch-up contributions and reducing portfolio risk''),
                  Lit ''.'']
                 None
             else ins)
          else ins)"

definition ageAppropriateRisk ::
  "StockHolding list \<Rightarrow> CryptoHolding list \<Rightarrow> RetirementAccount list \<Rightarrow> int option
     \<Rightarrow> Insight list \<Rightarrow> Insight list" where
  "ageAppropriateRisk stocks crypto retirement age ins =
     (case age of
        None \<Rightarrow> ins
      | Some a \<Rightarrow>
          if a \<noteq> 0 \<and> a < 35 \<and> totalCrypto crypto > 0 \<and> cryptoPct stocks crypto retirement \<le> 30 then
            (let investable = totalStocks stocks + totalCrypto crypto + totalRetirement retirement in
             if investable > 0 then
               (let cryptoPctOfTotal = (totalCrypto crypto / investable) * 100 in
                if cryptoPctOfTotal > 5 \<and> cryptoPctOfTotal \<le> 25 then
                  push ins ''portfolio_health'' ''positive''
                    [Lit ''Age-appropriate risk allocation'']
                    [Lit ''At '', Num (real_of_int a), Lit '', having '', Fixed 0 cryptoPctOfTotal,
                     Lit ''% in crypto is within a reasonable risk range for your age. You have decades for volatile assets to recover from downturns.'']
                    None
                else ins)
             else ins)
          else ins)"

definition highEquityExposure ::
  "RealEstateHolding list \<Rightarrow> StockHolding list \<Rightarrow> CryptoHolding list \<Rightarrow> RetirementAccount list
     \<Rightarrow> int option \<Rightarrow> Insight list \<Rightarrow> Insight list" where
  "highEquityExposure realEstate stocks crypto retirement age ins =
     (case age of
        None \<Rightarrow> ins
      | Some a \<Rightarrow>
          if a \<noteq> 0 \<and> a \<ge> 50 then
            (let volatileAssets = totalCrypto crypto + totalStocks stocks;
                 volatilePct = (if totalAssets realEstate stocks crypto retirement > 0
                                then (volatileAssets / totalAssets realEstate stocks crypto retirement) * 100
                                else 0)
             in if volatilePct > 80 then
                  push ins ''portfolio_health'' ''warning''
                    [Lit ''High equity exposure for your age'']
                    [Lit ''At '', Num (real_of_int a), Lit '', having '', Fixed 0 volatilePct,
                     Lit ''% in stocks and crypto is aggressive. A common guideline is to hold roughly your age in percentage as stable/bond allocation. Consider gradually shifting toward more stable assets.'']
                    None
                else ins)
          else ins)"

text \<open>The "Debt-free!" block. The two copies of the engine push it under different
  categories, so the category is the first argument.\<close>

definition debtFree ::
  "string \<Rightarrow> RealEstateHolding list \<Rightarrow> StockHolding list \<Rightarrow> CryptoHolding list
     \<Rightarrow> RetirementAccount list \<Rightarrow> DebtLiability list \<Rightarrow> Insight list \<Rightarrow> Insight list" where
  "debtFree cat realEstate stocks crypto retirement debts ins =
     (if netWorth realEstate stocks crypto retirement debts > 0 \<and> length debts = 0 then
        push ins cat ''positive''
          [Lit ''Debt-free!'']
          [Lit ''You have zero tracked debts and a net worth of '',
           Usd (netWorth realEstate stocks crypto retirement debts),
           Lit ''. Every dollar earned can go straight to building wealth.'']
          None
      else ins)"

definition retirementAllocation ::
  "RealEstateHolding list \<Rightarrow> StockHolding list \<Rightarrow> CryptoHolding list \<Rightarrow> RetirementAccount list
     \<Rightarrow> DebtLiability list \<Rightarrow> Insight list \<Rightarrow> Insight list" where
  "retirementAllocation realEstate stocks crypto retirement debts ins =
     (if netWorth realEstate stocks crypto retirement debts > 0 \<and> totalRetirement retirement > 0 then
        (let retirementPct =
               (totalRetirement retirement / totalAssets realEstate stocks crypto retirement) * 100
         in if retirementPct \<ge> 20 then
              push ins ''portfolio_health'' ''positive''
                [Fixed 0 retirementPct, Lit ''% in retirement accounts'']
                [Lit ''Good allocation to tax-advantaged retirement accounts ('',
                 Usd (totalRetirement retirement),
                 Lit ''). These grow tax-free or tax-deferred, compounding faster than taxable accounts.'']
                None
            else ins)
      else ins)"

subsection \<open>Report assembly\<close>

text \<open>\<open>Array.prototype.sort\<close> with a comparator is a stable sort; \<open>sort_key\<close> is the
  stable insertion sort. \<open>(a, b) => b.rate - a.rate\<close> orders by descending rate,
  \<open>(a, b) => a.balance - b.balance\<close> by ascending balance.\<close>

definition debtItems :: "DebtLiability list \<Rightarrow> PayoffItem list" where
  "debtItems debts =
     map (\<lambda>d. \<lparr>name = DebtLiability.name d, balance = currentBalance d, rate = interestRate d,
               minimumPayment = DebtLiability.minimumPayment d\<rparr>) debts"

definition totalMin :: "DebtLiability list \<Rightarrow> real" where
  "totalMin debts = foldl (\<lambda>s d. s + minimumPayment d) 0 (debtItems debts)"

definition debtPayoffPlans :: "DebtLiability list \<Rightarrow> DebtPayoff option" where
  "debtPayoffPlans debts =
     (if length debts > 0 then
        (let avalancheOrder = sort_key (\<lambda>d. - rate d) (debtItems debts);
             snowballOrder = sort_key (\<lambda>d. balance d) (debtItems debts)
         in Some \<lparr>avalanche =
                    \<lparr>payoffMethod = ''avalanche'', order = avalancheOrder,
                     totalMonthlyMinimum = totalMin debts,
                     monthsToPayoff = estimatePayoffMonths avalancheOrder (totalMin debts)\<rparr>,
                  snowball =
                    \<lparr>payoffMethod = ''snowball'', order = snowballOrder,
                     totalMonthlyMinimum = totalMin debts,
                     monthsToPayoff = estimatePayoffMonths snowballOrder (totalMin debts)\<rparr>\<rparr>)
      else None)"

definition reportMetrics ::
  "RealEstateHolding list \<Rightarrow> StockHolding list \<Rightarrow> CryptoHolding list \<Rightarrow> RetirementAccount list
     \<Rightarrow> DebtLiability list \<Rightarrow> Metrics" where
  "reportMetrics realEstate stocks crypto retirement debts =
     \<lparr>Metrics.totalAssets = totalAssets realEstate stocks crypto retirement,
      Metrics.totalDebts = totalDebts debts,
      Metrics.netWorth = netWorth realEstate stocks crypto retirement debts,
      Metrics.debtToAssetRatio = debtToAssetRatio realEstate stocks crypto retirement debts,
      Metrics.weightedAvgDebtRate = weightedAvgDebtRate realEstate debts,
      Metrics.monthlyDebtPayments = monthlyDebtPayments realEstate debts,
      Metrics.highInterestDebtTotal = highInterestDebtTotal debts,
      Metrics.goodDebtTotal = goodDebtTotal realEstate debts,
      Metrics.badDebtTotal = badDebtTotal debts,
      Metrics.goodDebtMonthly = goodDebtMonthly realEstate debts,
      Metrics.badDebtMonthly = badDebtMonthly debts\<rparr>"

text \<open>The browser-side engine, \<open>src/web/services/insightsEngine.ts\<close>.\<close>

definition computeInsights ::
  "RealEstateHolding list \<Rightarrow> StockHolding list \<Rightarrow> CryptoHolding list \<Rightarrow> RetirementAccount list
     \<Rightarrow> DebtLiability list \<Rightarrow> real \<Rightarrow> InsightsReport" where
  "computeInsights realEstate stocks crypto retirement debts now =
     \<lparr>generatedAt = now,
      insights =
        (retirementAllocation realEstate stocks crypto retirement debts
        (debtFree ''opportunity'' realEstate stocks crypto retirement debts
        (emergencyFundCheck realEstate stocks crypto debts
        (diversificationCheck stocks crypto retirement
        (debtToAssetRatioInsight realEstate stocks crypto retirement debts
        (creditCardVsInvesting stocks crypto debts
        (leverageInsight stocks now debts
        (debtPayoffInsights realEstate stocks crypto retirement debts
        (goodVsBadDebtOverview realEstate debts []))))))))),
      debtPayoff = debtPayoffPlans debts,
      metrics = reportMetrics realEstate stocks crypto retirement debts\<rparr>"

text \<open>The main-process engine, \<open>src/main/services/insightsEngine.ts\<close>. Its five lists
  come from the repositories and the age from the settings; they are arguments here.\<close>

definition generateInsights ::
  "RealEstateHolding list \<Rightarrow> StockHolding list \<Rightarrow> CryptoHolding list \<Rightarrow> RetirementAccount list
     \<Rightarrow> DebtLiability list \<Rightarrow> int option \<Rightarrow> real \<Rightarrow> InsightsReport" where
  "generateInsights realEstate stocks crypto retirement debts age now =
     \<lparr>generatedAt = now,
      insights =
        (retirementAllocation realEstate stocks crypto retirement debts
        (debtFree ''positive'' realEstate stocks crypto retirement debts
        (highEquityExposure realEstate stocks crypto retirement age
        (ageAppropriateRisk stocks crypto retirement age
        (retirementHorizon retirement age
        (emergencyFundCheck realEstate stocks crypto debts
        (diversificationCheck stocks crypto retirement
        (debtToAssetRatioInsight realEstate stocks crypto retirement debts
        (creditCardVsInvesting stocks crypto debts
        (leverageInsight stocks now debts
        (debtPayoffInsights realEstate stocks crypto retirement debts
        (goodVsBadDebtOverview realEstate debts [])))))))))))),
      debtPayoff = debtPayoffPlans debts,
      metrics = reportMetrics realEstate stocks crypto retirement debts\<rparr>"

section \<open>Double arithmetic\<close>

text \<open>
  Where a claim depends on rounding, the engine's arithmetic is modelled as IEEE 754
  binary64 with round-to-nearest, ties-to-even: every \<open>+\<close>, \<open>-\<close>, \<open>*\<close>, \<open>/\<close> of the source
  and every decimal literal yields \<open>fl64\<close> of the exact result. Comparisons,
  \<open>Math.min\<close> and \<open>Math.max\<close> are exact. Overflow to Infinity (results of magnitude
  \<open>2^1024\<close> and more), NaN and the sign of zero have no counterpart here; no theorem below
  evaluates \<open>fl64\<close> at such a magnitude.
\<close>

text \<open>Rounding to the nearest integer, ties to the even one.\<close>

definition rne :: "real \<Rightarrow> int" where
  "rne x =
     (let f = \<lfloor>x\<rfloor> in
      if x - of_int f < 1 / 2 then f
      else if 1 / 2 < x - of_int f then f + 1
      else if even f then f else f + 1)"

text \<open>The spacing of the doubles around \<open>x \<noteq> 0\<close>: 52 binary places below the leading
  bit of \<open>x\<close>, and \<open>2^-1074\<close> in the subnormal range.\<close>

definition ulp64 :: "real \<Rightarrow> real" where
  "ulp64 x = 2 powr of_int (max (\<lfloor>log 2 \<bar>x\<bar>\<rfloor> - 52) (- 1074))"

definition fl64 :: "real \<Rightarrow> real" where
  "fl64 x = (if x = 0 then 0 else ulp64 x * of_int (rne (x / ulp64 x)))"

text \<open>The finite doubles: \<open>M * 2^e\<close> with a 53-bit \<open>M\<close> and \<open>-1074 \<le> e \<le> 971\<close>.\<close>

definition double :: "real \<Rightarrow> bool" where
  "double x =
     (\<exists>M e :: int. \<bar>M\<bar> < 2 ^ 53 \<and> - 1074 \<le> e \<and> e \<le> 971 \<and> x = of_int M * 2 powr of_int e)"

section \<open>Payoff simulator with rounding\<close>

text \<open>
  The simulator again, with the rounding \<open>fl\<close> of every arithmetic result written out.
  With no rounding (\<open>fl\<close> the identity) these are the definitions of the section
  "Payoff simulator"; \<open>estimatePayoffMonthsFl fl64\<close> is the function on doubles.
\<close>

definition totalRemainingFl :: "(real \<Rightarrow> real) \<Rightarrow> real list \<Rightarrow> real" where
  "totalRemainingFl fl balances = foldl (\<lambda>s b. fl (s + max b 0)) 0 balances"

definition accrueBodyFl :: "(real \<Rightarrow> real) \<Rightarrow> real list \<Rightarrow> nat \<Rightarrow> real list \<Rightarrow> real list" where
  "accrueBodyFl fl rates i balances =
     (if balances ! i > 0
      then balances[i := fl (balances ! i + fl (balances ! i * rates ! i))]
      else balances)"

definition accrueInterestFl :: "(real \<Rightarrow> real) \<Rightarrow> real list \<Rightarrow> real list \<Rightarrow> real list" where
  "accrueInterestFl fl rates balances =
     fold (accrueBodyFl fl rates) [0..<length balances] balances"

definition payMinBodyFl ::
  "(real \<Rightarrow> real) \<Rightarrow> real list \<Rightarrow> nat \<Rightarrow> real list \<times> real \<Rightarrow> real list \<times> real" where
  "payMinBodyFl fl mins i s =
     (case s of (balances, budget) \<Rightarrow>
        if balances ! i \<le> 0 then (balances, budget)
        else let minPay = min (mins ! i) (min (balances ! i) budget)
             in (balances[i := fl (balances ! i - minPay)], fl (budget - minPay)))"

definition payMinimumsFl ::
  "(real \<Rightarrow> real) \<Rightarrow> real list \<Rightarrow> real list \<times> real \<Rightarrow> real list \<times> real" where
  "payMinimumsFl fl mins s = fold (payMinBodyFl fl mins) [0..<length (fst s)] s"

function payExtraFromFl ::
  "(real \<Rightarrow> real) \<Rightarrow> nat \<Rightarrow> real list \<times> real \<Rightarrow> real list \<times> real" where
  "payExtraFromFl fl i (balances, budget) =
     (if i < length balances then
        (if balances ! i \<le> 0 then payExtraFromFl fl (i + 1) (balances, budget)
         else let extra = min (balances ! i) budget
              in (balances[i := fl (balances ! i - extra)], fl (budget - extra)))
      else (balances, budget))"
  by pat_completeness auto
termination
  by (relation "measure (\<lambda>(fl, i, s). length (fst s) - i)") auto

definition payExtraFl :: "(real \<Rightarrow> real) \<Rightarrow> real list \<times> real \<Rightarrow> real list \<times> real" where
  "payExtraFl fl s = (if snd s > 0 then payExtraFromFl fl 0 s else s)"

definition simulateMonthFl ::
  "(real \<Rightarrow> real) \<Rightarrow> real list \<Rightarrow> real list \<Rightarrow> real \<Rightarrow> real list \<Rightarrow> real list" where
  "simulateMonthFl fl rates mins totalMonthlyPayment balances =
     fst (payExtraFl fl
            (payMinimumsFl fl mins (accrueInterestFl fl rates balances, totalMonthlyPayment)))"

text \<open>The literal \<open>0.01\<close> of the source is the double \<open>fl (1 / 100)\<close>.\<close>

function payoffLoopFl ::
  "(real \<Rightarrow> real) \<Rightarrow> real list \<Rightarrow> real list \<Rightarrow> real \<Rightarrow> nat \<Rightarrow> real list \<Rightarrow> nat" where
  "payoffLoopFl fl rates mins totalMonthlyPayment months balances =
     (if months < MAX_MONTHS then
        (if totalRemainingFl fl balances \<le> fl (1 / 100) then months
         else payoffLoopFl fl rates mins totalMonthlyPayment (months + 1)
                (simulateMonthFl fl rates mins totalMonthlyPayment balances))
      else months)"
  by pat_completeness auto
termination
  by (relation "measure (\<lambda>(fl, rates, mins, t, months, balances). MAX_MONTHS - months)") auto

definition estimatePayoffMonthsFl :: "(real \<Rightarrow> real) \<Rightarrow> PayoffItem list \<Rightarrow> real \<Rightarrow> nat" where
  "estimatePayoffMonthsFl fl debts totalMonthlyPayment =
     (if length debts = 0 \<or> totalMonthlyPayment \<le> 0 then 0
      else payoffLoopFl fl (map (\<lambda>d. fl (fl (rate d / 100) / 12)) debts) (map minimumPayment debts)
             totalMonthlyPayment 0 (map balance debts))"

section \<open>Debt totals with rounding\<close>

text \<open>\<open>xs.reduce((s, x) => s + f(x), 0)\<close> with the rounding of each addition written
  out, and the totals of the engine that the good/bad classification is about.\<close>

definition sumFl :: "(real \<Rightarrow> real) \<Rightarrow> ('a \<Rightarrow> real) \<Rightarrow> 'a list \<Rightarrow> real" where
  "sumFl fl f xs = foldl (\<lambda>s x. fl (s + f x)) 0 xs"

definition totalMortgageBalancesFl :: "(real \<Rightarrow> real) \<Rightarrow> RealEstateHolding list \<Rightarrow> real" where
  "totalMortgageBalancesFl fl realEstate = sumFl fl mortgageBalance realEstate"

definition totalDebtsOnlyFl :: "(real \<Rightarrow> real) \<Rightarrow> DebtLiability list \<Rightarrow> real" where
  "totalDebtsOnlyFl fl debts = sumFl fl currentBalance debts"

definition totalAllObligationsFl ::
  "(real \<Rightarrow> real) \<Rightarrow> RealEstateHolding list \<Rightarrow> DebtLiability list \<Rightarrow> real" where
  "totalAllObligationsFl fl realEstate debts =
     fl (totalDebtsOnlyFl fl debts + totalMortgageBalancesFl fl realEstate)"

definition badDebtTotalFl :: "(real \<Rightarrow> real) \<Rightarrow> DebtLiability list \<Rightarrow> real" where
  "badDebtTotalFl fl debts = sumFl fl currentBalance (badDebts debts)"

definition goodDebtTotalFl ::
  "(real \<Rightarrow> real) \<Rightarrow> RealEstateHolding list \<Rightarrow> DebtLiability list \<Rightarrow> real" where
  "goodDebtTotalFl fl realEstate debts =
     fl (sumFl fl currentBalance (goodDebtsFromTable debts) + totalMortgageBalancesFl fl realEstate)"

section \<open>Predicates used in the statements\<close>

text \<open>All entries of a list are non-negative.\<close>

definition nonneg :: "real list \<Rightarrow> bool" where
  "nonneg xs = list_all (\<lambda>x. 0 \<le> x) xs"

text \<open>A state of the payment loops, for the monthly budget \<open>t\<close>: no balance is negative and
  the budget left is between \<open>0\<close> and \<open>t\<close> (what was paid this month is \<open>t\<close> minus the
  budget left).\<close>

definition payState_ok :: "real \<Rightarrow> real list \<times> real \<Rightarrow> bool" where
  "payState_ok t s = (nonneg (fst s) \<and> 0 \<le> snd s \<and> snd s \<le> t)"

text \<open>Pointwise order on balance lists of the same length.\<close>

definition le_list :: "real list \<Rightarrow> real list \<Rightarrow> bool" where
  "le_list xs ys = list_all2 (\<le>) xs ys"

text \<open>The first state has balances that are pointwise smaller and at least as much budget
  left.\<close>

definition state_le :: "real list \<times> real \<Rightarrow> real list \<times> real \<Rightarrow> bool" where
  "state_le s' s = (le_list (fst s') (fst s) \<and> 0 \<le> snd s \<and> snd s \<le> snd s')"

text \<open>The test of the minimum-payment rule as the specification words it: the monthly
  payment, \<open>minimumPayment\<close> when absent, is at most 1.05 times the minimum payment.\<close>

definition specMinOnly :: "DebtLiability \<Rightarrow> bool" where
  "specMinOnly d = (payment d \<le> DebtLiability.minimumPayment d * 1.05)"

text \<open>The minimum-payment warning that lists the debts \<open>ds\<close>.\<close>

definition isMinimumPaymentInsight :: "DebtLiability list \<Rightarrow> Insight \<Rightarrow> bool" where
  "isMinimumPaymentInsight ds i =
     (category i = ''cash_flow'' \<and> severity i = ''warning''
      \<and> title i = [Lit ''Paying only minimums on some debts'']
      \<and> description i = minimumPaymentDescription ds)"

text \<open>The leverage warning for the annualized return \<open>ret\<close> that lists the debts \<open>ds\<close>.\<close>

definition isLeverageInsight :: "real \<Rightarrow> DebtLiability list \<Rightarrow> Insight \<Rightarrow> bool" where
  "isLeverageInsight ret ds i =
     (category i = ''leverage'' \<and> severity i = ''warning''
      \<and> title i = [Lit ''Debt interest exceeds investment returns'']
      \<and> description i = leverageDescription ret ds)"

text \<open>An insight of one of the other rules: its category and severity are declared ones,
  its title is neither of the two titles above, and it is not a leverage warning.\<close>

definition ordinaryInsight :: "Insight \<Rightarrow> bool" where
  "ordinaryInsight i =
     (category i \<in> declaredCategories \<and> severity i \<in> declaredSeverities
      \<and> title i \<noteq> [Lit ''Paying only minimums on some debts'']
      \<and> title i \<noteq> [Lit ''Debt interest exceeds investment returns'']
      \<and> \<not> (category i = ''leverage'' \<and> severity i = ''warning''))"

text \<open>The "Debt-free!" insight as the main-process engine pushes it.\<close>

definition isPositiveDebtFree :: "Insight \<Rightarrow> bool" where
  "isPositiveDebtFree i =
     (category i = ''positive'' \<and> severity i = ''positive'' \<and> title i = [Lit ''Debt-free!''])"

text \<open>The metrics block with every field 0.\<close>

definition zeroMetrics :: Metrics where
  "zeroMetrics =
     \<lparr>Metrics.totalAssets = 0, Metrics.totalDebts = 0, Metrics.netWorth = 0,
      Metrics.debtToAssetRatio = 0, Metrics.weightedAvgDebtRate = 0,
      Metrics.monthlyDebtPayments = 0, Metrics.highInterestDebtTotal = 0,
      Metrics.goodDebtTotal = 0, Metrics.badDebtTotal = 0, Metrics.goodDebtMonthly = 0,
      Metrics.badDebtMonthly = 0\<rparr>"

section \<open>Simulator: lengths\<close>

lemma length_accrueBody [simp]: "length (accrueBody rates i bs) = length bs"
  by (simp add: accrueBody_def)

lemma length_fold_accrueBody [simp]: "length (fold (accrueBody rates) [0..<n] bs) = length bs"
  by (induction n) simp_all

lemma length_accrueInterest [simp]: "length (accrueInterest rates bs) = length bs"
  by (simp add: accrueInterest_def)

lemma length_payMinBody [simp]: "length (fst (payMinBody mins i s)) = length (fst s)"
  by (cases s) (simp add: payMinBody_def Let_def)

lemma payMinimumsUpTo_0 [simp]: "payMinimumsUpTo 0 mins s = s"
  by (simp add: payMinimumsUpTo_def)

lemma payMinimumsUpTo_Suc:
  "payMinimumsUpTo (Suc n) mins s = payMinBody mins n (payMinimumsUpTo n mins s)"
  by (simp add: payMinimumsUpTo_def)

lemma length_payMinimumsUpTo [simp]: "length (fst (payMinimumsUpTo n mins s)) = length (fst s)"
  by (induction n) (simp_all add: payMinimumsUpTo_Suc)

lemma length_payMinimums [simp]: "length (fst (payMinimums mins s)) = length (fst s)"
  by (simp add: payMinimums_def)

lemma length_payExtraFrom [simp]: "length (fst (payExtraFrom i s)) = length (fst s)"
proof (induction i s rule: payExtraFrom.induct)
  case (1 i balances budget)
  then show ?case by (simp add: Let_def)
qed

lemma length_payExtra [simp]: "length (fst (payExtra s)) = length (fst s)"
  by (simp add: payExtra_def)

lemma length_simulateMonth [simp]: "length (simulateMonth rates mins t bs) = length bs"
  by (simp add: simulateMonth_def)

lemma length_funpow_simulateMonth [simp]:
  "length ((simulateMonth rates mins t ^^ k) bs) = length bs"
  by (induction k) simp_all

section \<open>Simulator: the month loop\<close>

declare payoffLoop.simps [simp del]

lemma payoffLoop_bounds:
  "months \<le> MAX_MONTHS \<Longrightarrow>
     months \<le> payoffLoop rates mins t months bs \<and> payoffLoop rates mins t months bs \<le> MAX_MONTHS"
proof (induction rates mins t months bs rule: payoffLoop.induct)
  case (1 rates mins t months bs)
  show ?case
  proof (cases "months < MAX_MONTHS \<and> \<not> totalRemaining bs \<le> 1 / 100")
    case True
    then have "Suc months \<le> MAX_MONTHS" by simp
    with "1.IH" True
    have "Suc months \<le> payoffLoop rates mins t (months + 1) (simulateMonth rates mins t bs)
        \<and> payoffLoop rates mins t (months + 1) (simulateMonth rates mins t bs) \<le> MAX_MONTHS"
      by simp
    with True show ?thesis by (subst (1 2) payoffLoop.simps) simp
  next
    case False
    with "1.prems" show ?thesis by (subst (1 2) payoffLoop.simps) auto
  qed
qed

lemma payoffLoop_saturates:
  "months \<le> MAX_MONTHS \<Longrightarrow>
   (\<forall>k. months + k < MAX_MONTHS \<longrightarrow> 1 / 100 < totalRemaining ((simulateMonth rates mins t ^^ k) bs)) \<Longrightarrow>
   payoffLoop rates mins t months bs = MAX_MONTHS"
proof (induction rates mins t months bs rule: payoffLoop.induct)
  case (1 rates mins t months bs)
  show ?case
  proof (cases "months < MAX_MONTHS")
    case True
    from "1.prems"(2) [rule_format, of 0] True have pos: "\<not> totalRemaining bs \<le> 1 / 100" by simp
    have "\<forall>k. months + 1 + k < MAX_MONTHS \<longrightarrow>
        1 / 100 < totalRemaining ((simulateMonth rates mins t ^^ k) (simulateMonth rates mins t bs))"
    proof (intro allI impI)
      fix k assume "months + 1 + k < MAX_MONTHS"
      then have "months + Suc k < MAX_MONTHS" by simp
      from "1.prems"(2) [rule_format, OF this] show
        "1 / 100 < totalRemaining ((simulateMonth rates mins t ^^ k) (simulateMonth rates mins t bs))"
        by (simp add: funpow_swap1)
    qed
    with "1.IH" [OF True pos] True
    have "payoffLoop rates mins t (months + 1) (simulateMonth rates mins t bs) = MAX_MONTHS"
      by simp
    with True pos show ?thesis by (subst payoffLoop.simps) simp
  next
    case False
    with "1.prems" show ?thesis by (subst payoffLoop.simps) simp
  qed
qed

section \<open>Simulator: balances and budget stay non-negative\<close>

lemma nonneg_nth: "nonneg xs \<Longrightarrow> i < length xs \<Longrightarrow> 0 \<le> xs ! i"
  by (simp add: nonneg_def list_all_length)

lemma nonneg_update: "nonneg xs \<Longrightarrow> 0 \<le> v \<Longrightarrow> nonneg (xs[i := v])"
  unfolding nonneg_def list_all_iff by (metis insert_iff set_update_subset_insert subsetD)

lemma nonneg_accrueBody:
  "nonneg rates \<Longrightarrow> nonneg bs \<Longrightarrow> i < length bs \<Longrightarrow> i < length rates \<Longrightarrow> nonneg (accrueBody rates i bs)"
  by (auto simp: accrueBody_def intro!: nonneg_update dest: nonneg_nth)

lemma nonneg_fold_accrueBody:
  "nonneg rates \<Longrightarrow> nonneg bs \<Longrightarrow> n \<le> length bs \<Longrightarrow> n \<le> length rates \<Longrightarrow>
   nonneg (fold (accrueBody rates) [0..<n] bs)"
  by (induction n) (simp_all add: nonneg_accrueBody)

lemma nonneg_accrueInterest:
  "nonneg rates \<Longrightarrow> nonneg bs \<Longrightarrow> length rates = length bs \<Longrightarrow> nonneg (accrueInterest rates bs)"
  by (simp add: accrueInterest_def nonneg_fold_accrueBody)

lemma payState_ok_payMinBody:
  assumes "nonneg mins" "payState_ok t s" "i < length (fst s)" "i < length mins"
  shows "payState_ok t (payMinBody mins i s)"
proof -
  obtain bs u where s: "s = (bs, u)" by (cases s)
  from assms s have nn: "nonneg bs" and u: "0 \<le> u" "u \<le> t" and m: "0 \<le> mins ! i"
    by (auto simp: payState_ok_def dest: nonneg_nth)
  show ?thesis
  proof (cases "bs ! i \<le> 0")
    case True
    with assms s show ?thesis by (simp add: payMinBody_def)
  next
    case False
    let ?p = "min (mins ! i) (min (bs ! i) u)"
    from False m u have "0 \<le> ?p" "?p \<le> bs ! i" "?p \<le> u" by auto
    with nn u False s show ?thesis
      by (auto simp: payMinBody_def Let_def payState_ok_def intro!: nonneg_update)
  qed
qed

lemma payState_ok_payMinimumsUpTo:
  "nonneg mins \<Longrightarrow> payState_ok t s \<Longrightarrow> n \<le> length (fst s) \<Longrightarrow> n \<le> length mins \<Longrightarrow>
   payState_ok t (payMinimumsUpTo n mins s)"
  by (induction n) (simp_all add: payMinimumsUpTo_Suc payState_ok_payMinBody)

lemma payState_ok_payExtraFrom:
  "payState_ok t s \<Longrightarrow> payState_ok t (payExtraFrom i s)"
proof (induction i s rule: payExtraFrom.induct)
  case (1 i bs u)
  show ?case
  proof (cases "i < length bs \<and> \<not> bs ! i \<le> 0")
    case True
    let ?e = "min (bs ! i) u"
    from True "1.prems" have "0 \<le> ?e" "?e \<le> bs ! i" "?e \<le> u" by (auto simp: payState_ok_def)
    with True "1.prems" show ?thesis
      by (auto simp: Let_def payState_ok_def intro!: nonneg_update)
  next
    case False
    with 1 show ?thesis by auto
  qed
qed

lemma payState_ok_payExtra: "payState_ok t s \<Longrightarrow> payState_ok t (payExtra s)"
  by (simp add: payExtra_def payState_ok_payExtraFrom)

lemma payState_ok_month:
  assumes "nonneg rates" "nonneg mins" "nonneg bs" "0 \<le> t"
    and "length rates = length bs" "length mins = length bs"
  shows "payState_ok t (payExtra (payMinimums mins (accrueInterest rates bs, t)))"
proof -
  from assms have "payState_ok t (accrueInterest rates bs, t)"
    by (simp add: payState_ok_def nonneg_accrueInterest)
  with assms show ?thesis
    by (intro payState_ok_payExtra) (simp add: payMinimums_def payState_ok_payMinimumsUpTo)
qed

lemma nonneg_simulateMonth:
  assumes "nonneg rates" "nonneg mins" "nonneg bs" "0 \<le> t"
    and "length rates = length bs" "length mins = length bs"
  shows "nonneg (simulateMonth rates mins t bs)"
  using payState_ok_month [OF assms] by (simp add: simulateMonth_def payState_ok_def)

lemma nonneg_funpow_simulateMonth:
  assumes "nonneg rates" "nonneg mins" "nonneg bs" "0 \<le> t"
    and "length rates = length bs" "length mins = length bs"
  shows "nonneg ((simulateMonth rates mins t ^^ k) bs)"
  using assms by (induction k) (simp_all add: nonneg_simulateMonth)

section \<open>Simulator: monotonicity\<close>

lemma le_list_length: "le_list xs ys \<Longrightarrow> length xs = length ys"
  by (simp add: le_list_def list_all2_lengthD)

lemma le_list_nth: "le_list xs ys \<Longrightarrow> i < length ys \<Longrightarrow> xs ! i \<le> ys ! i"
  by (simp add: le_list_def list_all2_conv_all_nth)

lemma le_list_refl [simp]: "le_list xs xs"
  by (simp add: le_list_def list_all2_refl)

lemma le_list_trans: "le_list xs ys \<Longrightarrow> le_list ys zs \<Longrightarrow> le_list xs zs"
  unfolding le_list_def list_all2_conv_all_nth by (metis order_trans)

lemma le_list_update: "le_list xs ys \<Longrightarrow> x \<le> y \<Longrightarrow> le_list (xs[i := x]) (ys[i := y])"
  by (simp add: le_list_def list_all2_update_cong)

lemma le_list_update_left: "le_list xs ys \<Longrightarrow> i < length ys \<Longrightarrow> x \<le> ys ! i \<Longrightarrow> le_list (xs[i := x]) ys"
  using le_list_update [of xs ys x "ys ! i" i] by simp

lemma le_list_update_right: "le_list xs ys \<Longrightarrow> i < length ys \<Longrightarrow> xs ! i \<le> y \<Longrightarrow> le_list xs (ys[i := y])"
  using le_list_update [of xs ys "xs ! i" y i] by simp

lemma foldl_plus_sum_list:
  "foldl (\<lambda>s x. s + f x) a xs = a + sum_list (map f xs)" for a :: real
  by (induction xs arbitrary: a) simp_all

lemma totalRemaining_sum: "totalRemaining bs = sum_list (map (\<lambda>b. max b 0) bs)"
  by (simp add: totalRemaining_def foldl_plus_sum_list)

lemma totalRemaining_mono: "le_list xs ys \<Longrightarrow> totalRemaining xs \<le> totalRemaining ys"
  unfolding le_list_def totalRemaining_sum
  by (induction xs ys rule: list_all2_induct) (auto simp: max_def)

lemma accrueBody_mono:
  assumes "le_list xs ys" "i < length ys" "0 \<le> rates ! i"
  shows "le_list (accrueBody rates i xs) (accrueBody rates i ys)"
proof -
  from assms have le: "xs ! i \<le> ys ! i" by (simp add: le_list_nth)
  show ?thesis
  proof (cases "xs ! i > 0")
    case True
    with le have "ys ! i > 0" by simp
    moreover from le assms(3) have "xs ! i + xs ! i * rates ! i \<le> ys ! i + ys ! i * rates ! i"
      by (simp add: add_mono mult_right_mono)
    ultimately show ?thesis using True assms(1) by (simp add: accrueBody_def le_list_update)
  next
    case False
    show ?thesis
    proof (cases "ys ! i > 0")
      case True
      with assms(3) have "0 \<le> ys ! i * rates ! i" by simp
      with True False have "xs ! i \<le> ys ! i + ys ! i * rates ! i" by simp
      with True False assms show ?thesis by (simp add: accrueBody_def le_list_update_right)
    next
      case no: False
      with False assms show ?thesis by (simp add: accrueBody_def)
    qed
  qed
qed

lemma fold_accrueBody_mono:
  "le_list xs ys \<Longrightarrow> nonneg rates \<Longrightarrow> n \<le> length ys \<Longrightarrow> n \<le> length rates \<Longrightarrow>
   le_list (fold (accrueBody rates) [0..<n] xs) (fold (accrueBody rates) [0..<n] ys)"
  by (induction n) (simp_all add: accrueBody_mono nonneg_nth)

lemma accrueInterest_mono:
  "le_list xs ys \<Longrightarrow> nonneg rates \<Longrightarrow> length rates = length ys \<Longrightarrow>
   le_list (accrueInterest rates xs) (accrueInterest rates ys)"
  by (simp add: accrueInterest_def fold_accrueBody_mono le_list_length)

lemma payMinBody_mono:
  assumes "state_le s' s" "i < length (fst s)" "0 \<le> mins ! i"
  shows "state_le (payMinBody mins i s') (payMinBody mins i s)"
proof -
  obtain xs u' where s': "s' = (xs, u')" by (cases s')
  obtain ys u where s: "s = (ys, u)" by (cases s)
  from assms s s' have ll: "le_list xs ys" and u: "0 \<le> u" "u \<le> u'" and i: "i < length ys"
    by (auto simp: state_le_def)
  from ll i have le: "xs ! i \<le> ys ! i" by (simp add: le_list_nth)
  let ?p' = "min (mins ! i) (min (xs ! i) u')"
  let ?p = "min (mins ! i) (min (ys ! i) u)"
  show ?thesis
  proof (cases "ys ! i \<le> 0")
    case True
    with le have "xs ! i \<le> 0" by simp
    with True ll u s s' show ?thesis by (simp add: payMinBody_def state_le_def)
  next
    case ypos: False
    show ?thesis
    proof (cases "xs ! i \<le> 0")
      case True
      from ypos u assms(3) have "0 \<le> ?p" "?p \<le> ys ! i" "?p \<le> u" by auto
      with True ypos ll u i s s' show ?thesis
        by (auto simp: payMinBody_def state_le_def Let_def intro!: le_list_update_right)
    next
      case False
      from le u have "xs ! i - ?p' \<le> ys ! i - ?p" by (auto simp: min_def)
      moreover from le u False ypos assms(3) have "0 \<le> u - ?p" "u - ?p \<le> u' - ?p'"
        by (auto simp: min_def)
      ultimately show ?thesis using False ypos ll s s'
        by (simp add: payMinBody_def state_le_def Let_def le_list_update)
    qed
  qed
qed

lemma payMinimumsUpTo_mono:
  "state_le s' s \<Longrightarrow> nonneg mins \<Longrightarrow> n \<le> length (fst s) \<Longrightarrow> n \<le> length mins \<Longrightarrow>
   state_le (payMinimumsUpTo n mins s') (payMinimumsUpTo n mins s)"
  by (induction n) (simp_all add: payMinimumsUpTo_Suc payMinBody_mono nonneg_nth)

lemma payExtraFrom_le: "0 \<le> snd s \<Longrightarrow> le_list (fst (payExtraFrom i s)) (fst s)"
proof (induction i s rule: payExtraFrom.induct)
  case (1 i bs u)
  show ?case
  proof (cases "i < length bs \<and> \<not> bs ! i \<le> 0")
    case True
    with "1.prems" show ?thesis by (auto simp: Let_def intro!: le_list_update_left)
  next
    case False
    with 1 show ?thesis by auto
  qed
qed

lemma payExtraFrom_mono:
  "state_le s' s \<Longrightarrow> le_list (fst (payExtraFrom i s')) (fst (payExtraFrom i s))"
proof (induction i s arbitrary: s' rule: payExtraFrom.induct)
  case (1 i ys u)
  obtain xs u' where s': "s' = (xs, u')" by (cases s')
  from "1.prems" s' have ll: "le_list xs ys" and u: "0 \<le> u" "u \<le> u'"
    by (auto simp: state_le_def)
  have len: "length xs = length ys" using ll by (rule le_list_length)
  show ?case
  proof (cases "i < length ys")
    case False
    with ll len s' show ?thesis by simp
  next
    case i: True
    from ll i have le: "xs ! i \<le> ys ! i" by (simp add: le_list_nth)
    show ?thesis
    proof (cases "ys ! i \<le> 0")
      case True
      with le have "xs ! i \<le> 0" by simp
      with True i len s' "1.IH" [OF i True "1.prems"] show ?thesis by simp
    next
      case ypos: False
      let ?e = "min (ys ! i) u"
      show ?thesis
      proof (cases "xs ! i \<le> 0")
        case True
        from u have u'0: "0 \<le> snd (xs, u')" by simp
        have a: "le_list (fst (payExtraFrom (i + 1) (xs, u'))) xs"
          using payExtraFrom_le [OF u'0, of "i + 1"] by simp
        then have b: "le_list (fst (payExtraFrom (i + 1) (xs, u'))) ys"
          using ll by (rule le_list_trans)
        from a i len have "fst (payExtraFrom (i + 1) (xs, u')) ! i \<le> xs ! i"
          by (simp add: le_list_nth)
        with True ypos u have "fst (payExtraFrom (i + 1) (xs, u')) ! i \<le> ys ! i - ?e"
          by (auto simp: min_def)
        with b i have "le_list (fst (payExtraFrom (i + 1) (xs, u'))) (ys[i := ys ! i - ?e])"
          by (simp add: le_list_update_right)
        with True ypos i len s' show ?thesis by (simp add: Let_def)
      next
        case False
        from le u have "xs ! i - min (xs ! i) u' \<le> ys ! i - ?e" by (auto simp: min_def)
        with False ypos i len s' ll show ?thesis by (simp add: Let_def le_list_update)
      qed
    qed
  qed
qed

lemma payExtra_mono:
  assumes "state_le s' s"
  shows "le_list (fst (payExtra s')) (fst (payExtra s))"
proof (cases "snd s > 0")
  case True
  with assms have "snd s' > 0" by (simp add: state_le_def)
  with True assms show ?thesis by (simp add: payExtra_def payExtraFrom_mono)
next
  case False
  from assms have "0 \<le> snd s'" by (simp add: state_le_def)
  then have "le_list (fst (payExtraFrom 0 s')) (fst s')" by (rule payExtraFrom_le)
  moreover from assms have "le_list (fst s') (fst s)" by (simp add: state_le_def)
  ultimately show ?thesis using False by (auto simp: payExtra_def intro: le_list_trans)
qed

lemma simulateMonth_mono:
  assumes "le_list xs ys" "nonneg rates" "nonneg mins" "0 \<le> t" "t \<le> t'"
    and "length rates = length ys" "length mins = length ys"
  shows "le_list (simulateMonth rates mins t' xs) (simulateMonth rates mins t ys)"
proof -
  from assms have "state_le (accrueInterest rates xs, t') (accrueInterest rates ys, t)"
    by (simp add: state_le_def accrueInterest_mono)
  with assms have "state_le (payMinimums mins (accrueInterest rates xs, t'))
      (payMinimums mins (accrueInterest rates ys, t))"
    using le_list_length [OF assms(1)] by (simp add: payMinimums_def payMinimumsUpTo_mono)
  then show ?thesis unfolding simulateMonth_def by (rule payExtra_mono)
qed

lemma payoffLoop_mono:
  assumes "nonneg rates" "nonneg mins" "0 \<le> t" "t \<le> t'"
  shows "le_list xs ys \<Longrightarrow> length rates = length ys \<Longrightarrow> length mins = length ys \<Longrightarrow>
     months \<le> MAX_MONTHS \<Longrightarrow>
     payoffLoop rates mins t' months xs \<le> payoffLoop rates mins t months ys"
proof (induction "MAX_MONTHS - months" arbitrary: months xs ys)
  case 0
  then have "\<not> months < MAX_MONTHS" by simp
  then show ?case by (subst (1 2) payoffLoop.simps) simp
next
  case (Suc n)
  then have lt: "months < MAX_MONTHS" by simp
  show ?case
  proof (cases "totalRemaining xs \<le> 1 / 100")
    case True
    with lt have "payoffLoop rates mins t' months xs = months"
      by (subst payoffLoop.simps) simp
    with payoffLoop_bounds [OF Suc.prems(4), of rates mins t ys] show ?thesis by simp
  next
    case False
    with totalRemaining_mono [OF Suc.prems(1)] have ny: "\<not> totalRemaining ys \<le> 1 / 100" by simp
    have "le_list (simulateMonth rates mins t' xs) (simulateMonth rates mins t ys)"
      using Suc.prems(1) assms Suc.prems(2,3) by (rule simulateMonth_mono)
    moreover from Suc.hyps(2) lt have "n = MAX_MONTHS - (months + 1)" by simp
    ultimately have "payoffLoop rates mins t' (months + 1) (simulateMonth rates mins t' xs)
        \<le> payoffLoop rates mins t (months + 1) (simulateMonth rates mins t ys)"
      using Suc.prems(2,3) lt by (intro Suc.hyps(1)) simp_all
    with False ny lt show ?thesis by (subst (1 2) payoffLoop.simps) simp
  qed
qed

section \<open>Simulator: a single debt\<close>

lemma simulateMonth_zero_rate:
  "0 < m \<Longrightarrow> simulateMonth [0] [m] m [b] = [if b > 0 then b - min m b else b]"
  by (simp add: simulateMonth_def accrueInterest_def accrueBody_def payMinimums_def
      payMinimumsUpTo_def payMinBody_def payExtra_def Let_def)

lemma payoffLoop_zero_rate:
  "1 / 100 < m \<Longrightarrow> months \<le> MAX_MONTHS \<Longrightarrow>
   payoffLoop [0] [m] m months [m * real j] = min (months + j) MAX_MONTHS"
proof (induction j arbitrary: months)
  case 0
  then show ?case by (subst payoffLoop.simps) (simp add: totalRemaining_def)
next
  case (Suc j)
  show ?case
  proof (cases "months < MAX_MONTHS")
    case True
    from Suc.prems have m: "0 < m" by simp
    define x where "x = m * real (Suc j)"
    from m have "m \<le> x" by (simp add: x_def)
    with Suc.prems have "\<not> totalRemaining [x] \<le> 1 / 100"
      by (simp add: totalRemaining_def)
    then have big: "\<not> totalRemaining [m * real (Suc j)] \<le> 1 / 100"
      unfolding x_def .
    from m have pos: "0 < m * real (Suc j)" by simp
    have "m * real (Suc j) - min m (m * real (Suc j)) = m * real j"
      using m by (simp add: min_def algebra_simps)
    with m pos have step: "simulateMonth [0] [m] m [m * real (Suc j)] = [m * real j]"
      by (simp only: simulateMonth_zero_rate if_True)
    from True have "months + 1 \<le> MAX_MONTHS" by simp
    from Suc.IH [OF Suc.prems(1) this] True big step show ?thesis
      by (subst payoffLoop.simps) simp
  next
    case False
    with Suc.prems show ?thesis by (subst payoffLoop.simps) simp
  qed
qed

lemma estimatePayoffMonths_zero_rate:
  "1 / 100 < m \<Longrightarrow>
   estimatePayoffMonths [\<lparr>name = n, balance = m * real j, rate = 0, minimumPayment = m\<rparr>] m
     = min j MAX_MONTHS"
  using payoffLoop_zero_rate [of m 0 j] by (simp add: estimatePayoffMonths_def)

lemma pay_single_lower:
  "0 < b1 \<Longrightarrow> \<exists>c. fst (payExtra (payMinimums [m] ([b1], t))) = [c] \<and> b1 - t \<le> c"
  by (auto simp: payMinimums_def payMinimumsUpTo_def payMinBody_def payExtra_def Let_def min_def)

lemma simulateMonth_single_lower:
  assumes "0 < b" "0 \<le> r"
  shows "\<exists>c. simulateMonth [r] [m] t [b] = [c] \<and> b + b * r - t \<le> c"
proof -
  from assms have pos: "0 < b + b * r" by (simp add: add_pos_nonneg)
  from assms(1) have "accrueInterest [r] [b] = [b + b * r]"
    by (simp add: accrueInterest_def accrueBody_def)
  with pay_single_lower [OF pos, of m t] show ?thesis by (simp add: simulateMonth_def)
qed

lemma interest_only_never_drops:
  assumes "0 < b0" "0 \<le> r" "t \<le> b0 * r"
  shows "\<exists>c. (simulateMonth [r] [m] t ^^ k) [b0] = [c] \<and> b0 \<le> c"
proof (induction k)
  case 0
  show ?case by simp
next
  case (Suc k)
  then obtain c where c: "(simulateMonth [r] [m] t ^^ k) [b0] = [c]" "b0 \<le> c" by blast
  with assms have "0 < c" by simp
  from simulateMonth_single_lower [OF this assms(2), of m t]
  obtain c' where c': "simulateMonth [r] [m] t [c] = [c']" "c + c * r - t \<le> c'" by blast
  from c(2) assms(2) have "b0 * r \<le> c * r" by (simp add: mult_right_mono)
  with c' c assms have "b0 \<le> c'" by simp
  with c c' show ?case by simp
qed

lemma interest_only_remaining:
  assumes "1 / 100 < b0" "0 \<le> r" "t \<le> b0 * r"
  shows "1 / 100 < totalRemaining ((simulateMonth [r] [m] t ^^ k) [b0])"
proof -
  from assms have "0 < b0" by simp
  from interest_only_never_drops [OF this assms(2,3), where m = m and k = k]
  obtain c where "(simulateMonth [r] [m] t ^^ k) [b0] = [c]" "b0 \<le> c" by blast
  with assms show ?thesis by (simp add: totalRemaining_def)
qed

section \<open>Engine: what each rule pushes\<close>

lemma set_push:
  "set (push ins c s t d i) =
     insert \<lparr>insight_id = length ins + 1, category = c, severity = s, title = t,
             description = d, impact = i\<rparr> (set ins)"
  by (simp add: push_def)

lemma ordinaryInsight_pushed:
  "c \<in> declaredCategories \<Longrightarrow> s \<in> declaredSeverities \<Longrightarrow>
   t \<noteq> [Lit ''Paying only minimums on some debts''] \<Longrightarrow>
   t \<noteq> [Lit ''Debt interest exceeds investment returns''] \<Longrightarrow>
   \<not> (c = ''leverage'' \<and> s = ''warning'') \<Longrightarrow>
   ordinaryInsight \<lparr>insight_id = n, category = c, severity = s, title = t, description = d, impact = i\<rparr>"
  by (simp add: ordinaryInsight_def)

lemma declared_simps [simp]:
  "''debt_payoff'' \<in> declaredCategories" "''leverage'' \<in> declaredCategories"
  "''portfolio_health'' \<in> declaredCategories" "''cash_flow'' \<in> declaredCategories"
  "''opportunity'' \<in> declaredCategories" "''positive'' \<notin> declaredCategories"
  "''info'' \<in> declaredSeverities" "''warning'' \<in> declaredSeverities"
  "''critical'' \<in> declaredSeverities" "''positive'' \<in> declaredSeverities"
  by (simp_all add: declaredCategories_def declaredSeverities_def)

lemma goodVsBadDebtOverview_pushes:
  "i \<in> set (goodVsBadDebtOverview realEstate debts ins) \<Longrightarrow> i \<in> set ins \<or> ordinaryInsight i"
  by (auto simp: goodVsBadDebtOverview_def set_push intro!: ordinaryInsight_pushed split: if_splits)

lemma highInterestDebtWarning_pushes:
  "i \<in> set (highInterestDebtWarning realEstate stocks crypto retirement debts ins) \<Longrightarrow>
   i \<in> set ins \<or> ordinaryInsight i"
  by (auto simp: highInterestDebtWarning_def set_push Let_def intro!: ordinaryInsight_pushed
      split: if_splits)

lemma highInterestDebtWarning_keeps:
  "set ins \<subseteq> set (highInterestDebtWarning realEstate stocks crypto retirement debts ins)"
  by (auto simp: highInterestDebtWarning_def set_push Let_def)

lemma minimumPaymentWarning_pushes:
  "i \<in> set (minimumPaymentWarning debts ins) \<Longrightarrow>
   i \<in> set ins \<or> (minOnlyDebts debts \<noteq> [] \<and> isMinimumPaymentInsight (minOnlyDebts debts) i)"
  by (auto simp: minimumPaymentWarning_def set_push isMinimumPaymentInsight_def split: if_splits)

lemma minimumPaymentWarning_emits:
  "minOnlyDebts debts \<noteq> [] \<Longrightarrow>
   \<exists>i\<in>set (minimumPaymentWarning debts ins). isMinimumPaymentInsight (minOnlyDebts debts) i"
  by (simp add: minimumPaymentWarning_def set_push isMinimumPaymentInsight_def)

lemma minimumPaymentWarning_keeps: "set ins \<subseteq> set (minimumPaymentWarning debts ins)"
  by (auto simp: minimumPaymentWarning_def set_push)

lemma annualInterestCost_pushes:
  "i \<in> set (annualInterestCost debts ins) \<Longrightarrow> i \<in> set ins \<or> ordinaryInsight i"
  by (auto simp: annualInterestCost_def set_push intro!: ordinaryInsight_pushed split: if_splits)

lemma annualInterestCost_keeps: "set ins \<subseteq> set (annualInterestCost debts ins)"
  by (auto simp: annualInterestCost_def set_push)

lemma debtPayoffInsights_pushes:
  "i \<in> set (debtPayoffInsights realEstate stocks crypto retirement debts ins) \<Longrightarrow>
   i \<in> set ins \<or> ordinaryInsight i
   \<or> (minOnlyDebts debts \<noteq> [] \<and> isMinimumPaymentInsight (minOnlyDebts debts) i)"
  by (auto simp: debtPayoffInsights_def split: if_splits
      dest!: annualInterestCost_pushes minimumPaymentWarning_pushes highInterestDebtWarning_pushes)

lemma debtPayoffInsights_keeps:
  "set ins \<subseteq> set (debtPayoffInsights realEstate stocks crypto retirement debts ins)"
  using annualInterestCost_keeps minimumPaymentWarning_keeps highInterestDebtWarning_keeps
  by (fastforce simp: debtPayoffInsights_def)

lemma debtPayoffInsights_emits:
  assumes "minOnlyDebts debts \<noteq> []"
  shows "\<exists>i\<in>set (debtPayoffInsights realEstate stocks crypto retirement debts ins).
           isMinimumPaymentInsight (minOnlyDebts debts) i"
proof -
  from assms have "debts \<noteq> []" by (auto simp: minOnlyDebts_def)
  moreover from minimumPaymentWarning_emits [OF assms]
  obtain i where "i \<in> set (minimumPaymentWarning debts
        (highInterestDebtWarning realEstate stocks crypto retirement debts ins))"
    "isMinimumPaymentInsight (minOnlyDebts debts) i" by blast
  ultimately show ?thesis using annualInterestCost_keeps
    by (auto simp: debtPayoffInsights_def)
qed

lemma leverageInsight_pushes:
  "i \<in> set (leverageInsight stocks now debts ins) \<Longrightarrow>
   i \<in> set ins
   \<or> (0 < annualizedReturnPct stocks now \<and> highRateDebtsAboveReturn stocks now debts \<noteq> []
      \<and> isLeverageInsight (annualizedReturnPct stocks now)
           (highRateDebtsAboveReturn stocks now debts) i)"
  by (auto simp: leverageInsight_def set_push isLeverageInsight_def split: if_splits list.splits)

lemma leverageInsight_emits:
  "0 < annualizedReturnPct stocks now \<Longrightarrow> highRateDebtsAboveReturn stocks now debts \<noteq> [] \<Longrightarrow>
   \<exists>i\<in>set (leverageInsight stocks now debts ins).
      isLeverageInsight (annualizedReturnPct stocks now) (highRateDebtsAboveReturn stocks now debts) i"
  by (auto simp: leverageInsight_def set_push isLeverageInsight_def highRateDebtsAboveReturn_def
      split: list.splits)

lemma leverageInsight_keeps: "set ins \<subseteq> set (leverageInsight stocks now debts ins)"
  by (auto simp: leverageInsight_def set_push split: list.splits)

lemma creditCardVsInvesting_pushes:
  "i \<in> set (creditCardVsInvesting stocks crypto debts ins) \<Longrightarrow> i \<in> set ins \<or> ordinaryInsight i"
  by (auto simp: creditCardVsInvesting_def set_push Let_def intro!: ordinaryInsight_pushed
      split: if_splits)

lemma creditCardVsInvesting_keeps: "set ins \<subseteq> set (creditCardVsInvesting stocks crypto debts ins)"
  by (auto simp: creditCardVsInvesting_def set_push Let_def)

lemma debtToAssetRatioInsight_pushes:
  "i \<in> set (debtToAssetRatioInsight realEstate stocks crypto retirement debts ins) \<Longrightarrow>
   i \<in> set ins \<or> ordinaryInsight i"
  by (auto simp: debtToAssetRatioInsight_def set_push Let_def intro!: ordinaryInsight_pushed
      split: if_splits)

lemma debtToAssetRatioInsight_keeps:
  "set ins \<subseteq> set (debtToAssetRatioInsight realEstate stocks crypto retirement debts ins)"
  by (auto simp: debtToAssetRatioInsight_def set_push Let_def)

lemma diversificationCheck_pushes:
  "i \<in> set (diversificationCheck stocks crypto retirement ins) \<Longrightarrow> i \<in> set ins \<or> ordinaryInsight i"
  by (auto simp: diversificationCheck_def set_push Let_def intro!: ordinaryInsight_pushed
      split: if_splits)

lemma diversificationCheck_keeps: "set ins \<subseteq> set (diversificationCheck stocks crypto retirement ins)"
  by (auto simp: diversificationCheck_def set_push Let_def)

lemma emergencyFundCheck_pushes:
  "i \<in> set (emergencyFundCheck realEstate stocks crypto debts ins) \<Longrightarrow> i \<in> set ins \<or> ordinaryInsight i"
  by (auto simp: emergencyFundCheck_def set_push Let_def intro!: ordinaryInsight_pushed
      split: if_splits)

lemma emergencyFundCheck_keeps:
  "set ins \<subseteq> set (emergencyFundCheck realEstate stocks crypto debts ins)"
  by (auto simp: emergencyFundCheck_def set_push Let_def)

lemma retirementHorizon_pushes:
  "i \<in> set (retirementHorizon retirement age ins) \<Longrightarrow> i \<in> set ins \<or> ordinaryInsight i"
  by (auto simp: retirementHorizon_def set_push Let_def intro!: ordinaryInsight_pushed
      split: if_splits option.splits)

lemma retirementHorizon_keeps: "set ins \<subseteq> set (retirementHorizon retirement age ins)"
  by (auto simp: retirementHorizon_def set_push Let_def split: option.splits)

lemma ageAppropriateRisk_pushes:
  "i \<in> set (ageAppropriateRisk stocks crypto retirement age ins) \<Longrightarrow> i \<in> set ins \<or> ordinaryInsight i"
  by (auto simp: ageAppropriateRisk_def set_push Let_def intro!: ordinaryInsight_pushed
      split: if_splits option.splits)

lemma ageAppropriateRisk_keeps:
  "set ins \<subseteq> set (ageAppropriateRisk stocks crypto retirement age ins)"
  by (auto simp: ageAppropriateRisk_def set_push Let_def split: option.splits)

lemma highEquityExposure_pushes:
  "i \<in> set (highEquityExposure realEstate stocks crypto retirement age ins) \<Longrightarrow>
   i \<in> set ins \<or> ordinaryInsight i"
  by (auto simp: highEquityExposure_def set_push Let_def intro!: ordinaryInsight_pushed
      split: if_splits option.splits)

lemma highEquityExposure_keeps:
  "set ins \<subseteq> set (highEquityExposure realEstate stocks crypto retirement age ins)"
  by (auto simp: highEquityExposure_def set_push Let_def split: option.splits)

lemma debtFree_pushes:
  "i \<in> set (debtFree cat realEstate stocks crypto retirement debts ins) \<Longrightarrow>
   i \<in> set ins \<or> (category i = cat \<and> severity i = ''positive'' \<and> title i = [Lit ''Debt-free!''])"
  by (auto simp: debtFree_def set_push split: if_splits)

lemma debtFree_opportunity_pushes:
  "i \<in> set (debtFree ''opportunity'' realEstate stocks crypto retirement debts ins) \<Longrightarrow>
   i \<in> set ins \<or> ordinaryInsight i"
  by (auto dest!: debtFree_pushes simp: ordinaryInsight_def)

lemma debtFree_positive_pushes:
  "i \<in> set (debtFree ''positive'' realEstate stocks crypto retirement debts ins) \<Longrightarrow>
   i \<in> set ins \<or> isPositiveDebtFree i"
  by (auto dest!: debtFree_pushes simp: isPositiveDebtFree_def)

lemma debtFree_keeps:
  "set ins \<subseteq> set (debtFree cat realEstate stocks crypto retirement debts ins)"
  by (auto simp: debtFree_def set_push)

lemma retirementAllocation_pushes:
  "i \<in> set (retirementAllocation realEstate stocks crypto retirement debts ins) \<Longrightarrow>
   i \<in> set ins \<or> ordinaryInsight i"
  by (auto simp: retirementAllocation_def set_push Let_def intro!: ordinaryInsight_pushed
      split: if_splits)

lemma retirementAllocation_keeps:
  "set ins \<subseteq> set (retirementAllocation realEstate stocks crypto retirement debts ins)"
  by (auto simp: retirementAllocation_def set_push Let_def)

section \<open>Engine: the insights of a report\<close>

lemma computeInsights_kinds:
  assumes "i \<in> set (insights (computeInsights realEstate stocks crypto retirement debts now))"
  shows "ordinaryInsight i
       \<or> (minOnlyDebts debts \<noteq> [] \<and> isMinimumPaymentInsight (minOnlyDebts debts) i)
       \<or> (0 < annualizedReturnPct stocks now \<and> highRateDebtsAboveReturn stocks now debts \<noteq> []
          \<and> isLeverageInsight (annualizedReturnPct stocks now)
               (highRateDebtsAboveReturn stocks now debts) i)"
  using assms unfolding computeInsights_def
  by (auto dest!: retirementAllocation_pushes debtFree_opportunity_pushes emergencyFundCheck_pushes
      diversificationCheck_pushes debtToAssetRatioInsight_pushes creditCardVsInvesting_pushes
      leverageInsight_pushes debtPayoffInsights_pushes goodVsBadDebtOverview_pushes)

lemma generateInsights_kinds:
  assumes "i \<in> set (insights (generateInsights realEstate stocks crypto retirement debts age now))"
  shows "ordinaryInsight i \<or> isPositiveDebtFree i
       \<or> (minOnlyDebts debts \<noteq> [] \<and> isMinimumPaymentInsight (minOnlyDebts debts) i)
       \<or> (0 < annualizedReturnPct stocks now \<and> highRateDebtsAboveReturn stocks now debts \<noteq> []
          \<and> isLeverageInsight (annualizedReturnPct stocks now)
               (highRateDebtsAboveReturn stocks now debts) i)"
  using assms unfolding generateInsights_def
  by (auto dest!: retirementAllocation_pushes debtFree_positive_pushes highEquityExposure_pushes
      ageAppropriateRisk_pushes retirementHorizon_pushes emergencyFundCheck_pushes
      diversificationCheck_pushes debtToAssetRatioInsight_pushes creditCardVsInvesting_pushes
      leverageInsight_pushes debtPayoffInsights_pushes goodVsBadDebtOverview_pushes)

lemma after_leverage_kept_web:
  "set ins
     \<subseteq> set (retirementAllocation realEstate stocks crypto retirement debts
        (debtFree cat realEstate stocks crypto retirement debts
        (emergencyFundCheck realEstate stocks crypto debts
        (diversificationCheck stocks crypto retirement
        (debtToAssetRatioInsight realEstate stocks crypto retirement debts
        (creditCardVsInvesting stocks crypto debts ins))))))"
proof -
  have "set ins \<subseteq> set (creditCardVsInvesting stocks crypto debts ins)"
    by (rule creditCardVsInvesting_keeps)
  also have "\<dots> \<subseteq> set (debtToAssetRatioInsight realEstate stocks crypto retirement debts
      (creditCardVsInvesting stocks crypto debts ins))"
    by (rule debtToAssetRatioInsight_keeps)
  also have "\<dots> \<subseteq> set (diversificationCheck stocks crypto retirement
      (debtToAssetRatioInsight realEstate stocks crypto retirement debts
      (creditCardVsInvesting stocks crypto debts ins)))"
    by (rule diversificationCheck_keeps)
  also have "\<dots> \<subseteq> set (emergencyFundCheck realEstate stocks crypto debts
      (diversificationCheck stocks crypto retirement
      (debtToAssetRatioInsight realEstate stocks crypto retirement debts
      (creditCardVsInvesting stocks crypto debts ins))))"
    by (rule emergencyFundCheck_keeps)
  also have "\<dots> \<subseteq> set (debtFree cat realEstate stocks crypto retirement debts
      (emergencyFundCheck realEstate stocks crypto debts
      (diversificationCheck stocks crypto retirement
      (debtToAssetRatioInsight realEstate stocks crypto retirement debts
      (creditCardVsInvesting stocks crypto debts ins)))))"
    by (rule debtFree_keeps)
  also have "\<dots> \<subseteq> set (retirementAllocation realEstate stocks crypto retirement debts
      (debtFree cat realEstate stocks crypto retirement debts
      (emergencyFundCheck realEstate stocks crypto debts
      (diversificationCheck stocks crypto retirement
      (debtToAssetRatioInsight realEstate stocks crypto retirement debts
      (creditCardVsInvesting stocks crypto debts ins))))))"
    by (rule retirementAllocation_keeps)
  finally show ?thesis .
qed

lemma after_leverage_kept_main:
  "set ins
     \<subseteq> set (retirementAllocation realEstate stocks crypto retirement debts
        (debtFree cat realEstate stocks crypto retirement debts
        (highEquityExposure realEstate stocks crypto retirement age
        (ageAppropriateRisk stocks crypto retirement age
        (retirementHorizon retirement age
        (emergencyFundCheck realEstate stocks crypto debts
        (diversificationCheck stocks crypto retirement
        (debtToAssetRatioInsight realEstate stocks crypto retirement debts
        (creditCardVsInvesting stocks crypto debts ins)))))))))"
proof -
  have "set ins \<subseteq> set (creditCardVsInvesting stocks crypto debts ins)"
    by (rule creditCardVsInvesting_keeps)
  also have "\<dots> \<subseteq> set (debtToAssetRatioInsight realEstate stocks crypto retirement debts
      (creditCardVsInvesting stocks crypto debts ins))"
    by (rule debtToAssetRatioInsight_keeps)
  also have "\<dots> \<subseteq> set (diversificationCheck stocks crypto retirement
      (debtToAssetRatioInsight realEstate stocks crypto retirement debts
      (creditCardVsInvesting stocks crypto debts ins)))"
    by (rule diversificationCheck_keeps)
  also have "\<dots> \<subseteq> set (emergencyFundCheck realEstate stocks crypto debts
      (diversificationCheck stocks crypto retirement
      (debtToAssetRatioInsight realEstate stocks crypto retirement debts
      (creditCardVsInvesting stocks crypto debts ins))))"
    by (rule emergencyFundCheck_keeps)
  also have "\<dots> \<subseteq> set (retirementHorizon retirement age
      (emergencyFundCheck realEstate stocks crypto debts
      (diversificationCheck stocks crypto retirement
      (debtToAssetRatioInsight realEstate stocks crypto retirement debts
      (creditCardVsInvesting stocks crypto debts ins)))))"
    by (rule retirementHorizon_keeps)
  also have "\<dots> \<subseteq> set (ageAppropriateRisk stocks crypto retirement age
      (retirementHorizon retirement age
      (emergencyFundCheck realEstate stocks crypto debts
      (diversificationCheck stocks crypto retirement
      (debtToAssetRatioInsight realEstate stocks crypto retirement debts
      (creditCardVsInvesting stocks crypto debts ins))))))"
    by (rule ageAppropriateRisk_keeps)
  also have "\<dots> \<subseteq> set (highEquityExposure realEstate stocks crypto retirement age
      (ageAppropriateRisk stocks crypto retirement age
      (retirementHorizon retirement age
      (emergencyFundCheck realEstate stocks crypto debts
      (diversificationCheck stocks crypto retirement
      (debtToAssetRatioInsight realEstate stocks crypto retirement debts
      (creditCardVsInvesting stocks crypto debts ins)))))))"
    by (rule highEquityExposure_keeps)
  also have "\<dots> \<subseteq> set (debtFree cat realEstate stocks crypto retirement debts
      (highEquityExposure realEstate stocks crypto retirement age
      (ageAppropriateRisk stocks crypto retirement age
      (retirementHorizon retirement age
      (emergencyFundCheck realEstate stocks crypto debts
      (diversificationCheck stocks crypto retirement
      (debtToAssetRatioInsight realEstate stocks crypto retirement debts
      (creditCardVsInvesting stocks crypto debts ins))))))))"
    by (rule debtFree_keeps)
  also have "\<dots> \<subseteq> set (retirementAllocation realEstate stocks crypto retirement debts
      (debtFree cat realEstate stocks crypto retirement debts
      (highEquityExposure realEstate stocks crypto retirement age
      (ageAppropriateRisk stocks crypto retirement age
      (retirementHorizon retirement age
      (emergencyFundCheck realEstate stocks crypto debts
      (diversificationCheck stocks crypto retirement
      (debtToAssetRatioInsight realEstate stocks crypto retirement debts
      (creditCardVsInvesting stocks crypto debts ins)))))))))"
    by (rule retirementAllocation_keeps)
  finally show ?thesis .
qed

lemma computeInsights_keeps_leverage:
  "set (leverageInsight stocks now debts
          (debtPayoffInsights realEstate stocks crypto retirement debts
             (goodVsBadDebtOverview realEstate debts [])))
     \<subseteq> set (insights (computeInsights realEstate stocks crypto retirement debts now))"
  unfolding computeInsights_def using after_leverage_kept_web by simp

lemma generateInsights_keeps_leverage:
  "set (leverageInsight stocks now debts
          (debtPayoffInsights realEstate stocks crypto retirement debts
             (goodVsBadDebtOverview realEstate debts [])))
     \<subseteq> set (insights (generateInsights realEstate stocks crypto retirement debts age now))"
  unfolding generateInsights_def using after_leverage_kept_main by simp

lemma minimumPayment_emitted:
  assumes "minOnlyDebts debts \<noteq> []"
  shows "\<exists>i\<in>set (insights (computeInsights realEstate stocks crypto retirement debts now)).
           isMinimumPaymentInsight (minOnlyDebts debts) i"
    and "\<exists>i\<in>set (insights (generateInsights realEstate stocks crypto retirement debts age now)).
           isMinimumPaymentInsight (minOnlyDebts debts) i"
proof -
  from debtPayoffInsights_emits [OF assms]
  obtain i where i: "i \<in> set (debtPayoffInsights realEstate stocks crypto retirement debts
        (goodVsBadDebtOverview realEstate debts []))"
    "isMinimumPaymentInsight (minOnlyDebts debts) i" by blast
  from i(1) leverageInsight_keeps
  have "i \<in> set (leverageInsight stocks now debts
      (debtPayoffInsights realEstate stocks crypto retirement debts
         (goodVsBadDebtOverview realEstate debts [])))" by blast
  with computeInsights_keeps_leverage generateInsights_keeps_leverage i(2)
  show "\<exists>i\<in>set (insights (computeInsights realEstate stocks crypto retirement debts now)).
           isMinimumPaymentInsight (minOnlyDebts debts) i"
    and "\<exists>i\<in>set (insights (generateInsights realEstate stocks crypto retirement debts age now)).
           isMinimumPaymentInsight (minOnlyDebts debts) i"
    by blast+
qed

lemma leverage_emitted:
  assumes "0 < annualizedReturnPct stocks now" "highRateDebtsAboveReturn stocks now debts \<noteq> []"
  shows "\<exists>i\<in>set (insights (computeInsights realEstate stocks crypto retirement debts now)).
           isLeverageInsight (annualizedReturnPct stocks now)
             (highRateDebtsAboveReturn stocks now debts) i"
    and "\<exists>i\<in>set (insights (generateInsights realEstate stocks crypto retirement debts age now)).
           isLeverageInsight (annualizedReturnPct stocks now)
             (highRateDebtsAboveReturn stocks now debts) i"
  using leverageInsight_emits [OF assms] computeInsights_keeps_leverage
    generateInsights_keeps_leverage by blast+

section \<open>Double arithmetic: evaluation\<close>

lemma rne_of_int [simp]: "rne (of_int k) = k"
  by (simp add: rne_def)

lemma log2_frame:
  assumes "x \<noteq> 0"
  shows "2 powr of_int \<lfloor>log 2 \<bar>x\<bar>\<rfloor> \<le> \<bar>x\<bar>" "\<bar>x\<bar> < 2 powr (of_int \<lfloor>log 2 \<bar>x\<bar>\<rfloor> + 1)"
  using floor_log_eq_powr_iff [of "\<bar>x\<bar>" 2 "\<lfloor>log 2 \<bar>x\<bar>\<rfloor>"] assms by simp_all

lemma floor_log2_eq:
  assumes "x \<noteq> 0" "2 powr of_int E \<le> \<bar>x\<bar>" "\<bar>x\<bar> < 2 powr (of_int E + 1)"
  shows "\<lfloor>log 2 \<bar>x\<bar>\<rfloor> = E"
  using floor_log_eq_powr_iff [of "\<bar>x\<bar>" 2 E] assms by simp

lemma two_powr_diff: "2 powr of_int (int a - int b) = (2::real) ^ a / 2 ^ b"
  by (simp add: powr_diff powr_realpow)

lemma fl64_eval_small:
  assumes "x \<noteq> 0" "2 ^ 52 \<le> \<bar>x\<bar> * 2 ^ k" "\<bar>x\<bar> * 2 ^ k < 2 ^ 53" "k \<le> 1074"
  shows "fl64 x = of_int (rne (x * 2 ^ k)) / 2 ^ k"
proof -
  have p: "2 powr of_int (int 52 - int k) = (2::real) ^ 52 / 2 ^ k"
    by (rule two_powr_diff)
  have p1: "2 powr (of_int (int 52 - int k) + 1) = (2::real) ^ 53 / 2 ^ k"
    using two_powr_diff [of 53 k] by (simp add: add.commute)
  from assms(2) have l: "2 powr of_int (int 52 - int k) \<le> \<bar>x\<bar>"
    unfolding p by (simp add: field_simps)
  from assms(3) have u: "\<bar>x\<bar> < 2 powr (of_int (int 52 - int k) + 1)"
    unfolding p1 by (simp add: field_simps)
  have E: "\<lfloor>log 2 \<bar>x\<bar>\<rfloor> = int 52 - int k" using assms(1) l u by (rule floor_log2_eq)
  from assms(4) have "max (int 52 - int k - 52) (- 1074) = - int k" by simp
  then have "ulp64 x = 2 powr of_int (int 0 - int k)" by (simp add: ulp64_def E)
  then have "ulp64 x = 1 / 2 ^ k" unfolding two_powr_diff by simp
  with assms(1) show ?thesis by (simp add: fl64_def)
qed

lemma fl64_eval_large:
  assumes "x \<noteq> 0" "2 ^ 52 * 2 ^ k \<le> \<bar>x\<bar>" "\<bar>x\<bar> < 2 ^ 53 * 2 ^ k"
  shows "fl64 x = of_int (rne (x / 2 ^ k)) * 2 ^ k"
proof -
  have p: "2 powr of_int (int (52 + k) - int 0) = (2::real) ^ 52 * 2 ^ k"
    unfolding two_powr_diff by (simp add: power_add)
  have p1: "2 powr (of_int (int (52 + k) - int 0) + 1) = (2::real) ^ 53 * 2 ^ k"
    using two_powr_diff [of "53 + k" 0] by (simp add: add.commute power_add)
  from assms(2) have l: "2 powr of_int (int (52 + k) - int 0) \<le> \<bar>x\<bar>"
    unfolding p .
  from assms(3) have u: "\<bar>x\<bar> < 2 powr (of_int (int (52 + k) - int 0) + 1)"
    unfolding p1 .
  have E: "\<lfloor>log 2 \<bar>x\<bar>\<rfloor> = int (52 + k) - int 0" using assms(1) l u by (rule floor_log2_eq)
  have "max (int (52 + k) - int 0 - 52) (- 1074) = int k - int 0" by simp
  then have "ulp64 x = 2 powr of_int (int k - int 0)" by (simp only: ulp64_def E)
  then have "ulp64 x = 2 ^ k" unfolding two_powr_diff by simp
  with assms(1) show ?thesis by (simp add: fl64_def)
qed

lemma fl64_0 [simp]: "fl64 0 = 0"
  by (simp add: fl64_def)

lemma fl64_double:
  assumes "double x"
  shows "fl64 x = x"
proof (cases "x = 0")
  case True
  then show ?thesis by simp
next
  case False
  from assms obtain M e :: int where M: "\<bar>M\<bar> < 2 ^ 53" and e: "- 1074 \<le> e"
    and x: "x = of_int M * 2 powr of_int e"
    by (auto simp: double_def)
  define E where "E = \<lfloor>log 2 \<bar>x\<bar>\<rfloor>"
  define g where "g = max (E - 52) (- 1074)"
  from M have "\<bar>real_of_int M\<bar> < 2 ^ 53"
    by (metis of_int_abs of_int_less_numeral_power_cancel_iff)
  then have "\<bar>x\<bar> < 2 ^ 53 * 2 powr of_int e"
    unfolding x by (simp add: abs_mult)
  also have "\<dots> = 2 powr (of_int e + 53)"
    by (simp add: powr_add)
  finally have "\<bar>x\<bar> < 2 powr (of_int e + 53)" .
  with log2_frame(1) [OF False] have "2 powr of_int E < (2::real) powr (of_int e + 53)"
    unfolding E_def by (rule le_less_trans)
  then have "of_int E < (of_int e + 53 :: real)" by simp
  then have "E < e + 53" by linarith
  with e have ge: "g \<le> e" by (simp add: g_def)
  have "x / 2 powr of_int g = of_int M * 2 powr (of_int e - of_int g)"
    unfolding x by (simp add: powr_diff)
  also have "of_int e - of_int g = (real (nat (e - g)))" using ge by simp
  also have "2 powr real (nat (e - g)) = (2::real) ^ nat (e - g)"
    by (simp add: powr_realpow)
  finally have q: "x / 2 powr of_int g = of_int (M * 2 ^ nat (e - g))" by simp
  have "fl64 x = 2 powr of_int g * (x / 2 powr of_int g)"
    using False unfolding fl64_def ulp64_def E_def [symmetric] g_def [symmetric]
    by (simp only: q rne_of_int if_False)
  then show ?thesis by simp
qed

lemma double_of_int: "\<bar>k\<bar> < 2 ^ 53 \<Longrightarrow> double (of_int k)"
  unfolding double_def by (rule exI [of _ k], rule exI [of _ 0]) simp

lemma double_of_nat: "n < 2 ^ 53 \<Longrightarrow> double (real n)"
  using double_of_int [of "int n"] by simp

lemma fl64_hundredth: "fl64 (1 / 100) = 5764607523034235 / 2 ^ 59"
  by (subst fl64_eval_small [where k = 59]) (simp_all add: rne_def)


lemma fl64_numeral [simp]: "numeral n < (2::real) ^ 53 \<Longrightarrow> fl64 (numeral n) = numeral n"
proof -
  assume "numeral n < (2::real) ^ 53"
  then have "\<bar>numeral n :: int\<bar> < 2 ^ 53"
    by (metis abs_numeral of_int_less_numeral_power_cancel_iff of_int_numeral)
  then have "double (of_int (numeral n))" by (rule double_of_int)
  then show ?thesis using fl64_double by fastforce
qed

section \<open>Simulator with rounding: exact arithmetic as a special case\<close>

lemma totalRemainingFl_id: "totalRemainingFl (\<lambda>x. x) bs = totalRemaining bs"
  by (simp add: totalRemainingFl_def totalRemaining_def)

lemma accrueBodyFl_id: "accrueBodyFl (\<lambda>x. x) rates = accrueBody rates"
  by (rule ext)+ (simp add: accrueBodyFl_def accrueBody_def)

lemma accrueInterestFl_id: "accrueInterestFl (\<lambda>x. x) rates bs = accrueInterest rates bs"
  by (simp add: accrueInterestFl_def accrueInterest_def accrueBodyFl_id)

lemma payMinBodyFl_id: "payMinBodyFl (\<lambda>x. x) mins = payMinBody mins"
  by (rule ext)+ (simp add: payMinBodyFl_def payMinBody_def)

lemma payMinimumsFl_id: "payMinimumsFl (\<lambda>x. x) mins s = payMinimums mins s"
  by (simp add: payMinimumsFl_def payMinimums_def payMinimumsUpTo_def payMinBodyFl_id)

lemma payExtraFromFl_id: "payExtraFromFl (\<lambda>x. x) i s = payExtraFrom i s"
proof (induction i s rule: payExtraFrom.induct)
  case (1 i balances budget)
  then show ?case by (simp add: Let_def)
qed

lemma simulateMonthFl_id:
  "simulateMonthFl (\<lambda>x. x) rates mins t bs = simulateMonth rates mins t bs"
  by (simp add: simulateMonthFl_def simulateMonth_def payExtraFl_def payExtra_def
      payExtraFromFl_id payMinimumsFl_id accrueInterestFl_id)

declare payoffLoopFl.simps [simp del]

lemma payoffLoopFl_id:
  "payoffLoopFl (\<lambda>x. x) rates mins t months bs = payoffLoop rates mins t months bs"
proof (induction rates mins t months bs rule: payoffLoop.induct)
  case (1 rates mins t months bs)
  show ?case
  proof (cases "months < MAX_MONTHS \<and> \<not> totalRemaining bs \<le> 1 / 100")
    case True
    with "1.IH" show ?thesis
      by (subst payoffLoopFl.simps, subst payoffLoop.simps)
         (simp add: totalRemainingFl_id simulateMonthFl_id)
  next
    case False
    then show ?thesis
      by (subst payoffLoopFl.simps, subst payoffLoop.simps) (auto simp: totalRemainingFl_id)
  qed
qed

lemma estimatePayoffMonthsFl_id:
  "estimatePayoffMonthsFl (\<lambda>x. x) debts t = estimatePayoffMonths debts t"
  by (simp add: estimatePayoffMonthsFl_def estimatePayoffMonths_def payoffLoopFl_id)

section \<open>Simulator with rounding: one debt at 0%\<close>

lemma simulateMonthFl_zero_rate:
  assumes "fl 0 = 0" "0 < m" "m \<le> b" "fl b = b"
  shows "simulateMonthFl fl [0] [m] m [b] = [fl (b - m)]"
  using assms
  by (simp add: simulateMonthFl_def accrueInterestFl_def accrueBodyFl_def payMinimumsFl_def
      payMinBodyFl_def payExtraFl_def Let_def)

lemma payoffLoopFl_zero_rate:
  assumes "fl 0 = 0" "0 \<le> fl (1 / 100)" "fl (1 / 100) < m"
    and "\<forall>k\<le>N. fl (m * real k) = m * real k"
  shows "j \<le> N \<Longrightarrow> months \<le> MAX_MONTHS \<Longrightarrow>
   payoffLoopFl fl [0] [m] m months [m * real j] = min (months + j) MAX_MONTHS"
proof (induction j arbitrary: months)
  case 0
  from assms(1,2) "0.prems" show ?case
    by (subst payoffLoopFl.simps) (auto simp: totalRemainingFl_def)
next
  case (Suc j)
  from assms(2,3) have m: "0 < m" by simp
  show ?case
  proof (cases "months < MAX_MONTHS")
    case True
    define x where "x = m * real (Suc j)"
    from m have mx: "m \<le> x" by (simp add: x_def)
    from assms(4) Suc.prems(1) have fx: "fl x = x" unfolding x_def by blast
    from mx m have "max x 0 = x" by simp
    with fx mx assms(3) have big: "\<not> totalRemainingFl fl [x] \<le> fl (1 / 100)"
      by (simp add: totalRemainingFl_def)
    have "x - m = m * real j" by (simp add: x_def algebra_simps)
    moreover from Suc.prems(1) have "j \<le> N" by simp
    with assms(4) have "fl (m * real j) = m * real j" by blast
    ultimately have step: "simulateMonthFl fl [0] [m] m [x] = [m * real j]"
      using simulateMonthFl_zero_rate [OF assms(1) m mx fx] by simp
    from True have "months + 1 \<le> MAX_MONTHS" by simp
    with Suc.IH [of "months + 1"] Suc.prems(1)
    have "payoffLoopFl fl [0] [m] m (months + 1) [m * real j] = min (months + 1 + j) MAX_MONTHS"
      by simp
    with True big step have "payoffLoopFl fl [0] [m] m months [x] = min (months + Suc j) MAX_MONTHS"
      by (subst payoffLoopFl.simps) simp
    then show ?thesis by (simp only: x_def)
  next
    case False
    with Suc.prems show ?thesis by (subst payoffLoopFl.simps) simp
  qed
qed

lemma estimatePayoffMonthsFl_zero_rate:
  assumes "fl 0 = 0" "0 \<le> fl (1 / 100)" "fl (1 / 100) < m"
    and "\<forall>k\<le>N. fl (m * real k) = m * real k"
  shows "estimatePayoffMonthsFl fl
           [\<lparr>name = n, balance = m * real N, rate = 0, minimumPayment = m\<rparr>] m
         = min N MAX_MONTHS"
  using payoffLoopFl_zero_rate [OF assms, of N 0] assms(1,2,3)
  by (simp add: estimatePayoffMonthsFl_def)

lemma estimatePayoffMonths64_zero_rate:
  assumes "fl64 (1 / 100) < m" "\<forall>k\<le>N. fl64 (m * real k) = m * real k"
  shows "estimatePayoffMonthsFl fl64
           [\<lparr>name = n, balance = m * real N, rate = 0, minimumPayment = m\<rparr>] m
         = min N MAX_MONTHS"
proof (rule estimatePayoffMonthsFl_zero_rate)
  show "fl64 0 = 0" by simp
  show "0 \<le> fl64 (1 / 100)" by (simp add: fl64_hundredth)
  from assms(1) show "fl64 (1 / 100) < m" .
  from assms(2) show "\<forall>k\<le>N. fl64 (m * real k) = m * real k" .
qed


section \<open>Rounding error\<close>

lemma rne_error: "\<bar>of_int (rne y) - y\<bar> \<le> 1 / 2"
  unfolding rne_def Let_def by (auto simp: abs_if) linarith+

lemma rne_nonneg: "0 \<le> y \<Longrightarrow> 0 \<le> rne y"
  unfolding rne_def Let_def by (auto simp: zero_le_floor) 

lemma ulp64_pos: "0 < ulp64 x"
  by (simp add: ulp64_def)

lemma fl64_nonneg: "0 \<le> x \<Longrightarrow> 0 \<le> fl64 x"
  using ulp64_pos [of x] by (simp add: fl64_def rne_nonneg)

lemma fl64_half_ulp: "\<bar>fl64 x - x\<bar> \<le> ulp64 x / 2"
proof (cases "x = 0")
  case True
  then show ?thesis using ulp64_pos [of x] by simp
next
  case False
  have "fl64 x - x = ulp64 x * (of_int (rne (x / ulp64 x)) - x / ulp64 x)"
    using False ulp64_pos [of x] by (simp add: fl64_def algebra_simps)
  then have "\<bar>fl64 x - x\<bar> = ulp64 x * \<bar>of_int (rne (x / ulp64 x)) - x / ulp64 x\<bar>"
    using ulp64_pos [of x] by (simp add: abs_mult)
  also have "\<dots> \<le> ulp64 x * (1 / 2)"
    using rne_error [of "x / ulp64 x"] ulp64_pos [of x] by (intro mult_left_mono) simp_all
  finally show ?thesis by simp
qed

lemma ulp64_small:
  assumes "x \<noteq> 0" "\<bar>x\<bar> < 2 ^ 30"
  shows "ulp64 x \<le> 1 / 2 ^ 23"
proof -
  define E where "E = \<lfloor>log 2 \<bar>x\<bar>\<rfloor>"
  from log2_frame(1) [OF assms(1)] assms(2) have "2 powr of_int E < (2::real) ^ 30"
    unfolding E_def by (rule le_less_trans)
  also have "(2::real) ^ 30 = 2 powr of_int 30" by (simp add: powr_realpow [symmetric])
  finally have "of_int E < (of_int 30 :: real)" by (simp only: powr_less_cancel_iff) 
  then have "E < 30" by linarith
  then have "max (E - 52) (- 1074) \<le> - 23" by simp
  then have "ulp64 x \<le> 2 powr of_int (- 23)"
    unfolding ulp64_def E_def [symmetric] by (simp only: powr_le_cancel_iff of_int_le_iff)
  also have "2 powr of_int (- 23) = 1 / (2::real) ^ 23"
    using two_powr_diff [of 0 23] by simp
  finally show ?thesis .
qed

lemma fl64_abs_error:
  assumes "\<bar>x\<bar> < 2 ^ 30"
  shows "\<bar>fl64 x - x\<bar> \<le> 1 / 2 ^ 24"
proof (cases "x = 0")
  case True
  then show ?thesis by simp
next
  case False
  from ulp64_small [OF False assms] fl64_half_ulp [of x] show ?thesis by simp
qed


section \<open>Simulator with rounding: one debt at 0%, bounded drift\<close>

lemma simulateMonthFl_zero_rate_gen:
  assumes "fl 0 = 0" "0 < m" "0 < b" "0 < fl b"
  shows "simulateMonthFl fl [0] [m] m [b] = [if m \<le> fl b then fl (fl b - m) else 0]"
  using assms
  by (simp add: simulateMonthFl_def accrueInterestFl_def accrueBodyFl_def payMinimumsFl_def
      payMinBodyFl_def payExtraFl_def Let_def min_def)

lemma payoffLoopFl_drift:
  fixes \<delta> L m :: real
  assumes fl0: "fl 0 = 0"
    and nonneg: "\<forall>x\<ge>0. 0 \<le> fl x"
    and err: "\<forall>x. \<bar>x\<bar> < L \<longrightarrow> \<bar>fl x - x\<bar> \<le> \<delta>"
    and \<delta>: "0 \<le> \<delta>"
    and c1: "(2 * real MAX_MONTHS + 2) * \<delta> \<le> fl (1 / 100)"
    and c2: "fl (1 / 100) + (2 * real MAX_MONTHS + 2) * \<delta> < m"
    and L: "m * real N + (2 * real MAX_MONTHS + 2) * \<delta> < L"
  shows "k \<le> N \<Longrightarrow> k \<le> MAX_MONTHS \<Longrightarrow> 0 \<le> b \<Longrightarrow>
     \<bar>b - m * real (N - k)\<bar> \<le> (2 * real k + 1) * \<delta> \<Longrightarrow>
     payoffLoopFl fl [0] [m] m k [b] = min N MAX_MONTHS"
proof (induction "MAX_MONTHS - k" arbitrary: k b)
  case 0
  then have "\<not> k < MAX_MONTHS" "k = MAX_MONTHS" by simp_all
  with "0.prems"(1) show ?case by (subst payoffLoopFl.simps) simp
next
  case (Suc n)
  then have lt: "k < MAX_MONTHS" by simp
  let ?D = "(2 * real MAX_MONTHS + 2) * \<delta>"
  from lt \<delta> have kD: "(2 * real k + 2) * \<delta> \<le> ?D"
    by (intro mult_right_mono) simp_all
  from \<delta> c1 c2 have m: "0 < m" and c0: "0 \<le> fl (1 / 100)"
    by (smt (verit) mult_nonneg_nonneg of_nat_0_le_iff)+
  have mN: "m * real (N - k) \<le> m * real N" using m by simp
  have bL: "\<bar>b\<bar> < L"
  proof -
    from Suc.prems(4) have "b \<le> m * real (N - k) + (2 * real k + 1) * \<delta>" by simp
    also have "\<dots> \<le> m * real N + (2 * real k + 2) * \<delta>"
      using mN \<delta> by (simp add: algebra_simps)
    also have "\<dots> \<le> m * real N + ?D" using kD by simp
    finally show ?thesis using L Suc.prems(3) by simp
  qed
  with err have fb: "\<bar>fl b - b\<bar> \<le> \<delta>" by blast
  from Suc.prems(3) have tot: "totalRemainingFl fl [b] = fl b"
    by (simp add: totalRemainingFl_def)
  show ?case
  proof (cases "k = N")
    case True
    with Suc.prems(4) have "b \<le> (2 * real k + 1) * \<delta>" by simp
    with fb have "fl b \<le> (2 * real k + 2) * \<delta>" by (simp add: algebra_simps)
    with kD c1 have "fl b \<le> fl (1 / 100)" by simp
    with lt tot True show ?thesis by (subst payoffLoopFl.simps) simp
  next
    case False
    with Suc.prems(1) have kN: "k < N" by simp
    then have "1 \<le> real (N - k)" by simp
    with m have "m \<le> m * real (N - k)" by simp
    with Suc.prems(4) have bm: "m - (2 * real k + 1) * \<delta> \<le> b" by simp
    with fb have fbm: "m - (2 * real k + 2) * \<delta> \<le> fl b" by (simp add: algebra_simps)
    with kD c2 have big: "fl (1 / 100) < fl b" by simp
    with c0 have fpos: "0 < fl b" by simp
    have bpos: "0 < b"
    proof (rule ccontr)
      assume "\<not> 0 < b"
      with Suc.prems(3) have "b = 0" by simp
      with fl0 fpos show False by simp
    qed
    define b' where "b' = (if m \<le> fl b then fl (fl b - m) else 0)"
    have step: "simulateMonthFl fl [0] [m] m [b] = [b']"
      unfolding b'_def using fl0 m bpos fpos by (rule simulateMonthFl_zero_rate_gen)
    have nn: "0 \<le> b'" using nonneg by (simp add: b'_def)
    have eq: "real (N - k) = real (N - (k + 1)) + 1" using kN by (simp add: of_nat_diff)
    have inv: "\<bar>b' - m * real (N - (k + 1))\<bar> \<le> (2 * real (k + 1) + 1) * \<delta>"
    proof (cases "m \<le> fl b")
      case True
      then have "\<bar>fl b - m\<bar> \<le> \<bar>b\<bar> + \<delta>" using fb m by linarith
      moreover have "\<bar>b\<bar> + \<delta> < L"
      proof -
        from Suc.prems(4) have "b \<le> m * real (N - k) + (2 * real k + 1) * \<delta>" by simp
        then have "b + \<delta> \<le> m * real N + (2 * real k + 2) * \<delta>"
          using mN by (simp add: algebra_simps)
        also have "\<dots> \<le> m * real N + ?D" using kD by simp
        finally show ?thesis using L Suc.prems(3) by simp
      qed
      ultimately have "\<bar>fl b - m\<bar> < L" by simp
      with err have "\<bar>fl (fl b - m) - (fl b - m)\<bar> \<le> \<delta>" by blast
      with fb have "\<bar>fl (fl b - m) - (b - m)\<bar> \<le> 2 * \<delta>" by simp
      moreover have "b - m - m * real (N - (k + 1)) = b - m * real (N - k)"
        unfolding eq by (simp add: algebra_simps)
      ultimately have "\<bar>fl (fl b - m) - m * real (N - (k + 1))\<bar>
          \<le> (2 * real k + 1) * \<delta> + 2 * \<delta>"
        using Suc.prems(4) by simp
      with True show ?thesis by (simp add: b'_def algebra_simps)
    next
      case False
      with fb have "b < m + \<delta>" by simp
      with Suc.prems(4) have "m * real (N - k) < m + (2 * real k + 2) * \<delta>"
        by (simp add: algebra_simps)
      then have "m * real (N - (k + 1)) < (2 * real k + 2) * \<delta>"
        unfolding eq by (simp add: algebra_simps)
      moreover have "0 \<le> m * real (N - (k + 1))" using m by simp
      ultimately show ?thesis using False \<delta> by (simp add: b'_def algebra_simps)
    qed
    from Suc.hyps(2) lt have n: "n = MAX_MONTHS - (k + 1)" by simp
    from kN lt have "k + 1 \<le> N" "k + 1 \<le> MAX_MONTHS" by simp_all
    from Suc.hyps(1) [OF n this nn inv]
    have "payoffLoopFl fl [0] [m] m (k + 1) [b'] = min N MAX_MONTHS" .
    with lt tot big step show ?thesis by (subst payoffLoopFl.simps) simp
  qed
qed

lemma estimatePayoffMonths64_drift:
  assumes "1 / 50 \<le> m" "m * real N \<le> 10 ^ 9"
  shows "estimatePayoffMonthsFl fl64
           [\<lparr>name = n, balance = fl64 (m * real N), rate = 0, minimumPayment = m\<rparr>] m
         = min N MAX_MONTHS"
proof -
  have err: "\<forall>x. \<bar>x\<bar> < 2 ^ 30 \<longrightarrow> \<bar>fl64 x - x\<bar> \<le> 1 / 2 ^ 24"
    using fl64_abs_error by blast
  have nonneg: "\<forall>x\<ge>0. 0 \<le> fl64 x" by (simp add: fl64_nonneg)
  from assms(1) have m: "0 < m" by simp
  then have mN: "0 \<le> m * real N" by simp
  with assms(2) have "\<bar>m * real N\<bar> < 2 ^ 30" by simp
  then have e0: "\<bar>fl64 (m * real N) - m * real N\<bar> \<le> 1 / 2 ^ 24" by (rule fl64_abs_error)
  have b0: "0 \<le> fl64 (m * real N)" using mN by (rule fl64_nonneg)
  have "payoffLoopFl fl64 [0] [m] m 0 [fl64 (m * real N)] = min N MAX_MONTHS"
  proof (rule payoffLoopFl_drift [where \<delta> = "1 / 2 ^ 24" and L = "2 ^ 30" and N = N])
    show "fl64 0 = 0" by simp
    show "\<forall>x\<ge>0. 0 \<le> fl64 x" by (rule nonneg)
    show "\<forall>x. \<bar>x\<bar> < 2 ^ 30 \<longrightarrow> \<bar>fl64 x - x\<bar> \<le> 1 / 2 ^ 24" by (rule err)
    show "(0::real) \<le> 1 / 2 ^ 24" by simp
    show "(2 * real MAX_MONTHS + 2) * (1 / 2 ^ 24) \<le> fl64 (1 / 100)"
      by (simp add: fl64_hundredth MAX_MONTHS_def)
    show "fl64 (1 / 100) + (2 * real MAX_MONTHS + 2) * (1 / 2 ^ 24) < m"
      using assms(1) by (simp add: fl64_hundredth MAX_MONTHS_def)
    show "m * real N + (2 * real MAX_MONTHS + 2) * (1 / 2 ^ 24) < 2 ^ 30"
      using assms(2) by (simp add: MAX_MONTHS_def)
    show "0 \<le> N" "0 \<le> MAX_MONTHS" by simp_all
    show "0 \<le> fl64 (m * real N)" by (rule b0)
    show "\<bar>fl64 (m * real N) - m * real (N - 0)\<bar> \<le> (2 * real 0 + 1) * (1 / 2 ^ 24)"
      using e0 by simp
  qed
  with m show ?thesis by (simp add: estimatePayoffMonthsFl_def)
qed

section \<open>Double arithmetic: values used in the counterexamples\<close>

lemma fl64_drift_1: "fl64 18014398509481988 = 18014398509481988"
  by (subst fl64_eval_large [where k = 2]) (simp_all add: rne_def)
lemma fl64_drift_2: "fl64 13510798882111491 = 13510798882111492"
  by (subst fl64_eval_large [where k = 1]) (simp_all add: rne_def)
lemma fl64_drift_3: "fl64 13510798882111492 = 13510798882111492"
  by (subst fl64_eval_large [where k = 1]) (simp_all add: rne_def)
lemma fl64_drift_4: "fl64 9007199254740995 = 9007199254740996"
  by (subst fl64_eval_large [where k = 1]) (simp_all add: rne_def)
lemma fl64_drift_5: "fl64 9007199254740996 = 9007199254740996"
  by (subst fl64_eval_large [where k = 1]) (simp_all add: rne_def)

lemmas simFl_defs = estimatePayoffMonthsFl_def payoffLoopFl.simps MAX_MONTHS_def
  totalRemainingFl_def simulateMonthFl_def accrueInterestFl_def accrueBodyFl_def
  payMinimumsFl_def payMinBodyFl_def payExtraFl_def Let_def

lemma fl64_two_pow_minus_10: "fl64 (1 / 1024) = 1 / 1024"
  by (subst fl64_eval_small [where k = 62]) (simp_all add: rne_def)

section \<open>Sums with rounding\<close>

lemma sumFl_Nil [simp]: "sumFl fl f [] = 0"
  by (simp add: sumFl_def)

lemma sumFl_snoc [simp]: "sumFl fl f (xs @ [x]) = fl (sumFl fl f xs + f x)"
  by (simp add: sumFl_def)

lemma sum_list_Nats: "\<forall>x\<in>set xs. f x \<in> \<nat> \<Longrightarrow> sum_list (map f xs) \<in> (\<nat> :: real set)"
  by (induction xs) (simp_all add: Nats_add)

lemma fl64_Nats: "x \<in> \<nat> \<Longrightarrow> x < 2 ^ 53 \<Longrightarrow> fl64 x = x"
proof -
  assume "x \<in> \<nat>" "x < 2 ^ 53"
  then obtain n where n: "x = real n" "real n < 2 ^ 53" by (auto elim: Nats_cases)
  then have "n < 2 ^ 53" by (metis of_nat_less_numeral_power_cancel_iff)
  then have "double (real n)" by (rule double_of_nat)
  with n show ?thesis by (simp add: fl64_double)
qed

lemma sumFl64_exact:
  "\<forall>x\<in>set xs. f x \<in> \<nat> \<Longrightarrow> sum_list (map f xs) < 2 ^ 53 \<Longrightarrow>
   sumFl fl64 f xs = sum_list (map f xs)"
proof (induction xs rule: rev_induct)
  case Nil
  show ?case by simp
next
  case (snoc x xs)
  from snoc.prems(1) have fx: "f x \<in> \<nat>" and all: "\<forall>y\<in>set xs. f y \<in> \<nat>" by simp_all
  from fx have "0 \<le> f x" by (auto elim: Nats_cases)
  with snoc.prems(2) have "sum_list (map f xs) < 2 ^ 53" by simp
  with snoc.IH all have ih: "sumFl fl64 f xs = sum_list (map f xs)" by simp
  from snoc.prems(1) have "sum_list (map f (xs @ [x])) \<in> \<nat>" by (rule sum_list_Nats)
  then have "fl64 (sum_list (map f (xs @ [x]))) = sum_list (map f (xs @ [x]))"
    using snoc.prems(2) by (rule fl64_Nats)
  with ih show ?case by simp
qed

lemma sumFl64_nonneg: "\<forall>x\<in>set xs. 0 \<le> f x \<Longrightarrow> 0 \<le> sumFl fl64 f xs"
  by (induction xs rule: rev_induct) (simp_all add: fl64_nonneg)

lemma sumFl64_error:
  assumes "\<forall>x\<in>set xs. 0 \<le> f x"
    and "sum_list (map f xs) + real (length xs) / 2 ^ 24 < 2 ^ 30"
  shows "\<bar>sumFl fl64 f xs - sum_list (map f xs)\<bar> \<le> real (length xs) / 2 ^ 24"
  using assms
proof (induction xs rule: rev_induct)
  case Nil
  show ?case by simp
next
  case (snoc x xs)
  define e where "e = real (length xs) / 2 ^ 24"
  define d where "d = (1::real) / 2 ^ 24"
  define S where "S = sum_list (map f xs)"
  define T where "T = sumFl fl64 f xs"
  have len: "real (length (xs @ [x])) / 2 ^ 24 = e + d"
    by (simp add: e_def d_def add_divide_distrib)
  have d0: "0 \<le> d" by (simp add: d_def)
  from snoc.prems(1) have fx: "0 \<le> f x" and all: "\<forall>y\<in>set xs. 0 \<le> f y" by simp_all
  from snoc.prems(2) have p2: "S + f x + (e + d) < 2 ^ 30"
    unfolding len S_def by simp
  with fx d0 have "S + e < 2 ^ 30" by linarith
  with snoc.IH all have ih: "\<bar>T - S\<bar> \<le> e" by (simp add: e_def S_def T_def)
  have nn: "0 \<le> T" unfolding T_def using all by (rule sumFl64_nonneg)
  from ih p2 d0 have "T + f x < 2 ^ 30" by linarith
  with nn fx have "\<bar>T + f x\<bar> < 2 ^ 30" by simp
  then have "\<bar>fl64 (T + f x) - (T + f x)\<bar> \<le> d"
    unfolding d_def by (rule fl64_abs_error)
  with ih have "\<bar>fl64 (T + f x) - (S + f x)\<bar> \<le> e + d" by linarith
  then show ?case unfolding len by (simp add: S_def T_def)
qed

section \<open>Debt totals with rounding: exact sums and error bound\<close>

lemma sum_list_filter_split:
  "sum_list (map f (filter P xs)) + sum_list (map f (filter (\<lambda>x. \<not> P x) xs)) = sum_list (map f xs)"
  for f :: "'a \<Rightarrow> real"
  by (induction xs) simp_all

lemma sum_list_nonneg_real: "\<forall>x\<in>set xs. 0 \<le> f x \<Longrightarrow> 0 \<le> sum_list (map f xs)"
  for f :: "'a \<Rightarrow> real"
  by (induction xs) simp_all

lemma Nats_nonneg: "x \<in> \<nat> \<Longrightarrow> 0 \<le> x" for x :: real
  by (auto elim: Nats_cases)

lemma debt_totals_exact:
  assumes d: "\<forall>d\<in>set debts. currentBalance d \<in> \<nat>"
    and p: "\<forall>p\<in>set realEstate. mortgageBalance p \<in> \<nat>"
    and lt: "sum_list (map currentBalance debts) + sum_list (map mortgageBalance realEstate) < 2 ^ 53"
  shows "fl64 (goodDebtTotalFl fl64 realEstate debts + badDebtTotalFl fl64 debts)
           = sum_list (map currentBalance debts) + sum_list (map mortgageBalance realEstate)"
    and "totalAllObligationsFl fl64 realEstate debts
           = sum_list (map currentBalance debts) + sum_list (map mortgageBalance realEstate)"
proof -
  define Sd where "Sd = sum_list (map currentBalance debts)"
  define Sm where "Sm = sum_list (map mortgageBalance realEstate)"
  define Sg where "Sg = sum_list (map currentBalance (goodDebtsFromTable debts))"
  define Sb where "Sb = sum_list (map currentBalance (badDebts debts))"
  have split: "Sg + Sb = Sd"
    unfolding Sg_def Sb_def Sd_def goodDebtsFromTable_def badDebts_def
    by (rule sum_list_filter_split)
  from d have dg: "\<forall>d\<in>set (goodDebtsFromTable debts). currentBalance d \<in> \<nat>"
    and db: "\<forall>d\<in>set (badDebts debts). currentBalance d \<in> \<nat>"
    by (simp_all add: goodDebtsFromTable_def badDebts_def)
  have N: "Sd \<in> \<nat>" "Sm \<in> \<nat>" "Sg \<in> \<nat>" "Sb \<in> \<nat>"
    unfolding Sd_def Sm_def Sg_def Sb_def using d p dg db by (simp_all add: sum_list_Nats)
  then have nn: "0 \<le> Sd" "0 \<le> Sm" "0 \<le> Sg" "0 \<le> Sb" by (simp_all add: Nats_nonneg)
  from lt have lt': "Sd + Sm < 2 ^ 53" by (simp add: Sd_def Sm_def)
  have Td: "sumFl fl64 currentBalance debts = Sd"
    unfolding Sd_def using d by (rule sumFl64_exact) (use lt' nn in \<open>simp add: Sd_def\<close>)
  have Tm: "sumFl fl64 mortgageBalance realEstate = Sm"
    unfolding Sm_def using p by (rule sumFl64_exact) (use lt' nn in \<open>simp add: Sm_def\<close>)
  have Tg: "sumFl fl64 currentBalance (goodDebtsFromTable debts) = Sg"
    unfolding Sg_def using dg by (rule sumFl64_exact) (use lt' nn split in \<open>simp add: Sg_def\<close>)
  have Tb: "sumFl fl64 currentBalance (badDebts debts) = Sb"
    unfolding Sb_def using db by (rule sumFl64_exact) (use lt' nn split in \<open>simp add: Sb_def\<close>)
  have "Sg + Sm \<in> \<nat>" "Sg + Sm < 2 ^ 53" using N lt' nn split by (simp_all add: Nats_add)
  then have g: "fl64 (Sg + Sm) = Sg + Sm" by (rule fl64_Nats)
  have "Sd + Sm \<in> \<nat>" using N by (simp add: Nats_add)
  then have t: "fl64 (Sd + Sm) = Sd + Sm" using lt' by (rule fl64_Nats)
  have e: "Sg + Sm + Sb = Sd + Sm" using split by linarith
  have "fl64 (Sg + Sm + Sb) = Sd + Sm" unfolding e by (rule t)
  with g Tg Tb Tm show "fl64 (goodDebtTotalFl fl64 realEstate debts + badDebtTotalFl fl64 debts)
           = sum_list (map currentBalance debts) + sum_list (map mortgageBalance realEstate)"
    by (simp add: goodDebtTotalFl_def badDebtTotalFl_def totalMortgageBalancesFl_def
        Sd_def [symmetric] Sm_def [symmetric])
  from t Td Tm show "totalAllObligationsFl fl64 realEstate debts
           = sum_list (map currentBalance debts) + sum_list (map mortgageBalance realEstate)"
    by (simp add: totalAllObligationsFl_def totalDebtsOnlyFl_def totalMortgageBalancesFl_def
        Sd_def [symmetric] Sm_def [symmetric])
qed


lemma debt_totals_error:
  assumes d: "\<forall>d\<in>set debts. 0 \<le> currentBalance d"
    and p: "\<forall>p\<in>set realEstate. 0 \<le> mortgageBalance p"
    and le: "sum_list (map currentBalance debts) + sum_list (map mortgageBalance realEstate) \<le> 10 ^ 9"
    and len: "length debts + length realEstate \<le> 10 ^ 6"
  shows "\<bar>fl64 (goodDebtTotalFl fl64 realEstate debts + badDebtTotalFl fl64 debts)
           - (sum_list (map currentBalance debts) + sum_list (map mortgageBalance realEstate))\<bar>
         \<le> real (length debts + length realEstate + 2) / 2 ^ 24"
    and "\<bar>totalAllObligationsFl fl64 realEstate debts
           - (sum_list (map currentBalance debts) + sum_list (map mortgageBalance realEstate))\<bar>
         \<le> real (length debts + length realEstate + 1) / 2 ^ 24"
proof -
  define Sd where "Sd = sum_list (map currentBalance debts)"
  define Sm where "Sm = sum_list (map mortgageBalance realEstate)"
  define Sg where "Sg = sum_list (map currentBalance (goodDebtsFromTable debts))"
  define Sb where "Sb = sum_list (map currentBalance (badDebts debts))"
  define Td where "Td = sumFl fl64 currentBalance debts"
  define Tm where "Tm = sumFl fl64 mortgageBalance realEstate"
  define Tg where "Tg = sumFl fl64 currentBalance (goodDebtsFromTable debts)"
  define Tb where "Tb = sumFl fl64 currentBalance (badDebts debts)"
  define u :: real where "u = 1 / 2 ^ 24"
  define n where "n = real (length debts)"
  define r where "r = real (length realEstate)"
  define ng where "ng = real (length (goodDebtsFromTable debts))"
  define nb where "nb = real (length (badDebts debts))"
  have split: "Sg + Sb = Sd"
    unfolding Sg_def Sb_def Sd_def goodDebtsFromTable_def badDebts_def
    by (rule sum_list_filter_split)
  have "length (goodDebtsFromTable debts) + length (badDebts debts) = length debts"
    unfolding goodDebtsFromTable_def badDebts_def by (rule sum_length_filter_compl)
  then have nsplit: "ng + nb = n" unfolding ng_def nb_def n_def by (metis of_nat_add)
  from d have dg: "\<forall>d\<in>set (goodDebtsFromTable debts). 0 \<le> currentBalance d"
    and db: "\<forall>d\<in>set (badDebts debts). 0 \<le> currentBalance d"
    by (simp_all add: goodDebtsFromTable_def badDebts_def)
  have nn: "0 \<le> Sd" "0 \<le> Sm" "0 \<le> Sg" "0 \<le> Sb"
    unfolding Sd_def Sm_def Sg_def Sb_def using d p dg db by (simp_all add: sum_list_nonneg_real)
  have tn: "0 \<le> Td" "0 \<le> Tm" "0 \<le> Tg" "0 \<le> Tb"
    unfolding Td_def Tm_def Tg_def Tb_def using d p dg db by (simp_all add: sumFl64_nonneg)
  have cn: "0 \<le> n" "0 \<le> r" "0 \<le> ng" "0 \<le> nb" by (simp_all add: n_def r_def ng_def nb_def)
  from le have le': "Sd + Sm \<le> 10 ^ 9" by (simp add: Sd_def Sm_def)
  from len have "real (length debts + length realEstate) \<le> real (10 ^ 6)"
    by (rule iffD2 [OF of_nat_le_iff])
  then have len': "n + r \<le> 10 ^ 6" by (simp add: n_def r_def)
  have u: "0 < u" "10 ^ 6 * u \<le> 1" "u \<le> 1" by (simp_all add: u_def)
  have nu: "n * u + r * u \<le> 1"
  proof -
    have "n * u + r * u = (n + r) * u" by (simp add: algebra_simps)
    also have "\<dots> \<le> 10 ^ 6 * u" using len' u(1) by (intro mult_right_mono) simp_all
    finally show ?thesis using u(2) by linarith
  qed
  have un: "0 \<le> n * u" "0 \<le> r * u" "0 \<le> ng * u" "0 \<le> nb * u"
    using cn u(1) by simp_all
  have nus: "ng * u + nb * u = n * u" using nsplit by (simp add: algebra_simps flip: nsplit)
  have big: "(10::real) ^ 9 + 3 < 2 ^ 30" by simp
  have Ed: "\<bar>Td - Sd\<bar> \<le> n * u"
  proof -
    have "Sd + n * u < 2 ^ 30" using le' nn nu un big by linarith
    then have "sum_list (map currentBalance debts) + real (length debts) / 2 ^ 24 < 2 ^ 30"
      by (simp add: Sd_def n_def u_def)
    from sumFl64_error [OF d this] show ?thesis by (simp add: Td_def Sd_def n_def u_def)
  qed
  have Em: "\<bar>Tm - Sm\<bar> \<le> r * u"
  proof -
    have "Sm + r * u < 2 ^ 30" using le' nn nu un big by linarith
    then have "sum_list (map mortgageBalance realEstate) + real (length realEstate) / 2 ^ 24 < 2 ^ 30"
      by (simp add: Sm_def r_def u_def)
    from sumFl64_error [OF p this] show ?thesis by (simp add: Tm_def Sm_def r_def u_def)
  qed
  have Eg: "\<bar>Tg - Sg\<bar> \<le> ng * u"
  proof -
    have "Sg + ng * u < 2 ^ 30" using le' nn nu un nus split big by linarith
    then have "sum_list (map currentBalance (goodDebtsFromTable debts))
        + real (length (goodDebtsFromTable debts)) / 2 ^ 24 < 2 ^ 30"
      by (simp add: Sg_def ng_def u_def)
    from sumFl64_error [OF dg this] show ?thesis by (simp add: Tg_def Sg_def ng_def u_def)
  qed
  have Eb: "\<bar>Tb - Sb\<bar> \<le> nb * u"
  proof -
    have "Sb + nb * u < 2 ^ 30" using le' nn nu un nus split big by linarith
    then have "sum_list (map currentBalance (badDebts debts))
        + real (length (badDebts debts)) / 2 ^ 24 < 2 ^ 30"
      by (simp add: Sb_def nb_def u_def)
    from sumFl64_error [OF db this] show ?thesis by (simp add: Tb_def Sb_def nb_def u_def)
  qed
  define G where "G = fl64 (Tg + Tm)"
  have "\<bar>Tg + Tm\<bar> < 2 ^ 30" using Eg Em tn le' nn nu un nus split big by linarith
  then have "\<bar>fl64 (Tg + Tm) - (Tg + Tm)\<bar> \<le> 1 / 2 ^ 24" by (rule fl64_abs_error)
  then have EG: "\<bar>G - (Tg + Tm)\<bar> \<le> u" by (simp add: G_def u_def)
  have Gn: "0 \<le> G" unfolding G_def using tn by (simp add: fl64_nonneg)
  have "\<bar>G + Tb\<bar> < 2 ^ 30"
    using EG Eg Em Eb tn Gn le' nn nu un nus split big u by linarith
  then have "\<bar>fl64 (G + Tb) - (G + Tb)\<bar> \<le> 1 / 2 ^ 24" by (rule fl64_abs_error)
  then have EL: "\<bar>fl64 (G + Tb) - (G + Tb)\<bar> \<le> u" by (simp add: u_def)
  have L: "\<bar>fl64 (G + Tb) - (Sd + Sm)\<bar> \<le> n * u + r * u + 2 * u"
    using EL EG Eg Em Eb nus split by linarith
  have "\<bar>Td + Tm\<bar> < 2 ^ 30" using Ed Em tn le' nn nu un big by linarith
  then have "\<bar>fl64 (Td + Tm) - (Td + Tm)\<bar> \<le> 1 / 2 ^ 24" by (rule fl64_abs_error)
  then have ER: "\<bar>fl64 (Td + Tm) - (Td + Tm)\<bar> \<le> u" by (simp add: u_def)
  have R: "\<bar>fl64 (Td + Tm) - (Sd + Sm)\<bar> \<le> n * u + r * u + u"
    using ER Ed Em by linarith
  have c2: "real (length debts + length realEstate + 2) / 2 ^ 24 = n * u + r * u + 2 * u"
    by (simp add: n_def r_def u_def add_divide_distrib)
  have c1: "real (length debts + length realEstate + 1) / 2 ^ 24 = n * u + r * u + u"
    by (simp add: n_def r_def u_def add_divide_distrib)
  have lhs: "fl64 (goodDebtTotalFl fl64 realEstate debts + badDebtTotalFl fl64 debts) = fl64 (G + Tb)"
    by (simp add: goodDebtTotalFl_def badDebtTotalFl_def totalMortgageBalancesFl_def
        G_def Tg_def Tm_def Tb_def)
  have rhs: "totalAllObligationsFl fl64 realEstate debts = fl64 (Td + Tm)"
    by (simp add: totalAllObligationsFl_def totalDebtsOnlyFl_def totalMortgageBalancesFl_def
        Td_def Tm_def)
  show "\<bar>fl64 (goodDebtTotalFl fl64 realEstate debts + badDebtTotalFl fl64 debts)
           - (sum_list (map currentBalance debts) + sum_list (map mortgageBalance realEstate))\<bar>
         \<le> real (length debts + length realEstate + 2) / 2 ^ 24"
    unfolding lhs c2 using L by (simp only: Sd_def Sm_def)
  show "\<bar>totalAllObligationsFl fl64 realEstate debts
           - (sum_list (map currentBalance debts) + sum_list (map mortgageBalance realEstate))\<bar>
         \<le> real (length debts + length realEstate + 1) / 2 ^ 24"
    unfolding rhs c1 using R by (simp only: Sd_def Sm_def)
qed


lemma totalAllObligationsFl_id:
  "totalAllObligationsFl (\<lambda>x. x) realEstate debts = totalAllObligations realEstate debts"
  by (simp add: totalAllObligationsFl_def totalAllObligations_def totalDebtsOnlyFl_def
      totalDebtsOnly_def totalMortgageBalancesFl_def totalMortgageBalances_def sumFl_def)

lemma badDebtTotalFl_id: "badDebtTotalFl (\<lambda>x. x) debts = badDebtTotal debts"
  by (simp add: badDebtTotalFl_def badDebtTotal_def sumFl_def)

lemma goodDebtTotalFl_id:
  "goodDebtTotalFl (\<lambda>x. x) realEstate debts = goodDebtTotal realEstate debts"
  by (simp add: goodDebtTotalFl_def goodDebtTotal_def totalMortgageBalancesFl_def
      totalMortgageBalances_def sumFl_def)

section \<open>Claims about the payoff simulator\<close>

text \<open>
  C1 (as amended). \<open>estimatePayoffMonths\<close> is a total function and its result never exceeds
  the cap of 600 months. With no debts or a budget that is not positive it returns 0
  without simulating. With at least one debt and a positive budget, if the total remaining
  balance stays above the 0.01 threshold at the start of each of the 600 months, it
  returns exactly 600.
\<close>

theorem estimatePayoffMonths_capped:
  "estimatePayoffMonths debts t \<le> 600
   \<and> (debts = [] \<or> t \<le> 0 \<longrightarrow> estimatePayoffMonths debts t = 0)
   \<and> (debts \<noteq> [] \<and> 0 < t
        \<and> (\<forall>k<600. 1 / 100 < totalRemaining
              ((simulateMonth (map (\<lambda>d. rate d / 100 / 12) debts) (map minimumPayment debts) t ^^ k)
                 (map balance debts)))
      \<longrightarrow> estimatePayoffMonths debts t = 600)"
proof (intro conjI impI)
  show "estimatePayoffMonths debts t \<le> 600"
    using payoffLoop_bounds [of 0 "map (\<lambda>d. rate d / 100 / 12) debts" "map minimumPayment debts" t
        "map balance debts"]
    by (simp add: estimatePayoffMonths_def MAX_MONTHS_def)
next
  assume "debts = [] \<or> t \<le> 0"
  then show "estimatePayoffMonths debts t = 0" by (auto simp: estimatePayoffMonths_def)
next
  assume a: "debts \<noteq> [] \<and> 0 < t
        \<and> (\<forall>k<600. 1 / 100 < totalRemaining
              ((simulateMonth (map (\<lambda>d. rate d / 100 / 12) debts) (map minimumPayment debts) t ^^ k)
                 (map balance debts)))"
  then have "payoffLoop (map (\<lambda>d. rate d / 100 / 12) debts) (map minimumPayment debts) t 0
      (map balance debts) = MAX_MONTHS"
    by (intro payoffLoop_saturates) (simp_all add: MAX_MONTHS_def)
  with a show "estimatePayoffMonths debts t = 600"
    by (simp add: estimatePayoffMonths_def MAX_MONTHS_def)
qed

text \<open>An interest-only budget: 1000 at 24% a year accrues 20 a month, and 20 is paid.\<close>

theorem estimatePayoffMonths_capped_witness:
  "estimatePayoffMonths [\<lparr>name = ''card'', balance = 1000, rate = 24, minimumPayment = 20\<rparr>] 20 = 600
   \<and> estimatePayoffMonths [] 20 = 0"
proof -
  have "\<forall>k<600. 1 / 100 < totalRemaining ((simulateMonth [24 / 100 / 12] [20] 20 ^^ k) [1000])"
    by (intro allI impI interest_only_remaining) simp_all
  with estimatePayoffMonths_capped
         [of "[\<lparr>name = ''card'', balance = 1000, rate = 24, minimumPayment = 20\<rparr>]" 20]
       estimatePayoffMonths_capped [of "[]" 20]
  show ?thesis by simp
qed

text \<open>C1 as stated fails for a budget of 0: nothing is ever paid, the balance stays above
  the threshold (here after 599 months), and the result is 0, not the cap.\<close>

theorem estimatePayoffMonths_zero_budget_counterexample:
  "estimatePayoffMonths [\<lparr>name = ''loan'', balance = 1000, rate = 12, minimumPayment = 0\<rparr>] 0 = 0
   \<and> 1 / 100 < totalRemaining ((simulateMonth [12 / 100 / 12] [0] 0 ^^ 599) [1000])"
proof
  show "estimatePayoffMonths [\<lparr>name = ''loan'', balance = 1000, rate = 12, minimumPayment = 0\<rparr>] 0 = 0"
    by (simp add: estimatePayoffMonths_def)
  show "1 / 100 < totalRemaining ((simulateMonth [12 / 100 / 12] [0] 0 ^^ 599) [1000])"
    by (rule interest_only_remaining) simp_all
qed

text \<open>
  C2 (as amended). For a fixed list of debts with non-negative balances, rates and minimum
  payments, and budgets \<open>0 < B1 \<le> B2\<close>, the months to payoff under \<open>B2\<close> are at most
  those under \<open>B1\<close>.
\<close>

theorem estimatePayoffMonths_mono_budget:
  assumes "\<forall>d\<in>set debts. 0 \<le> balance d \<and> 0 \<le> rate d \<and> 0 \<le> minimumPayment d"
    and "0 < B1" and "B1 \<le> B2"
  shows "estimatePayoffMonths debts B2 \<le> estimatePayoffMonths debts B1"
proof (cases "debts = []")
  case True
  then show ?thesis by (simp add: estimatePayoffMonths_def)
next
  case False
  from assms(1) have r: "nonneg (map (\<lambda>d. rate d / 100 / 12) debts)"
    and m: "nonneg (map minimumPayment debts)"
    by (simp_all add: nonneg_def list_all_iff)
  from assms(2) have "0 \<le> B1" by simp
  from payoffLoop_mono [OF r m this assms(3), of "map balance debts" "map balance debts" 0]
  have "payoffLoop (map (\<lambda>d. rate d / 100 / 12) debts) (map minimumPayment debts) B2 0 (map balance debts)
      \<le> payoffLoop (map (\<lambda>d. rate d / 100 / 12) debts) (map minimumPayment debts) B1 0 (map balance debts)"
    by simp
  with False assms(2,3) show ?thesis by (simp add: estimatePayoffMonths_def)
qed

theorem estimatePayoffMonths_mono_budget_witness:
  "(0::real) < 50 \<and> (50::real) \<le> 100
   \<and> estimatePayoffMonths [\<lparr>name = ''loan'', balance = 100, rate = 0, minimumPayment = 50\<rparr>] 100
       \<le> estimatePayoffMonths [\<lparr>name = ''loan'', balance = 100, rate = 0, minimumPayment = 50\<rparr>] 50"
  using estimatePayoffMonths_mono_budget
          [of "[\<lparr>name = ''loan'', balance = 100, rate = 0, minimumPayment = 50\<rparr>]" 50 100]
  by simp

text \<open>C2 as stated fails when the smaller budget is 0: the simulator returns 0 for it, and
  2 for the budget 50.\<close>

theorem estimatePayoffMonths_mono_budget_counterexample:
  "(0::real) \<le> 50
   \<and> \<not> estimatePayoffMonths [\<lparr>name = ''loan'', balance = 100, rate = 0, minimumPayment = 50\<rparr>] 50
       \<le> estimatePayoffMonths [\<lparr>name = ''loan'', balance = 100, rate = 0, minimumPayment = 50\<rparr>] 0"
proof -
  have "estimatePayoffMonths [\<lparr>name = ''loan'', balance = 50 * real 2, rate = 0, minimumPayment = 50\<rparr>] 50
      = min 2 MAX_MONTHS"
    by (rule estimatePayoffMonths_zero_rate) simp
  moreover have "estimatePayoffMonths [\<lparr>name = ''loan'', balance = 100, rate = 0, minimumPayment = 50\<rparr>] 0 = 0"
    by (simp add: estimatePayoffMonths_def)
  ultimately show ?thesis by (simp add: MAX_MONTHS_def)
qed

text \<open>
  C3 (as amended). In double arithmetic, take a single debt at 0% whose balance is the product
  \<open>m * N\<close> (as the arithmetic computes it) and whose minimum payment \<open>m\<close> is also the
  budget. If \<open>m\<close> is at least 0.02 and \<open>m * N\<close> at most \<open>10^9\<close>, or if \<open>m\<close> exceeds the
  double \<open>0.01\<close> and every multiple \<open>m * k\<close> up to \<open>m * N\<close> is computed without
  rounding, the simulator returns \<open>min N 600\<close> months: exactly \<open>N\<close> months up to the cap
  of 600.
\<close>

theorem zero_interest_round_trip_doubles:
  assumes "(1 / 50 \<le> m \<and> m * real N \<le> 10 ^ 9)
         \<or> (fl64 (1 / 100) < m \<and> (\<forall>k\<le>N. fl64 (m * real k) = m * real k))"
  shows "estimatePayoffMonthsFl fl64
           [\<lparr>name = n, balance = fl64 (m * real N), rate = 0, minimumPayment = m\<rparr>] m
         = min N 600"
  using assms
proof
  assume "1 / 50 \<le> m \<and> m * real N \<le> 10 ^ 9"
  then show ?thesis
    using estimatePayoffMonths64_drift [of m N n] by (simp add: MAX_MONTHS_def)
next
  assume a: "fl64 (1 / 100) < m \<and> (\<forall>k\<le>N. fl64 (m * real k) = m * real k)"
  then have "fl64 (m * real N) = m * real N" by blast
  with a show ?thesis
    using estimatePayoffMonths64_zero_rate [of m N n] by (simp add: MAX_MONTHS_def)
qed

text \<open>Twelve payments of 49.99, and twelve payments of 50.\<close>

theorem zero_interest_round_trip_doubles_witness:
  "estimatePayoffMonthsFl fl64
     [\<lparr>name = ''loan'', balance = fl64 (fl64 (4999 / 100) * real 12), rate = 0,
       minimumPayment = fl64 (4999 / 100)\<rparr>] (fl64 (4999 / 100)) = 12
   \<and> estimatePayoffMonthsFl fl64
     [\<lparr>name = ''loan'', balance = fl64 (50 * real 12), rate = 0, minimumPayment = 50\<rparr>] 50 = 12"
proof
  have v: "fl64 (4999 / 100) = 7035467042882847 / 2 ^ 47"
    by (subst fl64_eval_small [where k = 47]) (simp_all add: rne_def)
  have "1 / 50 \<le> fl64 (4999 / 100) \<and> fl64 (4999 / 100) * real 12 \<le> 10 ^ 9"
    unfolding v by simp
  then show "estimatePayoffMonthsFl fl64
     [\<lparr>name = ''loan'', balance = fl64 (fl64 (4999 / 100) * real 12), rate = 0,
       minimumPayment = fl64 (4999 / 100)\<rparr>] (fl64 (4999 / 100)) = 12"
    using zero_interest_round_trip_doubles [of "fl64 (4999 / 100)" 12 "''loan''"] by simp
next
  have "\<forall>k\<le>12. fl64 (50 * real k) = 50 * real k"
  proof (intro allI impI)
    fix k :: nat assume "k \<le> 12"
    then have "50 * k < 2 ^ 53" by simp
    then have "double (real (50 * k))" by (rule double_of_nat)
    then have "double (50 * real k)" by simp
    then show "fl64 (50 * real k) = 50 * real k" by (rule fl64_double)
  qed
  then have "fl64 (1 / 100) < 50 \<and> (\<forall>k\<le>12. fl64 (50 * real k) = 50 * real k)"
    by (simp add: fl64_hundredth)
  then show "estimatePayoffMonthsFl fl64
     [\<lparr>name = ''loan'', balance = fl64 (50 * real 12), rate = 0, minimumPayment = 50\<rparr>] 50 = 12"
    using zero_interest_round_trip_doubles [of 50 12 "''loan''"] by simp
qed

text \<open>C3 as stated fails in three ways: beyond the cap (\<open>N = 601\<close>, \<open>m = 1\<close>: 600 months),
  for a payment under the threshold (\<open>N = 1\<close>, \<open>m = 2^-10\<close>: 0 months), and by rounding
  (\<open>N = 4\<close>, \<open>m = 2^52 + 1\<close>: the balances after the payments are rounded to
  \<open>3 * 2^52 + 4\<close>, \<open>2^53 + 4\<close>, \<open>2^52 + 3\<close>, \<open>2\<close>, and a fifth month is needed).\<close>

theorem zero_interest_round_trip_counterexample:
  "estimatePayoffMonthsFl fl64
     [\<lparr>name = ''loan'', balance = fl64 (1 * real 601), rate = 0, minimumPayment = 1\<rparr>] 1 = 600
   \<and> estimatePayoffMonthsFl fl64
     [\<lparr>name = ''loan'', balance = fl64 (1 / 1024 * real 1), rate = 0, minimumPayment = 1 / 1024\<rparr>]
     (1 / 1024) = 0
   \<and> estimatePayoffMonthsFl fl64
     [\<lparr>name = ''loan'', balance = fl64 (4503599627370497 * real 4), rate = 0,
       minimumPayment = 4503599627370497\<rparr>] 4503599627370497 = 5"
proof (intro conjI)
  show "estimatePayoffMonthsFl fl64
     [\<lparr>name = ''loan'', balance = fl64 (1 * real 601), rate = 0, minimumPayment = 1\<rparr>] 1 = 600"
    using estimatePayoffMonths64_drift [of 1 601 "''loan''"] by (simp add: MAX_MONTHS_def)
  show "estimatePayoffMonthsFl fl64
     [\<lparr>name = ''loan'', balance = fl64 (1 / 1024 * real 1), rate = 0, minimumPayment = 1 / 1024\<rparr>]
     (1 / 1024) = 0"
    by (simp add: simFl_defs fl64_hundredth fl64_two_pow_minus_10)
  show "estimatePayoffMonthsFl fl64
     [\<lparr>name = ''loan'', balance = fl64 (4503599627370497 * real 4), rate = 0,
       minimumPayment = 4503599627370497\<rparr>] 4503599627370497 = 5"
    by (simp add: simFl_defs fl64_hundredth fl64_drift_1 fl64_drift_2 fl64_drift_3 fl64_drift_4 fl64_drift_5)
qed

text \<open>
  C10. Let the debts have non-negative balances, rates and minimum payments, and let the
  budget \<open>t\<close> be positive (the simulator does not run otherwise). Take the balances \<open>bs\<close>
  at the start of any month \<open>k\<close>. Then no balance is negative at the start of the month,
  after the interest accrual, after each of the minimum payments (the first \<open>n\<close> of them,
  for every \<open>n\<close> up to the number of debts) and after the extra payment; and after each
  payment the budget left is between \<open>0\<close> and \<open>t\<close>, so that no more than \<open>t\<close> is spent.
\<close>

theorem simulation_balances_nonnegative:
  assumes "\<forall>d\<in>set debts. 0 \<le> balance d \<and> 0 \<le> rate d \<and> 0 \<le> minimumPayment d"
    and "0 < t" and "n \<le> length debts"
    and "rates = map (\<lambda>d. rate d / 100 / 12) debts" and "mins = map minimumPayment debts"
    and "bs = (simulateMonth rates mins t ^^ k) (map balance debts)"
  shows "nonneg bs
       \<and> nonneg (accrueInterest rates bs)
       \<and> payState_ok t (payMinimumsUpTo n mins (accrueInterest rates bs, t))
       \<and> payState_ok t (payExtra (payMinimums mins (accrueInterest rates bs, t)))"
proof -
  from assms(1,4,5) have r: "nonneg rates" and m: "nonneg mins"
    and b0: "nonneg (map balance debts)"
    by (simp_all add: nonneg_def list_all_iff)
  from assms(2) have t: "0 \<le> t" by simp
  from assms(4,5,6) have len: "length rates = length bs" "length mins = length bs" by simp_all
  have bs: "nonneg bs"
    unfolding assms(6) using r m b0 t by (rule nonneg_funpow_simulateMonth) (simp_all add: assms(4,5))
  have acc: "nonneg (accrueInterest rates bs)"
    using r bs len(1) by (rule nonneg_accrueInterest)
  with t have "payState_ok t (accrueInterest rates bs, t)" by (simp add: payState_ok_def)
  with m have "payState_ok t (payMinimumsUpTo n mins (accrueInterest rates bs, t))"
    by (rule payState_ok_payMinimumsUpTo) (use assms(3,4,5,6) in simp_all)
  moreover have "payState_ok t (payExtra (payMinimums mins (accrueInterest rates bs, t)))"
    using r m bs t len by (rule payState_ok_month)
  ultimately show ?thesis using bs acc by simp
qed

theorem simulation_balances_nonnegative_witness:
  "nonneg ((simulateMonth [20 / 100 / 12, 5 / 100 / 12] [25, 100] 125 ^^ 1) [500, 5000])
   \<and> payState_ok 125 (payMinimumsUpTo 1 [25, 100]
        (accrueInterest [20 / 100 / 12, 5 / 100 / 12]
           ((simulateMonth [20 / 100 / 12, 5 / 100 / 12] [25, 100] 125 ^^ 1) [500, 5000]), 125))"
  using simulation_balances_nonnegative
    [of "[\<lparr>name = ''A'', balance = 500, rate = 20, minimumPayment = 25\<rparr>,
          \<lparr>name = ''B'', balance = 5000, rate = 5, minimumPayment = 100\<rparr>]"
        125 1 "[20 / 100 / 12, 5 / 100 / 12]" "[25, 100]"
        "(simulateMonth [20 / 100 / 12, 5 / 100 / 12] [25, 100] 125 ^^ 1) [500, 5000]" 1]
  by simp

section \<open>Engine: evaluation\<close>

lemmas total_defs =
  totalRealEstateEquity_def totalStocks_def totalCrypto_def totalRetirement_def totalAssets_def
  totalMortgageBalances_def monthlyMortgagePayments_def totalDebtsOnly_def totalDebts_def
  totalAllObligations_def netWorth_def badDebts_def goodDebtsFromTable_def payment_def
  badDebtTotal_def goodDebtTotal_def badDebtMonthly_def goodDebtMonthly_def
  totalAllDebtBalance_def debtWeightedSum_def mortgageWeightedSum_def weightedAvgDebtRate_def
  monthlyDebtPayments_def highInterestDebts_def highInterestDebtTotal_def debtToAssetRatio_def
  stockGains_def stockCostBasis_def oldestStockDate_def holdingYears_def annualizedReturnPct_def
  totalInvestable_def cryptoPct_def stocksPct_def annualInterest_def creditCards_def
  minOnlyDebts_def highRateDebtsAboveReturn_def isGoodDebt_def nullish_def truthy_def
  Math_pow_def

lemmas rule_defs =
  goodVsBadDebtOverview_def highInterestDebtWarning_def minimumPaymentWarning_def
  annualInterestCost_def debtPayoffInsights_def leverageInsight_def creditCardVsInvesting_def
  debtToAssetRatioInsight_def diversificationCheck_def emergencyFundCheck_def
  retirementHorizon_def ageAppropriateRisk_def highEquityExposure_def debtFree_def
  retirementAllocation_def push_def

lemma metrics_same: 
  "metrics (generateInsights realEstate stocks crypto retirement debts age now)
     = metrics (computeInsights realEstate stocks crypto retirement debts now)"
  "debtPayoff (generateInsights realEstate stocks crypto retirement debts age now)
     = debtPayoff (computeInsights realEstate stocks crypto retirement debts now)"
  by (simp_all add: generateInsights_def computeInsights_def)

lemma engines_agree_unless_debt_free:
  "\<not> (netWorth realEstate stocks crypto retirement debts > 0 \<and> debts = []) \<Longrightarrow>
   generateInsights realEstate stocks crypto retirement debts None now
     = computeInsights realEstate stocks crypto retirement debts now"
proof -
  assume "\<not> (netWorth realEstate stocks crypto retirement debts > 0 \<and> debts = [])"
  then have "debtFree cat realEstate stocks crypto retirement debts ins = ins" for cat ins
    by (auto simp: debtFree_def)
  then show ?thesis
    by (simp add: generateInsights_def computeInsights_def retirementHorizon_def
        ageAppropriateRisk_def highEquityExposure_def)
qed

lemma computeInsights_categories_declared:
  "i \<in> set (insights (computeInsights realEstate stocks crypto retirement debts now)) \<Longrightarrow>
   category i \<in> declaredCategories \<and> severity i \<in> declaredSeverities"
  by (auto dest!: computeInsights_kinds
      simp: ordinaryInsight_def isMinimumPaymentInsight_def isLeverageInsight_def)

lemma generateInsights_categories:
  "i \<in> set (insights (generateInsights realEstate stocks crypto retirement debts age now)) \<Longrightarrow>
   (category i \<in> declaredCategories \<or> isPositiveDebtFree i) \<and> severity i \<in> declaredSeverities"
  by (auto dest!: generateInsights_kinds
      simp: ordinaryInsight_def isMinimumPaymentInsight_def isLeverageInsight_def
        isPositiveDebtFree_def)

text \<open>The good and bad totals of the report, in either engine, are the totals with
  rounding at the identity rounding.\<close>

lemma reported_debt_totals:
  "Metrics.goodDebtTotal (metrics (computeInsights realEstate stocks crypto retirement debts now))
     = goodDebtTotalFl (\<lambda>x. x) realEstate debts"
  "Metrics.badDebtTotal (metrics (computeInsights realEstate stocks crypto retirement debts now))
     = badDebtTotalFl (\<lambda>x. x) debts"
  "Metrics.goodDebtTotal (metrics (generateInsights realEstate stocks crypto retirement debts age now))
     = goodDebtTotalFl (\<lambda>x. x) realEstate debts"
  "Metrics.badDebtTotal (metrics (generateInsights realEstate stocks crypto retirement debts age now))
     = badDebtTotalFl (\<lambda>x. x) debts"
  by (simp_all add: metrics_same computeInsights_def reportMetrics_def goodDebtTotalFl_id
      badDebtTotalFl_id)

section \<open>Claims about the engine\<close>

text \<open>
  C4 (as amended). A debt is good exactly when it is a mortgage, or a student loan at a rate
  of at most 7; the good and the bad debts split the debts list (each debt of the list is in
  exactly one of the two, and the two lengths add up); and every mortgage balance of the
  real-estate holdings is counted in \<open>goodDebtTotal\<close>. In double arithmetic
  \<open>goodDebtTotal + badDebtTotal\<close> is the sum of all debt balances plus the sum of all
  mortgage balances, and is the engine's own total of all obligations, when every balance is
  a whole number and the sum is below \<open>2^53\<close>. For non-negative balances that sum to at most
  \<open>10^9\<close>, over at most \<open>10^6\<close> debts and holdings, it is within \<open>(n + r + 2) / 2^24\<close> of
  that sum, and the engine's total within \<open>(n + r + 1) / 2^24\<close>, for \<open>n\<close> debts and \<open>r\<close>
  holdings.
\<close>

theorem debt_classification_doubles:
  "isGoodDebt ty ir = (ty = mortgage \<or> (ty = student_loan \<and> ir \<le> 7))
   \<and> (d \<in> set (goodDebtsFromTable debts))
       = (d \<in> set debts \<and> isGoodDebt (debtType d) (interestRate d))
   \<and> (d \<in> set (badDebts debts))
       = (d \<in> set debts \<and> \<not> isGoodDebt (debtType d) (interestRate d))
   \<and> set (goodDebtsFromTable debts) \<union> set (badDebts debts) = set debts
   \<and> set (goodDebtsFromTable debts) \<inter> set (badDebts debts) = {}
   \<and> length (goodDebtsFromTable debts) + length (badDebts debts) = length debts
   \<and> goodDebtTotalFl fl64 realEstate debts
       = fl64 (sumFl fl64 currentBalance (goodDebtsFromTable debts)
               + sumFl fl64 mortgageBalance realEstate)
   \<and> ((\<forall>x\<in>set debts. currentBalance x \<in> \<nat>) \<and> (\<forall>p\<in>set realEstate. mortgageBalance p \<in> \<nat>)
        \<and> sum_list (map currentBalance debts) + sum_list (map mortgageBalance realEstate) < 2 ^ 53
      \<longrightarrow> fl64 (goodDebtTotalFl fl64 realEstate debts + badDebtTotalFl fl64 debts)
            = sum_list (map currentBalance debts) + sum_list (map mortgageBalance realEstate)
        \<and> totalAllObligationsFl fl64 realEstate debts
            = sum_list (map currentBalance debts) + sum_list (map mortgageBalance realEstate))
   \<and> ((\<forall>x\<in>set debts. 0 \<le> currentBalance x) \<and> (\<forall>p\<in>set realEstate. 0 \<le> mortgageBalance p)
        \<and> sum_list (map currentBalance debts) + sum_list (map mortgageBalance realEstate) \<le> 10 ^ 9
        \<and> length debts + length realEstate \<le> 10 ^ 6
      \<longrightarrow> \<bar>fl64 (goodDebtTotalFl fl64 realEstate debts + badDebtTotalFl fl64 debts)
             - (sum_list (map currentBalance debts) + sum_list (map mortgageBalance realEstate))\<bar>
            \<le> real (length debts + length realEstate + 2) / 2 ^ 24
        \<and> \<bar>totalAllObligationsFl fl64 realEstate debts
             - (sum_list (map currentBalance debts) + sum_list (map mortgageBalance realEstate))\<bar>
            \<le> real (length debts + length realEstate + 1) / 2 ^ 24)"
proof -
  have good: "isGoodDebt ty ir = (ty = mortgage \<or> (ty = student_loan \<and> ir \<le> 7))"
    by (simp add: isGoodDebt_def)
  have mem: "(d \<in> set (goodDebtsFromTable debts))
       = (d \<in> set debts \<and> isGoodDebt (debtType d) (interestRate d))"
    "(d \<in> set (badDebts debts))
       = (d \<in> set debts \<and> \<not> isGoodDebt (debtType d) (interestRate d))"
    by (auto simp: goodDebtsFromTable_def badDebts_def)
  have sets: "set (goodDebtsFromTable debts) \<union> set (badDebts debts) = set debts"
    "set (goodDebtsFromTable debts) \<inter> set (badDebts debts) = {}"
    by (auto simp: goodDebtsFromTable_def badDebts_def)
  have len: "length (goodDebtsFromTable debts) + length (badDebts debts) = length debts"
    by (simp add: goodDebtsFromTable_def badDebts_def sum_length_filter_compl)
  have g: "goodDebtTotalFl fl64 realEstate debts
       = fl64 (sumFl fl64 currentBalance (goodDebtsFromTable debts)
               + sumFl fl64 mortgageBalance realEstate)"
    by (simp add: goodDebtTotalFl_def totalMortgageBalancesFl_def)
  have exact: "(\<forall>x\<in>set debts. currentBalance x \<in> \<nat>) \<and> (\<forall>p\<in>set realEstate. mortgageBalance p \<in> \<nat>)
        \<and> sum_list (map currentBalance debts) + sum_list (map mortgageBalance realEstate) < 2 ^ 53
      \<longrightarrow> fl64 (goodDebtTotalFl fl64 realEstate debts + badDebtTotalFl fl64 debts)
            = sum_list (map currentBalance debts) + sum_list (map mortgageBalance realEstate)
        \<and> totalAllObligationsFl fl64 realEstate debts
            = sum_list (map currentBalance debts) + sum_list (map mortgageBalance realEstate)"
    using debt_totals_exact [of debts realEstate] by blast
  have approx: "(\<forall>x\<in>set debts. 0 \<le> currentBalance x) \<and> (\<forall>p\<in>set realEstate. 0 \<le> mortgageBalance p)
        \<and> sum_list (map currentBalance debts) + sum_list (map mortgageBalance realEstate) \<le> 10 ^ 9
        \<and> length debts + length realEstate \<le> 10 ^ 6
      \<longrightarrow> \<bar>fl64 (goodDebtTotalFl fl64 realEstate debts + badDebtTotalFl fl64 debts)
             - (sum_list (map currentBalance debts) + sum_list (map mortgageBalance realEstate))\<bar>
            \<le> real (length debts + length realEstate + 2) / 2 ^ 24
        \<and> \<bar>totalAllObligationsFl fl64 realEstate debts
             - (sum_list (map currentBalance debts) + sum_list (map mortgageBalance realEstate))\<bar>
            \<le> real (length debts + length realEstate + 1) / 2 ^ 24"
    using debt_totals_error [of debts realEstate] by blast
  from good mem sets len g exact approx show ?thesis by (intro conjI)
qed

text \<open>A card at 1200, a student loan of 5000 at 4.5%, a car loan of 800 and a mortgage of
  250000 add up to 257000 either way. With the doubles nearest 1200.40, 4999.99 and 812.37
  for the three balances and no holdings, both totals are within \<open>5 / 2^24\<close> and \<open>4 / 2^24\<close>
  of the exact sum of the three doubles.\<close>

theorem debt_classification_doubles_witness:
  "fl64 (goodDebtTotalFl fl64 [\<lparr>estimatedValue = 400000, mortgageBalance = 250000,
           monthlyMortgagePayment = None\<rparr>]
         [\<lparr>DebtLiability.name = ''card'', debtType = credit_card, currentBalance = 1200, interestRate = 22,
            minimumPayment = 40, monthlyPayment = None\<rparr>,
          \<lparr>DebtLiability.name = ''college'', debtType = student_loan, currentBalance = 5000,
            interestRate = 4.5, minimumPayment = 60, monthlyPayment = None\<rparr>,
          \<lparr>DebtLiability.name = ''car'', debtType = auto_loan, currentBalance = 800, interestRate = 6,
            minimumPayment = 100, monthlyPayment = None\<rparr>]
       + badDebtTotalFl fl64
         [\<lparr>DebtLiability.name = ''card'', debtType = credit_card, currentBalance = 1200, interestRate = 22,
            minimumPayment = 40, monthlyPayment = None\<rparr>,
          \<lparr>DebtLiability.name = ''college'', debtType = student_loan, currentBalance = 5000,
            interestRate = 4.5, minimumPayment = 60, monthlyPayment = None\<rparr>,
          \<lparr>DebtLiability.name = ''car'', debtType = auto_loan, currentBalance = 800, interestRate = 6,
            minimumPayment = 100, monthlyPayment = None\<rparr>]) = 257000
   \<and> totalAllObligationsFl fl64 [\<lparr>estimatedValue = 400000, mortgageBalance = 250000,
           monthlyMortgagePayment = None\<rparr>]
         [\<lparr>DebtLiability.name = ''card'', debtType = credit_card, currentBalance = 1200, interestRate = 22,
            minimumPayment = 40, monthlyPayment = None\<rparr>,
          \<lparr>DebtLiability.name = ''college'', debtType = student_loan, currentBalance = 5000,
            interestRate = 4.5, minimumPayment = 60, monthlyPayment = None\<rparr>,
          \<lparr>DebtLiability.name = ''car'', debtType = auto_loan, currentBalance = 800, interestRate = 6,
            minimumPayment = 100, monthlyPayment = None\<rparr>] = 257000
   \<and> \<bar>fl64 (goodDebtTotalFl fl64 []
         [\<lparr>DebtLiability.name = ''card'', debtType = credit_card,
            currentBalance = 2639707515964621 / 2 ^ 41, interestRate = 22,
            minimumPayment = 40, monthlyPayment = None\<rparr>,
          \<lparr>DebtLiability.name = ''college'', debtType = student_loan,
            currentBalance = 2748773571881861 / 2 ^ 39,
            interestRate = 4.5, minimumPayment = 60, monthlyPayment = None\<rparr>,
          \<lparr>DebtLiability.name = ''car'', debtType = auto_loan,
            currentBalance = 7145682088451113 / 2 ^ 43, interestRate = 6,
            minimumPayment = 100, monthlyPayment = None\<rparr>]
       + badDebtTotalFl fl64
         [\<lparr>DebtLiability.name = ''card'', debtType = credit_card,
            currentBalance = 2639707515964621 / 2 ^ 41, interestRate = 22,
            minimumPayment = 40, monthlyPayment = None\<rparr>,
          \<lparr>DebtLiability.name = ''college'', debtType = student_loan,
            currentBalance = 2748773571881861 / 2 ^ 39,
            interestRate = 4.5, minimumPayment = 60, monthlyPayment = None\<rparr>,
          \<lparr>DebtLiability.name = ''car'', debtType = auto_loan,
            currentBalance = 7145682088451113 / 2 ^ 43, interestRate = 6,
            minimumPayment = 100, monthlyPayment = None\<rparr>])
       - (2639707515964621 / 2 ^ 41 + 2748773571881861 / 2 ^ 39 + 7145682088451113 / 2 ^ 43)\<bar>
     \<le> 5 / 2 ^ 24"
proof -
  define RE where "RE = [\<lparr>estimatedValue = 400000, mortgageBalance = 250000,
           monthlyMortgagePayment = None\<rparr>]"
  define DS where "DS = [\<lparr>DebtLiability.name = ''card'', debtType = credit_card, currentBalance = 1200,
            interestRate = 22, minimumPayment = 40, monthlyPayment = None\<rparr>,
          \<lparr>DebtLiability.name = ''college'', debtType = student_loan, currentBalance = 5000,
            interestRate = 4.5, minimumPayment = 60, monthlyPayment = None\<rparr>,
          \<lparr>DebtLiability.name = ''car'', debtType = auto_loan, currentBalance = 800, interestRate = 6,
            minimumPayment = 100, monthlyPayment = None\<rparr>]"
  define DC where "DC = [\<lparr>DebtLiability.name = ''card'', debtType = credit_card,
            currentBalance = 2639707515964621 / 2 ^ 41, interestRate = 22,
            minimumPayment = 40, monthlyPayment = None\<rparr>,
          \<lparr>DebtLiability.name = ''college'', debtType = student_loan,
            currentBalance = 2748773571881861 / 2 ^ 39,
            interestRate = 4.5, minimumPayment = 60, monthlyPayment = None\<rparr>,
          \<lparr>DebtLiability.name = ''car'', debtType = auto_loan,
            currentBalance = 7145682088451113 / 2 ^ 43, interestRate = 6,
            minimumPayment = 100, monthlyPayment = None\<rparr>]"
  have h1: "(\<forall>x\<in>set DS. currentBalance x \<in> \<nat>) \<and> (\<forall>p\<in>set RE. mortgageBalance p \<in> \<nat>)
        \<and> sum_list (map currentBalance DS) + sum_list (map mortgageBalance RE) < 2 ^ 53"
    by (simp add: DS_def RE_def)
  have s1: "sum_list (map currentBalance DS) + sum_list (map mortgageBalance RE) = 257000"
    by (simp add: DS_def RE_def)
  have h2: "(\<forall>x\<in>set DC. 0 \<le> currentBalance x)
        \<and> (\<forall>p\<in>set ([] :: RealEstateHolding list). 0 \<le> mortgageBalance p)
        \<and> sum_list (map currentBalance DC)
            + sum_list (map mortgageBalance ([] :: RealEstateHolding list)) \<le> 10 ^ 9
        \<and> length DC + length ([] :: RealEstateHolding list) \<le> 10 ^ 6"
    by (simp add: DC_def)
  have s2: "sum_list (map currentBalance DC)
        + sum_list (map mortgageBalance ([] :: RealEstateHolding list))
      = 2639707515964621 / 2 ^ 41 + 2748773571881861 / 2 ^ 39 + 7145682088451113 / 2 ^ 43"
    by (simp add: DC_def)
  have l2: "real (length DC + length ([] :: RealEstateHolding list) + 2) / 2 ^ 24 = 5 / 2 ^ 24"
    by (simp add: DC_def)
  note w1 = debt_classification_doubles [of mortgage 0 "hd DS" DS RE]
  note w2 = debt_classification_doubles [of mortgage 0 "hd DC" DC "[]"]
  from w1 h1 have "fl64 (goodDebtTotalFl fl64 RE DS + badDebtTotalFl fl64 DS)
            = sum_list (map currentBalance DS) + sum_list (map mortgageBalance RE)
        \<and> totalAllObligationsFl fl64 RE DS
            = sum_list (map currentBalance DS) + sum_list (map mortgageBalance RE)"
    by blast
  then have a: "fl64 (goodDebtTotalFl fl64 RE DS + badDebtTotalFl fl64 DS) = 257000
        \<and> totalAllObligationsFl fl64 RE DS = 257000"
    unfolding s1 .
  from w2 h2 have "\<bar>fl64 (goodDebtTotalFl fl64 [] DC + badDebtTotalFl fl64 DC)
             - (sum_list (map currentBalance DC)
                + sum_list (map mortgageBalance ([] :: RealEstateHolding list)))\<bar>
            \<le> real (length DC + length ([] :: RealEstateHolding list) + 2) / 2 ^ 24"
    by blast
  then have b: "\<bar>fl64 (goodDebtTotalFl fl64 [] DC + badDebtTotalFl fl64 DC)
             - (2639707515964621 / 2 ^ 41 + 2748773571881861 / 2 ^ 39
                + 7145682088451113 / 2 ^ 43)\<bar> \<le> 5 / 2 ^ 24"
    unfolding s2 l2 .
  from a b show ?thesis unfolding RE_def DS_def DC_def by (intro conjI) blast+
qed

text \<open>
  C4 as stated fails in double arithmetic. Take a credit card at 1200.40, a student loan of
  4999.99 at 4.5% and a car loan of 812.37 (each the nearest double), and no real estate:
  \<open>goodDebtTotal + badDebtTotal\<close> evaluates to the double 7012.76, and the sum of all
  balances as the engine adds them, \<open>totalAllObligations\<close>, to the double below it,
  7012.759999999999.
\<close>

theorem debt_classification_counterexample:
  "fl64 (goodDebtTotalFl fl64 []
         [\<lparr>DebtLiability.name = ''card'', debtType = credit_card, currentBalance = fl64 (120040 / 100),
            interestRate = 22, minimumPayment = 40, monthlyPayment = None\<rparr>,
          \<lparr>DebtLiability.name = ''college'', debtType = student_loan, currentBalance = fl64 (499999 / 100),
            interestRate = 4.5, minimumPayment = 60, monthlyPayment = None\<rparr>,
          \<lparr>DebtLiability.name = ''car'', debtType = auto_loan, currentBalance = fl64 (81237 / 100),
            interestRate = 6, minimumPayment = 100, monthlyPayment = None\<rparr>]
       + badDebtTotalFl fl64
         [\<lparr>DebtLiability.name = ''card'', debtType = credit_card, currentBalance = fl64 (120040 / 100),
            interestRate = 22, minimumPayment = 40, monthlyPayment = None\<rparr>,
          \<lparr>DebtLiability.name = ''college'', debtType = student_loan, currentBalance = fl64 (499999 / 100),
            interestRate = 4.5, minimumPayment = 60, monthlyPayment = None\<rparr>,
          \<lparr>DebtLiability.name = ''car'', debtType = auto_loan, currentBalance = fl64 (81237 / 100),
            interestRate = 6, minimumPayment = 100, monthlyPayment = None\<rparr>])
     = 7710611162802422 / 2 ^ 40
   \<and> totalAllObligationsFl fl64 []
         [\<lparr>DebtLiability.name = ''card'', debtType = credit_card, currentBalance = fl64 (120040 / 100),
            interestRate = 22, minimumPayment = 40, monthlyPayment = None\<rparr>,
          \<lparr>DebtLiability.name = ''college'', debtType = student_loan, currentBalance = fl64 (499999 / 100),
            interestRate = 4.5, minimumPayment = 60, monthlyPayment = None\<rparr>,
          \<lparr>DebtLiability.name = ''car'', debtType = auto_loan, currentBalance = fl64 (81237 / 100),
            interestRate = 6, minimumPayment = 100, monthlyPayment = None\<rparr>]
     = 7710611162802421 / 2 ^ 40"
proof -
  define a where "a = fl64 (120040 / 100)"
  define b where "b = fl64 (499999 / 100)"
  define c where "c = fl64 (81237 / 100)"
  have av: "a = 2639707515964621 / 2 ^ 41"
    unfolding a_def by (subst fl64_eval_small [where k = 42]) (simp_all add: rne_def)
  have bv: "b = 2748773571881861 / 2 ^ 39"
    unfolding b_def by (subst fl64_eval_small [where k = 40]) (simp_all add: rne_def)
  have cv: "c = 7145682088451113 / 2 ^ 43"
    unfolding c_def by (subst fl64_eval_small [where k = 43]) (simp_all add: rne_def)
  have fa: "fl64 a = a"
    unfolding av by (subst fl64_eval_small [where k = 42]) (simp_all add: rne_def)
  have fb: "fl64 b = b"
    unfolding bv by (subst fl64_eval_small [where k = 40]) (simp_all add: rne_def)
  have ac: "fl64 (a + c) = 4426128038077399 / 2 ^ 41"
    unfolding av cv by (subst fl64_eval_small [where k = 42]) (simp_all add: rne_def)
  have bac: "fl64 (b + 4426128038077399 / 2 ^ 41) = 7710611162802422 / 2 ^ 40"
    unfolding bv by (subst fl64_eval_small [where k = 40]) (simp_all add: rne_def)
  have ab: "fl64 (a + b) = 426087556359127 / 2 ^ 36"
    unfolding av bv by (subst fl64_eval_small [where k = 40]) (simp_all add: rne_def)
  have abc: "fl64 (426087556359127 / 2 ^ 36 + c) = 7710611162802421 / 2 ^ 40"
    unfolding cv by (subst fl64_eval_small [where k = 40]) (simp_all add: rne_def)
  have abc': "fl64 (7710611162802421 / 2 ^ 40) = 7710611162802421 / 2 ^ 40"
    by (subst fl64_eval_small [where k = 40]) (simp_all add: rne_def)
  define ds where "ds = [\<lparr>DebtLiability.name = ''card'', debtType = credit_card, currentBalance = a,
            interestRate = 22, minimumPayment = 40, monthlyPayment = None\<rparr>,
          \<lparr>DebtLiability.name = ''college'', debtType = student_loan, currentBalance = b,
            interestRate = 4.5, minimumPayment = 60, monthlyPayment = None\<rparr>,
          \<lparr>DebtLiability.name = ''car'', debtType = auto_loan, currentBalance = c,
            interestRate = 6, minimumPayment = 100, monthlyPayment = None\<rparr>]"
  have G: "goodDebtTotalFl fl64 [] ds = b"
    by (simp add: ds_def goodDebtTotalFl_def goodDebtsFromTable_def isGoodDebt_def
        totalMortgageBalancesFl_def sumFl_def fb)
  have B: "badDebtTotalFl fl64 ds = fl64 (a + c)"
    by (simp add: ds_def badDebtTotalFl_def badDebts_def isGoodDebt_def sumFl_def fa)
  have T: "totalAllObligationsFl fl64 [] ds = fl64 (fl64 (fl64 (a + b) + c))"
    by (simp add: ds_def totalAllObligationsFl_def totalDebtsOnlyFl_def
        totalMortgageBalancesFl_def sumFl_def fa)
  have L: "fl64 (goodDebtTotalFl fl64 [] ds + badDebtTotalFl fl64 ds) = 7710611162802422 / 2 ^ 40"
    unfolding G B ac by (rule bac)
  have R: "totalAllObligationsFl fl64 [] ds = 7710611162802421 / 2 ^ 40"
    unfolding T ab abc by (rule abc')
  from L R show ?thesis unfolding ds_def a_def b_def c_def by (rule conjI)
qed

text \<open>
  C5 (as amended). For every snapshot with no debts whose total assets are zero, whose
  four asset classes (real-estate equity, stocks, crypto, retirement) each have a
  non-negative total, and whose real-estate holdings carry a total mortgage balance of zero
  and total monthly mortgage payments of zero, the report of either engine has an all-zero
  metrics block, no insights and no payoff plans. The entirely empty snapshot is such a
  snapshot.
\<close>

theorem zero_snapshot_report:
  assumes "totalAssets realEstate stocks crypto retirement = 0"
    and "0 \<le> totalRealEstateEquity realEstate" and "0 \<le> totalStocks stocks"
    and "0 \<le> totalCrypto crypto" and "0 \<le> totalRetirement retirement"
    and "totalMortgageBalances realEstate = 0" and "monthlyMortgagePayments realEstate = 0"
  shows "computeInsights realEstate stocks crypto retirement [] now
           = \<lparr>generatedAt = now, insights = [], debtPayoff = None, metrics = zeroMetrics\<rparr>
       \<and> generateInsights realEstate stocks crypto retirement [] age now
           = \<lparr>generatedAt = now, insights = [], debtPayoff = None, metrics = zeroMetrics\<rparr>"
proof -
  from assms(1-5) have z: "totalRealEstateEquity realEstate = 0" "totalStocks stocks = 0"
    "totalCrypto crypto = 0" "totalRetirement retirement = 0"
    by (simp_all add: totalAssets_def)
  have m: "reportMetrics realEstate stocks crypto retirement [] = zeroMetrics"
    using z assms(6,7)
    by (simp add: reportMetrics_def zeroMetrics_def totalAssets_def totalDebts_def
        totalDebtsOnly_def netWorth_def debtToAssetRatio_def weightedAvgDebtRate_def
        totalAllDebtBalance_def monthlyDebtPayments_def highInterestDebtTotal_def
        highInterestDebts_def goodDebtTotal_def goodDebtsFromTable_def badDebtTotal_def
        badDebts_def goodDebtMonthly_def badDebtMonthly_def)
  have i: "retirementAllocation realEstate stocks crypto retirement []
        (debtFree cat realEstate stocks crypto retirement []
        (highEquityExposure realEstate stocks crypto retirement a
        (ageAppropriateRisk stocks crypto retirement a
        (retirementHorizon retirement a
        (emergencyFundCheck realEstate stocks crypto []
        (diversificationCheck stocks crypto retirement
        (debtToAssetRatioInsight realEstate stocks crypto retirement []
        (creditCardVsInvesting stocks crypto []
        (leverageInsight stocks now []
        (debtPayoffInsights realEstate stocks crypto retirement []
        (goodVsBadDebtOverview realEstate [] []))))))))))) = []" for cat a
    using z assms(6,7)
    by (simp add: retirementAllocation_def debtFree_def highEquityExposure_def
        ageAppropriateRisk_def retirementHorizon_def emergencyFundCheck_def
        diversificationCheck_def debtToAssetRatioInsight_def creditCardVsInvesting_def
        leverageInsight_def debtPayoffInsights_def goodVsBadDebtOverview_def
        totalAssets_def totalDebts_def totalDebtsOnly_def netWorth_def debtToAssetRatio_def
        totalAllObligations_def totalInvestable_def creditCards_def Let_def
        split: option.splits)
  have p: "debtPayoffPlans [] = None" by (simp add: debtPayoffPlans_def)
  from i [of "''positive''" age] i [of "''opportunity''" None] m p show ?thesis
    by (simp add: computeInsights_def generateInsights_def retirementHorizon_def
        ageAppropriateRisk_def highEquityExposure_def)
qed

theorem zero_snapshot_report_witness:
  "computeInsights [] [] [] [] [] 0
     = \<lparr>generatedAt = 0, insights = [], debtPayoff = None, metrics = zeroMetrics\<rparr>
   \<and> generateInsights [] [] [] [] [] (Some 40) 0
     = \<lparr>generatedAt = 0, insights = [], debtPayoff = None, metrics = zeroMetrics\<rparr>"
  using zero_snapshot_report [of "[]" "[]" "[]" "[]" 0 "Some 40"]
  by (simp add: total_defs)

text \<open>C5 as stated fails for a property worth 100 with a mortgage of 100: there are no
  debts and the total assets are 0, but the mortgage is counted as good debt (metrics not
  all zero) and an insight is pushed. It also fails for a holding with a monthly mortgage
  payment and no balance: the payment is counted in \<open>monthlyDebtPayments\<close>.\<close>

theorem zero_snapshot_report_counterexample:
  "totalAssets [\<lparr>estimatedValue = 100, mortgageBalance = 100, monthlyMortgagePayment = None\<rparr>] [] [] [] = 0
   \<and> Metrics.goodDebtTotal (metrics (computeInsights
        [\<lparr>estimatedValue = 100, mortgageBalance = 100, monthlyMortgagePayment = None\<rparr>] [] [] [] [] 0)) = 100
   \<and> map category (insights (computeInsights
        [\<lparr>estimatedValue = 100, mortgageBalance = 100, monthlyMortgagePayment = None\<rparr>] [] [] [] [] 0))
       = [''debt_payoff'']
   \<and> totalAssets [\<lparr>estimatedValue = 0, mortgageBalance = 0, monthlyMortgagePayment = Some 500\<rparr>] [] [] [] = 0
   \<and> Metrics.monthlyDebtPayments (metrics (computeInsights
        [\<lparr>estimatedValue = 0, mortgageBalance = 0, monthlyMortgagePayment = Some 500\<rparr>] [] [] [] [] 0)) = 500"
  by (simp add: computeInsights_def reportMetrics_def rule_defs total_defs)

text \<open>
  C6 (as amended). Every debt with a recorded monthly payment that is not 0 and is at most
  1.05 times its minimum payment is counted by the minimum-payment rule; every debt the
  rule counts has a recorded monthly payment of at most 1.05 times its minimum payment, so
  a debt without a recorded monthly payment is never counted. If the rule counts a debt,
  both engines push a warning of category \<open>cash_flow\<close>, titled "Paying only minimums on
  some debts", whose description lists exactly the counted debts; and an insight with this
  title is pushed in no other case.
\<close>

theorem minimum_payment_warning:
  "(d \<in> set debts \<and> monthlyPayment d = Some p \<and> p \<noteq> 0
        \<and> p \<le> DebtLiability.minimumPayment d * 1.05
      \<longrightarrow> d \<in> set (minOnlyDebts debts))
   \<and> (e \<in> set (minOnlyDebts debts)
      \<longrightarrow> e \<in> set debts
        \<and> (\<exists>q. monthlyPayment e = Some q \<and> q \<le> DebtLiability.minimumPayment e * 1.05))
   \<and> (minOnlyDebts debts \<noteq> [] \<longrightarrow>
        (\<exists>i\<in>set (insights (computeInsights realEstate stocks crypto retirement debts now)).
            isMinimumPaymentInsight (minOnlyDebts debts) i)
      \<and> (\<exists>i\<in>set (insights (generateInsights realEstate stocks crypto retirement debts age now)).
            isMinimumPaymentInsight (minOnlyDebts debts) i))
   \<and> (i \<in> set (insights (computeInsights realEstate stocks crypto retirement debts now))
        \<and> title i = [Lit ''Paying only minimums on some debts'']
      \<longrightarrow> minOnlyDebts debts \<noteq> [] \<and> isMinimumPaymentInsight (minOnlyDebts debts) i)
   \<and> (j \<in> set (insights (generateInsights realEstate stocks crypto retirement debts age now))
        \<and> title j = [Lit ''Paying only minimums on some debts'']
      \<longrightarrow> minOnlyDebts debts \<noteq> [] \<and> isMinimumPaymentInsight (minOnlyDebts debts) j)"
proof (intro conjI impI)
  assume "d \<in> set debts \<and> monthlyPayment d = Some p \<and> p \<noteq> 0
        \<and> p \<le> DebtLiability.minimumPayment d * 1.05"
  then show "d \<in> set (minOnlyDebts debts)"
    by (simp add: minOnlyDebts_def truthy_def)
next
  assume e: "e \<in> set (minOnlyDebts debts)"
  then show "e \<in> set debts" by (simp add: minOnlyDebts_def)
  from e show "\<exists>q. monthlyPayment e = Some q \<and> q \<le> DebtLiability.minimumPayment e * 1.05"
    by (auto simp: minOnlyDebts_def truthy_def split: option.splits)
next
  assume "minOnlyDebts debts \<noteq> []"
  then show "\<exists>i\<in>set (insights (computeInsights realEstate stocks crypto retirement debts now)).
            isMinimumPaymentInsight (minOnlyDebts debts) i"
    by (rule minimumPayment_emitted(1))
next
  assume "minOnlyDebts debts \<noteq> []"
  then show "\<exists>i\<in>set (insights (generateInsights realEstate stocks crypto retirement debts age now)).
            isMinimumPaymentInsight (minOnlyDebts debts) i"
    by (rule minimumPayment_emitted(2))
next
  assume a: "i \<in> set (insights (computeInsights realEstate stocks crypto retirement debts now))
        \<and> title i = [Lit ''Paying only minimums on some debts'']"
  with computeInsights_kinds [of i realEstate stocks crypto retirement debts now]
  have k: "minOnlyDebts debts \<noteq> [] \<and> isMinimumPaymentInsight (minOnlyDebts debts) i"
    by (auto simp: ordinaryInsight_def isLeverageInsight_def)
  from k show "minOnlyDebts debts \<noteq> []" by simp
  from k show "isMinimumPaymentInsight (minOnlyDebts debts) i" by simp
next
  assume a: "j \<in> set (insights (generateInsights realEstate stocks crypto retirement debts age now))
        \<and> title j = [Lit ''Paying only minimums on some debts'']"
  with generateInsights_kinds [of j realEstate stocks crypto retirement debts age now]
  have k: "minOnlyDebts debts \<noteq> [] \<and> isMinimumPaymentInsight (minOnlyDebts debts) j"
    by (auto simp: ordinaryInsight_def isLeverageInsight_def isPositiveDebtFree_def)
  from k show "minOnlyDebts debts \<noteq> []" by simp
  from k show "isMinimumPaymentInsight (minOnlyDebts debts) j" by simp
qed

theorem minimum_payment_warning_witness:
  "\<lparr>DebtLiability.name = ''card'', debtType = credit_card, currentBalance = 1000,
     interestRate = 20, minimumPayment = 50, monthlyPayment = Some 50\<rparr>
     \<in> set (minOnlyDebts [\<lparr>DebtLiability.name = ''card'', debtType = credit_card,
          currentBalance = 1000, interestRate = 20, minimumPayment = 50, monthlyPayment = Some 50\<rparr>])
   \<and> (\<exists>i\<in>set (insights (computeInsights [] [] [] []
          [\<lparr>DebtLiability.name = ''card'', debtType = credit_card, currentBalance = 1000,
            interestRate = 20, minimumPayment = 50, monthlyPayment = Some 50\<rparr>] 0)).
        isMinimumPaymentInsight
          (minOnlyDebts [\<lparr>DebtLiability.name = ''card'', debtType = credit_card,
             currentBalance = 1000, interestRate = 20, minimumPayment = 50,
             monthlyPayment = Some 50\<rparr>]) i)"
proof -
  let ?d = "\<lparr>DebtLiability.name = ''card'', debtType = credit_card, currentBalance = 1000,
     interestRate = 20, minimumPayment = 50, monthlyPayment = Some (50::real)\<rparr>"
  note w = minimum_payment_warning [where d = ?d and debts = "[?d]" and p = 50
      and realEstate = "[]" and stocks = "[]" and crypto = "[]" and retirement = "[]" and now = 0]
  have "?d \<in> set [?d] \<and> monthlyPayment ?d = Some 50 \<and> (50::real) \<noteq> 0
      \<and> 50 \<le> DebtLiability.minimumPayment ?d * 1.05"
    by simp
  with w have m: "?d \<in> set (minOnlyDebts [?d])" by blast
  then have "minOnlyDebts [?d] \<noteq> []" by auto
  with w have "\<exists>i\<in>set (insights (computeInsights [] [] [] [] [?d] 0)).
      isMinimumPaymentInsight (minOnlyDebts [?d]) i"
    by blast
  with m show ?thesis by simp
qed

text \<open>C6 as stated fails for a debt without a recorded monthly payment: its payment
  defaults to the minimum payment (50, at most 52.5), but no \<open>cash_flow\<close> insight is
  pushed.\<close>

theorem minimum_payment_warning_counterexample:
  "specMinOnly \<lparr>DebtLiability.name = ''loan'', debtType = other, currentBalance = 1000,
                interestRate = 20, minimumPayment = 50, monthlyPayment = None\<rparr>
   \<and> map category (insights (computeInsights []
        [\<lparr>shares = 10, costBasisPerShare = 100, StockHolding.currentPrice = None, createdAt = 0\<rparr>] [] []
        [\<lparr>DebtLiability.name = ''loan'', debtType = other, currentBalance = 1000,
          interestRate = 20, minimumPayment = 50, monthlyPayment = None\<rparr>] 0))
     = [''debt_payoff'', ''debt_payoff'', ''debt_payoff'', ''portfolio_health'', ''portfolio_health'']"
  by (simp add: specMinOnly_def computeInsights_def rule_defs total_defs)

text \<open>
  C7 (as amended). When the annualized stock return is positive, every debt whose interest
  rate exceeds it is among the debts listed by a warning of category \<open>leverage\<close> that both
  engines push, and the warning lists exactly the debts whose rate exceeds the return. When
  the annualized return is not positive, in particular when the total cost basis is not
  positive and the return is therefore 0, no leverage warning is pushed, whatever the rates
  of the debts.
\<close>

theorem leverage_warning:
  "(0 < annualizedReturnPct stocks now \<and> d \<in> set debts
      \<and> annualizedReturnPct stocks now < interestRate d \<longrightarrow>
        d \<in> set (highRateDebtsAboveReturn stocks now debts)
      \<and> (\<exists>i\<in>set (insights (computeInsights realEstate stocks crypto retirement debts now)).
            isLeverageInsight (annualizedReturnPct stocks now)
              (highRateDebtsAboveReturn stocks now debts) i)
      \<and> (\<exists>i\<in>set (insights (generateInsights realEstate stocks crypto retirement debts age now)).
            isLeverageInsight (annualizedReturnPct stocks now)
              (highRateDebtsAboveReturn stocks now debts) i))
   \<and> (e \<in> set (highRateDebtsAboveReturn stocks now debts))
        = (e \<in> set debts \<and> annualizedReturnPct stocks now < interestRate e)
   \<and> (annualizedReturnPct stocks now \<le> 0
        \<and> i \<in> set (insights (computeInsights realEstate stocks crypto retirement debts now))
      \<longrightarrow> \<not> (category i = ''leverage'' \<and> severity i = ''warning''))
   \<and> (annualizedReturnPct stocks now \<le> 0
        \<and> j \<in> set (insights (generateInsights realEstate stocks crypto retirement debts age now))
      \<longrightarrow> \<not> (category j = ''leverage'' \<and> severity j = ''warning''))
   \<and> (stockCostBasis stocks \<le> 0 \<longrightarrow> annualizedReturnPct stocks now = 0)"
proof (intro conjI impI)
  assume a: "0 < annualizedReturnPct stocks now \<and> d \<in> set debts
      \<and> annualizedReturnPct stocks now < interestRate d"
  then show m: "d \<in> set (highRateDebtsAboveReturn stocks now debts)"
    by (simp add: highRateDebtsAboveReturn_def)
  then have ne: "highRateDebtsAboveReturn stocks now debts \<noteq> []" by auto
  from a have pos: "0 < annualizedReturnPct stocks now" by simp
  from pos ne show "\<exists>i\<in>set (insights (computeInsights realEstate stocks crypto retirement debts now)).
            isLeverageInsight (annualizedReturnPct stocks now)
              (highRateDebtsAboveReturn stocks now debts) i"
    by (rule leverage_emitted(1))
  from pos ne show "\<exists>i\<in>set (insights (generateInsights realEstate stocks crypto retirement debts age now)).
            isLeverageInsight (annualizedReturnPct stocks now)
              (highRateDebtsAboveReturn stocks now debts) i"
    by (rule leverage_emitted(2))
next
  show "(e \<in> set (highRateDebtsAboveReturn stocks now debts))
        = (e \<in> set debts \<and> annualizedReturnPct stocks now < interestRate e)"
    by (simp add: highRateDebtsAboveReturn_def)
next
  assume "annualizedReturnPct stocks now \<le> 0
        \<and> i \<in> set (insights (computeInsights realEstate stocks crypto retirement debts now))"
  with computeInsights_kinds [of i realEstate stocks crypto retirement debts now]
  show "\<not> (category i = ''leverage'' \<and> severity i = ''warning'')"
    by (auto simp: ordinaryInsight_def isMinimumPaymentInsight_def)
next
  assume "annualizedReturnPct stocks now \<le> 0
        \<and> j \<in> set (insights (generateInsights realEstate stocks crypto retirement debts age now))"
  with generateInsights_kinds [of j realEstate stocks crypto retirement debts age now]
  show "\<not> (category j = ''leverage'' \<and> severity j = ''warning'')"
    by (auto simp: ordinaryInsight_def isMinimumPaymentInsight_def isPositiveDebtFree_def)
next
  assume "stockCostBasis stocks \<le> 0"
  then show "annualizedReturnPct stocks now = 0" by (simp add: annualizedReturnPct_def)
qed

text \<open>Ten shares bought at 100 and now at 110, held for under a year: the annualized return
  is 10, and a debt at 20 is listed.\<close>

theorem leverage_warning_witness:
  "annualizedReturnPct
     [\<lparr>shares = 10, costBasisPerShare = 100, StockHolding.currentPrice = Some 110, createdAt = 0\<rparr>] 0 = 10
   \<and> (\<exists>i\<in>set (insights (computeInsights []
          [\<lparr>shares = 10, costBasisPerShare = 100, StockHolding.currentPrice = Some 110, createdAt = 0\<rparr>]
          [] []
          [\<lparr>DebtLiability.name = ''loan'', debtType = other, currentBalance = 1000,
            interestRate = 20, minimumPayment = 50, monthlyPayment = None\<rparr>] 0)).
        isLeverageInsight 10
          [\<lparr>DebtLiability.name = ''loan'', debtType = other, currentBalance = 1000,
            interestRate = 20, minimumPayment = 50, monthlyPayment = None\<rparr>] i)"
proof -
  have r: "annualizedReturnPct
     [\<lparr>shares = 10, costBasisPerShare = 100, StockHolding.currentPrice = Some 110, createdAt = 0\<rparr>] 0 = 10"
    by (simp add: total_defs)
  with leverage_warning
    [of "[\<lparr>shares = 10, costBasisPerShare = 100, StockHolding.currentPrice = Some 110, createdAt = 0\<rparr>]"
        0
        "\<lparr>DebtLiability.name = ''loan'', debtType = other, currentBalance = 1000,
          interestRate = 20, minimumPayment = 50, monthlyPayment = None\<rparr>"
        "[\<lparr>DebtLiability.name = ''loan'', debtType = other, currentBalance = 1000,
           interestRate = 20, minimumPayment = 50, monthlyPayment = None\<rparr>]"
        "[]" "[]" "[]"]
  show ?thesis by (simp add: highRateDebtsAboveReturn_def)
qed

text \<open>C7 as stated fails when no stocks are held: the annualized return is 0, the debt's
  rate of 5 exceeds it, and no \<open>leverage\<close> insight is pushed.\<close>

theorem leverage_warning_counterexample:
  "annualizedReturnPct [] 0 = 0
   \<and> annualizedReturnPct [] 0
       < interestRate \<lparr>DebtLiability.name = ''loan'', debtType = other, currentBalance = 1000,
                       interestRate = 5, minimumPayment = 50, monthlyPayment = None\<rparr>
   \<and> map category (insights (computeInsights [] [] [] []
        [\<lparr>DebtLiability.name = ''loan'', debtType = other, currentBalance = 1000,
          interestRate = 5, minimumPayment = 50, monthlyPayment = None\<rparr>] 0))
     = [''debt_payoff'', ''debt_payoff'', ''cash_flow'']"
  by (simp add: computeInsights_def rule_defs total_defs)

text \<open>
  C8. The claim: every insight of a report has one of the five declared categories. The
  main-process engine breaks it on a snapshot with no debts and a positive net worth (here
  one retirement account holding 1000): its "Debt-free!" insight has the category
  \<open>positive\<close>, which is not declared.
\<close>

theorem generateInsights_undeclared_category:
  "map category (insights (generateInsights [] [] []
       [\<lparr>RetirementAccount.balance = 1000, contributions = None\<rparr>] [] None 0))
     = [''positive'', ''portfolio_health'']
   \<and> ''positive'' \<notin> declaredCategories"
  by (simp add: generateInsights_def rule_defs total_defs declaredCategories_def)

text \<open>
  C9. The claim: without an age, the two engines produce the same insights. On the
  snapshot above they do not: the browser-side engine files "Debt-free!" under
  \<open>opportunity\<close>, the main-process engine under \<open>positive\<close>.
\<close>

theorem engines_differ_when_debt_free:
  "map category (insights (computeInsights [] [] []
       [\<lparr>RetirementAccount.balance = 1000, contributions = None\<rparr>] [] 0))
     = [''opportunity'', ''portfolio_health'']
   \<and> insights (generateInsights [] [] []
       [\<lparr>RetirementAccount.balance = 1000, contributions = None\<rparr>] [] None 0)
     \<noteq> insights (computeInsights [] [] []
       [\<lparr>RetirementAccount.balance = 1000, contributions = None\<rparr>] [] 0)"
  by (simp add: generateInsights_def computeInsights_def rule_defs total_defs)

end
